theory Spec2Isabelle
  imports Complex_Main
begin

section \<open>Tensors, images and the machine state\<close>

text \<open>
  The odometry driver of \<^verbatim>\<open>RGBDOdometry.cpp\<close> works on two kinds of objects.
  Images (depth, colour, vertex and normal maps) are only ever read, or replaced by the
  result of an operation, so they are values here.  The 3x3 and 4x4 matrices
  (\<^verbatim>\<open>core::Tensor\<close> handles to shared storage) are cloned and then changed in
  place, so they live in a store and the code passes their addresses.
\<close>

datatype device = CPU nat | CUDA nat

datatype dtype = Undefined | UInt8 | UInt16 | Int32 | Int64 | Float32 | Float64

text \<open>A pixel of a floating-point image: NaN marks an invalid value.\<close>

datatype pixel = NaN | Val real

record image =
  GetRows :: int
  GetCols :: int
  GetChannels :: int
  GetDtype :: dtype
  GetDevice :: device
  pixels :: "pixel list"

text \<open>\<^verbatim>\<open>t::geometry::RGBDImage\<close> with its members \<^verbatim>\<open>color_\<close> and \<^verbatim>\<open>depth_\<close>.\<close>

record rgbd =
  color :: image
  depth :: image

text \<open>A matrix tensor, as a list of rows.\<close>

record tensor =
  t_dtype :: dtype
  t_device :: device
  t_data :: "real list list"

text \<open>
  \<^verbatim>\<open>enum class Method\<close>.  A C++ enumeration object can hold a value that is none
  of its enumerators (after a cast); \<open>Unlisted\<close> stands for those.
\<close>

datatype Method = PointToPlane | Intensity | Hybrid | Unlisted nat

text \<open>
  The four places where \<^verbatim>\<open>RGBDOdometry.cpp\<close> calls \<^verbatim>\<open>utility::LogError\<close>, the index
  error of \<^verbatim>\<open>intrinsics[-1][-1]\<close> on a tensor that has no last row or column, and the
  length check of the configuration reader in \<^verbatim>\<open>DemoTICPOdom.cpp\<close>.
\<close>

datatype error =
    DeviceMismatch device device
  | InvalidShape int int int
  | ExpectedFloat32 dtype
  | MethodNotImplemented
  | IndexOutOfRange
  | VectorLengthMismatch

text \<open>
  The calls to the image and pose kernels, in the order in which they are made.  A call of
  a pose kernel records the pyramid index it is made for.
\<close>

datatype event =
    ClipTransformCall
  | RGBToGrayCall
  | CreateVertexMapCall
  | CreateNormalMapCall
  | FilterSobelCall
  | PyrDownCall
  | PyrDownDepthCall
  | ComputePoseCall nat

record state =
  store :: "tensor list"
  trace :: "event list"

text \<open>
  A computation either returns a value or stops at a fatal error; in both cases it leaves
  a state behind.
\<close>

type_synonym 'a st = "state \<Rightarrow> (error + 'a) \<times> state"

definition ret :: "'a \<Rightarrow> 'a st" where
  "ret x s = (Inr x, s)"

text \<open>
  Modelled from the spec: \<^verbatim>\<open>utility::LogError\<close> is declared outside the files at hand;
  the spec calls every error it reports fatal, so it does not return.
\<close>

definition LogError :: "error \<Rightarrow> 'a st" where
  "LogError e s = (Inl e, s)"

definition andThen :: "'a st \<Rightarrow> ('a \<Rightarrow> 'b st) \<Rightarrow> 'b st" where
  "andThen m f s = (case m s of (Inl e, s') \<Rightarrow> (Inl e, s') | (Inr x, s') \<Rightarrow> f x s')"

definition emit :: "event \<Rightarrow> unit st" where
  "emit ev s = (Inr (), s\<lparr>trace := trace s @ [ev]\<rparr>)"

text \<open>
  The loop \<^verbatim>\<open>for (i = i0; i < n; ++i) body\<close> over the local variables \<open>x\<close>.  The
  index is an integer as in the source; it never exceeds \<open>n\<close>, which is a vector size or
  an \<^verbatim>\<open>int\<close>, so it does not overflow.
\<close>

function for_loop :: "int \<Rightarrow> int \<Rightarrow> (int \<Rightarrow> 'a \<Rightarrow> 'a st) \<Rightarrow> 'a \<Rightarrow> 'a st" where
  "for_loop i n body x s =
     (if i < n then
        (case body i x s of
           (Inl e, s') \<Rightarrow> (Inl e, s')
         | (Inr x', s') \<Rightarrow> for_loop (i + 1) n body x' s')
      else (Inr x, s))"
  by pat_completeness auto
termination
  by (relation "measure (\<lambda>(i, n, body, x, s). nat (n - i))") auto

declare for_loop.simps [simp del]

section \<open>Matrix tensors in the store\<close>

text \<open>
  Modelled from the spec: the tensor class is outside the files at hand.  The spec asks of
  the substrate a "move to device" primitive, type conversion and elementwise arithmetic.
  A new tensor takes the next free address.  \<^verbatim>\<open>To\<close> hands back the tensor it is
  given when device and dtype already agree, and a converted copy otherwise;
  \<^verbatim>\<open>Clone\<close> always copies.  The division \<^verbatim>\<open>/=\<close> and the assignment through
  \<^verbatim>\<open>[-1][-1]\<close> write into the storage of the tensor they are applied to.
\<close>

definition alloc :: "tensor \<Rightarrow> nat st" where
  "alloc t s = (Inr (length (store s)), s\<lparr>store := store s @ [t]\<rparr>)"

definition fetch :: "nat \<Rightarrow> tensor st" where
  "fetch a s = (Inr (store s ! a), s)"

definition Clone :: "nat \<Rightarrow> nat st" where
  "Clone a = andThen (fetch a) alloc"

definition To :: "nat \<Rightarrow> device \<Rightarrow> dtype \<Rightarrow> nat st" where
  "To a dev dt =
     andThen (fetch a) (\<lambda>t.
       if t_device t = dev \<and> t_dtype t = dt then ret a
       else alloc (t\<lparr>t_dtype := dt, t_device := dev\<rparr>))"

definition div_all :: "real list list \<Rightarrow> real \<Rightarrow> real list list" where
  "div_all M c = map (map (\<lambda>x. x / c)) M"

definition set_last_last :: "real list list \<Rightarrow> real \<Rightarrow> real list list" where
  "set_last_last M v = M[length M - 1 := (last M)[length (last M) - 1 := v]]"

definition div_assign :: "nat \<Rightarrow> real \<Rightarrow> unit st" where
  "div_assign a c s =
     (Inr (), s\<lparr>store := (store s)[a := (store s ! a)\<lparr>t_data := div_all (t_data (store s ! a)) c\<rparr>]\<rparr>)"

definition assign_last_last :: "nat \<Rightarrow> real \<Rightarrow> unit st" where
  "assign_last_last a v s =
     (if t_data (store s ! a) = [] \<or> last (t_data (store s ! a)) = [] then LogError IndexOutOfRange s
      else (Inr (),
            s\<lparr>store := (store s)[a := (store s ! a)\<lparr>t_data := set_last_last (t_data (store s ! a)) v\<rparr>]\<rparr>))"

definition mat_mul :: "real list list \<Rightarrow> real list list \<Rightarrow> real list list" where
  "mat_mul A B = map (\<lambda>row. map (\<lambda>col. sum_list (map2 (*) row col)) (transpose B)) A"

text \<open>\<^verbatim>\<open>a.Matmul(b)\<close>: a new tensor holding the matrix product.\<close>

definition Matmul :: "nat \<Rightarrow> nat \<Rightarrow> nat st" where
  "Matmul a b =
     andThen (fetch a) (\<lambda>A.
     andThen (fetch b) (\<lambda>B.
     alloc \<lparr>t_dtype = t_dtype A, t_device = t_device A, t_data = mat_mul (t_data A) (t_data B)\<rparr>))"

text \<open>
  A default-constructed \<^verbatim>\<open>core::Tensor\<close> (the initial elements of the per-level
  vectors) refers to no storage.
\<close>

definition empty_tensor :: tensor where
  "empty_tensor = \<lparr>t_dtype = Undefined, t_device = CPU 0, t_data = []\<rparr>"

definition empty_image :: image where
  "empty_image = \<lparr>GetRows = 0, GetCols = 0, GetChannels = 0, GetDtype = Undefined,
                   GetDevice = CPU 0, pixels = []\<rparr>"

definition deref :: "nat option \<Rightarrow> tensor st" where
  "deref h = (case h of None \<Rightarrow> ret empty_tensor | Some a \<Rightarrow> fetch a)"

section \<open>The collaborators\<close>

text \<open>
  The image operations, the pose kernels and the pose solver are defined outside the files
  at hand.  They are parameters of the model: total functions about which nothing is
  assumed.  A pose kernel returns the 6-vector of the pose increment and the residual.
\<close>

record collab =
  ClipTransform :: "image \<Rightarrow> real \<Rightarrow> real \<Rightarrow> real \<Rightarrow> pixel \<Rightarrow> image"
  RGBToGray :: "image \<Rightarrow> image"
  ImageTo :: "image \<Rightarrow> dtype \<Rightarrow> image"
  CreateVertexMap :: "image \<Rightarrow> tensor \<Rightarrow> pixel \<Rightarrow> image"
  CreateNormalMap :: "image \<Rightarrow> pixel \<Rightarrow> image"
  FilterSobel :: "image \<Rightarrow> image \<times> image"
  PyrDown :: "image \<Rightarrow> image"
  kernel_PyrDownDepth :: "image \<Rightarrow> real \<Rightarrow> pixel \<Rightarrow> pixel list"
  kernel_ComputePosePointToPlane ::
    "image \<Rightarrow> image \<Rightarrow> image \<Rightarrow> tensor \<Rightarrow> tensor \<Rightarrow> real \<Rightarrow> real list \<times> real"
  kernel_ComputePoseIntensity ::
    "image \<Rightarrow> image \<Rightarrow> image \<Rightarrow> image \<Rightarrow> image \<Rightarrow> image \<Rightarrow> image \<Rightarrow>
     tensor \<Rightarrow> tensor \<Rightarrow> real \<Rightarrow> real list \<times> real"
  kernel_ComputePoseHybrid ::
    "image \<Rightarrow> image \<Rightarrow> image \<Rightarrow> image \<Rightarrow> image \<Rightarrow> image \<Rightarrow> image \<Rightarrow> image \<Rightarrow> image \<Rightarrow>
     tensor \<Rightarrow> tensor \<Rightarrow> real \<Rightarrow> real list \<times> real"
  PoseToTransformation :: "real list \<Rightarrow> real list list"

section \<open>Depth downsampling\<close>

text \<open>
  \<^verbatim>\<open>PyrDownDepth\<close> of the anonymous namespace: two checks, then a destination tensor of
  shape \<^verbatim>\<open>{rows / 2, cols / 2, 1}\<close> with the dtype and device of the source, filled by
  the kernel.  The division is C++ integer division of a positive number.
\<close>

definition PyrDownDepth :: "collab \<Rightarrow> image \<Rightarrow> real \<Rightarrow> pixel \<Rightarrow> image st" where
  "PyrDownDepth K src diff_threshold invalid_fill =
     (if GetRows src \<le> 0 \<or> GetCols src \<le> 0 \<or> GetChannels src \<noteq> 1 then
        LogError (InvalidShape (GetRows src) (GetCols src) (GetChannels src))
      else if GetDtype src \<noteq> Float32 then
        LogError (ExpectedFloat32 (GetDtype src))
      else
        andThen (emit PyrDownDepthCall) (\<lambda>_.
        ret \<lparr>GetRows = GetRows src div 2, GetCols = GetCols src div 2, GetChannels = 1,
             GetDtype = GetDtype src, GetDevice = GetDevice src,
             pixels = kernel_PyrDownDepth K src diff_threshold invalid_fill\<rparr>))"

section \<open>The pose kernels\<close>

text \<open>A call of a collaborator that computes an image is recorded in the trace.\<close>

definition call :: "event \<Rightarrow> 'a \<Rightarrow> 'a st" where
  "call ev x = andThen (emit ev) (\<lambda>_. ret x)"

text \<open>
  \<^verbatim>\<open>ComputePosePointToPlane\<close>, \<^verbatim>\<open>ComputePoseIntensity\<close> and
  \<^verbatim>\<open>ComputePoseHybrid\<close> run their kernel, drop the residual and return
  \<^verbatim>\<open>PoseToTransformation(se3_delta)\<close>.  Modelled from the spec: the transformation is
  a new 4x4 double-precision matrix on the host.
\<close>

definition ComputePosePointToPlane ::
  "collab \<Rightarrow> image \<Rightarrow> image \<Rightarrow> image \<Rightarrow> nat option \<Rightarrow> nat \<Rightarrow> real \<Rightarrow> nat st" where
  "ComputePosePointToPlane K source_vertex_map target_vertex_map target_normal_map
       intrinsics init_source_to_target depth_diff =
     andThen (deref intrinsics) (\<lambda>Km.
     andThen (fetch init_source_to_target) (\<lambda>T.
       case kernel_ComputePosePointToPlane K source_vertex_map target_vertex_map
              target_normal_map Km T depth_diff of
         (se3_delta, residual) \<Rightarrow>
           alloc \<lparr>t_dtype = Float64, t_device = CPU 0,
                  t_data = PoseToTransformation K se3_delta\<rparr>))"

definition ComputePoseIntensity ::
  "collab \<Rightarrow> image \<Rightarrow> image \<Rightarrow> image \<Rightarrow> image \<Rightarrow> image \<Rightarrow> image \<Rightarrow> image \<Rightarrow>
   nat option \<Rightarrow> nat \<Rightarrow> real \<Rightarrow> nat st" where
  "ComputePoseIntensity K source_depth target_depth source_intensity target_intensity
       target_intensity_dx target_intensity_dy source_vertex_map
       intrinsics init_source_to_target depth_diff =
     andThen (deref intrinsics) (\<lambda>Km.
     andThen (fetch init_source_to_target) (\<lambda>T.
       case kernel_ComputePoseIntensity K source_depth target_depth source_intensity
              target_intensity target_intensity_dx target_intensity_dy source_vertex_map
              Km T depth_diff of
         (se3_delta, residual) \<Rightarrow>
           alloc \<lparr>t_dtype = Float64, t_device = CPU 0,
                  t_data = PoseToTransformation K se3_delta\<rparr>))"

definition ComputePoseHybrid ::
  "collab \<Rightarrow> image \<Rightarrow> image \<Rightarrow> image \<Rightarrow> image \<Rightarrow> image \<Rightarrow> image \<Rightarrow> image \<Rightarrow> image \<Rightarrow>
   image \<Rightarrow> nat option \<Rightarrow> nat \<Rightarrow> real \<Rightarrow> nat st" where
  "ComputePoseHybrid K source_depth target_depth source_intensity target_intensity
       target_depth_dx target_depth_dy target_intensity_dx target_intensity_dy
       source_vertex_map intrinsics init_source_to_target depth_diff =
     andThen (deref intrinsics) (\<lambda>Km.
     andThen (fetch init_source_to_target) (\<lambda>T.
       case kernel_ComputePoseHybrid K source_depth target_depth source_intensity
              target_intensity target_depth_dx target_depth_dy target_intensity_dx
              target_intensity_dy source_vertex_map Km T depth_diff of
         (se3_delta, residual) \<Rightarrow>
           alloc \<lparr>t_dtype = Float64, t_device = CPU 0,
                  t_data = PoseToTransformation K se3_delta\<rparr>))"

section \<open>The three cost methods\<close>

text \<open>
  The local variables of the pyramid loops.  The per-level vectors are created with
  \<open>n_levels\<close> default elements and filled by index; \<open>intrinsic_matrices\<close> holds
  addresses of clones in the store.
\<close>

record pyramid_base =
  source_depth_curr :: image
  target_depth_curr :: image
  source_vertex_maps :: "image list"
  intrinsic_matrices :: "nat option list"

record pyramid_point_to_plane = pyramid_base +
  target_vertex_maps :: "image list"
  target_normal_maps :: "image list"

record pyramid_intensity = pyramid_base +
  source_intensity_curr :: image
  target_intensity_curr :: image
  source_intensity :: "image list"
  target_intensity :: "image list"
  source_depth :: "image list"
  target_depth :: "image list"
  target_intensity_dx :: "image list"
  target_intensity_dy :: "image list"

record pyramid_hybrid = pyramid_intensity +
  target_depth_dx :: "image list"
  target_depth_dy :: "image list"

text \<open>
  \<^verbatim>\<open>intrinsics /= 2; intrinsics[-1][-1] = 1;\<close> on the working intrinsics at address
  \<open>intrinsics\<close>.
\<close>

definition halve_intrinsics :: "nat \<Rightarrow> unit st" where
  "halve_intrinsics intrinsics =
     andThen (div_assign intrinsics 2) (\<lambda>_. assign_last_last intrinsics 1)"

subsection \<open>Point-to-plane\<close>

definition PointToPlane_pyramid_body ::
  "collab \<Rightarrow> nat \<Rightarrow> real \<Rightarrow> int \<Rightarrow> int \<Rightarrow> pyramid_point_to_plane \<Rightarrow> pyramid_point_to_plane st" where
  "PointToPlane_pyramid_body K intrinsics depth_diff n_levels i v =
     andThen (fetch intrinsics) (\<lambda>Km.
     andThen (call CreateVertexMapCall (CreateVertexMap K (source_depth_curr v) Km NaN))
       (\<lambda>source_vertex_map.
     andThen (call CreateVertexMapCall (CreateVertexMap K (target_depth_curr v) Km NaN))
       (\<lambda>target_vertex_map.
     andThen (call CreateNormalMapCall (CreateNormalMap K target_vertex_map NaN))
       (\<lambda>target_normal_map.
     andThen (Clone intrinsics) (\<lambda>c.
       let v1 = v\<lparr>source_vertex_maps :=
                     (source_vertex_maps v)[nat (n_levels - 1 - i) := source_vertex_map],
                   target_vertex_maps :=
                     (target_vertex_maps v)[nat (n_levels - 1 - i) := target_vertex_map],
                   target_normal_maps :=
                     (target_normal_maps v)[nat (n_levels - 1 - i) := target_normal_map],
                   intrinsic_matrices :=
                     (intrinsic_matrices v)[nat (n_levels - 1 - i) := Some c]\<rparr>
       in if i \<noteq> n_levels - 1 then
            andThen (PyrDownDepth K (source_depth_curr v1) (depth_diff * 2) NaN) (\<lambda>sd.
            andThen (PyrDownDepth K (target_depth_curr v1) (depth_diff * 2) NaN) (\<lambda>td.
            andThen (halve_intrinsics intrinsics) (\<lambda>_.
            ret (v1\<lparr>source_depth_curr := sd, target_depth_curr := td\<rparr>))))
          else ret v1)))))"

definition PointToPlane_pyramid ::
  "collab \<Rightarrow> rgbd \<Rightarrow> rgbd \<Rightarrow> nat \<Rightarrow> real \<Rightarrow> int \<Rightarrow> pyramid_point_to_plane st" where
  "PointToPlane_pyramid K source target intrinsics depth_diff n_levels =
     for_loop 0 n_levels (PointToPlane_pyramid_body K intrinsics depth_diff n_levels)
       \<lparr>source_depth_curr = depth source,
        target_depth_curr = depth target,
        source_vertex_maps = replicate (nat n_levels) empty_image,
        intrinsic_matrices = replicate (nat n_levels) None,
        target_vertex_maps = replicate (nat n_levels) empty_image,
        target_normal_maps = replicate (nat n_levels) empty_image\<rparr>"

text \<open>
  One Gauss-Newton iteration at pyramid index \<open>i\<close>:
  \<^verbatim>\<open>trans = delta_source_to_target.Matmul(trans).Contiguous()\<close>, where \<open>transf\<close>
  stands for the variable \<^verbatim>\<open>trans\<close>.  The product is a new dense tensor, which
  \<^verbatim>\<open>Contiguous\<close> returns as it is.
\<close>

definition PointToPlane_iteration ::
  "collab \<Rightarrow> pyramid_point_to_plane \<Rightarrow> real \<Rightarrow> int \<Rightarrow> nat \<Rightarrow> nat st" where
  "PointToPlane_iteration K v depth_diff i transf =
     andThen (emit (ComputePoseCall (nat i))) (\<lambda>_.
     andThen (ComputePosePointToPlane K (source_vertex_maps v ! nat i)
                (target_vertex_maps v ! nat i) (target_normal_maps v ! nat i)
                (intrinsic_matrices v ! nat i) transf depth_diff)
       (\<lambda>delta_source_to_target.
     Matmul delta_source_to_target transf))"

definition PointToPlane_odometry ::
  "collab \<Rightarrow> pyramid_point_to_plane \<Rightarrow> real \<Rightarrow> int list \<Rightarrow> int \<Rightarrow> nat \<Rightarrow> nat st" where
  "PointToPlane_odometry K v depth_diff iterations n_levels transf =
     for_loop 0 n_levels
       (\<lambda>i. for_loop 0 (iterations ! nat i) (\<lambda>iter. PointToPlane_iteration K v depth_diff i))
       transf"

definition RGBDOdometryMultiScalePointToPlane ::
  "collab \<Rightarrow> rgbd \<Rightarrow> rgbd \<Rightarrow> nat \<Rightarrow> nat \<Rightarrow> real \<Rightarrow> real \<Rightarrow> real \<Rightarrow> int list \<Rightarrow> nat st" where
  "RGBDOdometryMultiScalePointToPlane K source target intrinsics transf
       depth_scale depth_max depth_diff iterations =
     (let n_levels = int (length iterations) in
      andThen (PointToPlane_pyramid K source target intrinsics depth_diff n_levels) (\<lambda>v.
      PointToPlane_odometry K v depth_diff iterations n_levels transf))"

subsection \<open>Intensity\<close>

definition Intensity_pyramid_body ::
  "collab \<Rightarrow> nat \<Rightarrow> real \<Rightarrow> int \<Rightarrow> int \<Rightarrow> pyramid_intensity \<Rightarrow> pyramid_intensity st" where
  "Intensity_pyramid_body K intrinsics depth_diff n_levels i v =
     andThen (fetch intrinsics) (\<lambda>Km.
     andThen (call CreateVertexMapCall (CreateVertexMap K (source_depth_curr v) Km NaN))
       (\<lambda>source_vertex_map.
     andThen (call FilterSobelCall (FilterSobel K (target_intensity_curr v)))
       (\<lambda>target_intensity_grad.
     andThen (Clone intrinsics) (\<lambda>c.
       let v1 = v\<lparr>source_depth :=
                     (source_depth v)[nat (n_levels - 1 - i) := source_depth_curr v],
                   target_depth :=
                     (target_depth v)[nat (n_levels - 1 - i) := target_depth_curr v],
                   source_intensity :=
                     (source_intensity v)[nat (n_levels - 1 - i) := source_intensity_curr v],
                   target_intensity :=
                     (target_intensity v)[nat (n_levels - 1 - i) := target_intensity_curr v],
                   source_vertex_maps :=
                     (source_vertex_maps v)[nat (n_levels - 1 - i) := source_vertex_map],
                   target_intensity_dx :=
                     (target_intensity_dx v)[nat (n_levels - 1 - i) := fst target_intensity_grad],
                   target_intensity_dy :=
                     (target_intensity_dy v)[nat (n_levels - 1 - i) := snd target_intensity_grad],
                   intrinsic_matrices :=
                     (intrinsic_matrices v)[nat (n_levels - 1 - i) := Some c]\<rparr>
       in if i \<noteq> n_levels - 1 then
            andThen (PyrDownDepth K (source_depth_curr v1) (depth_diff * 2) NaN) (\<lambda>sd.
            andThen (PyrDownDepth K (target_depth_curr v1) (depth_diff * 2) NaN) (\<lambda>td.
            andThen (call PyrDownCall (PyrDown K (source_intensity_curr v1))) (\<lambda>si.
            andThen (call PyrDownCall (PyrDown K (target_intensity_curr v1))) (\<lambda>ti.
            andThen (halve_intrinsics intrinsics) (\<lambda>_.
            ret (v1\<lparr>source_depth_curr := sd, target_depth_curr := td,
                     source_intensity_curr := si, target_intensity_curr := ti\<rparr>))))))
          else ret v1))))"

definition Intensity_pyramid ::
  "collab \<Rightarrow> rgbd \<Rightarrow> rgbd \<Rightarrow> nat \<Rightarrow> real \<Rightarrow> int \<Rightarrow> pyramid_intensity st" where
  "Intensity_pyramid K source target intrinsics depth_diff n_levels =
     andThen (call RGBToGrayCall (ImageTo K (RGBToGray K (color source)) Float32)) (\<lambda>si0.
     andThen (call RGBToGrayCall (ImageTo K (RGBToGray K (color target)) Float32)) (\<lambda>ti0.
     for_loop 0 n_levels (Intensity_pyramid_body K intrinsics depth_diff n_levels)
       \<lparr>source_depth_curr = depth source,
        target_depth_curr = depth target,
        source_vertex_maps = replicate (nat n_levels) empty_image,
        intrinsic_matrices = replicate (nat n_levels) None,
        source_intensity_curr = si0,
        target_intensity_curr = ti0,
        source_intensity = replicate (nat n_levels) empty_image,
        target_intensity = replicate (nat n_levels) empty_image,
        source_depth = replicate (nat n_levels) empty_image,
        target_depth = replicate (nat n_levels) empty_image,
        target_intensity_dx = replicate (nat n_levels) empty_image,
        target_intensity_dy = replicate (nat n_levels) empty_image\<rparr>))"

definition Intensity_iteration ::
  "collab \<Rightarrow> pyramid_intensity \<Rightarrow> real \<Rightarrow> int \<Rightarrow> nat \<Rightarrow> nat st" where
  "Intensity_iteration K v depth_diff i transf =
     andThen (emit (ComputePoseCall (nat i))) (\<lambda>_.
     andThen (ComputePoseIntensity K (source_depth v ! nat i) (target_depth v ! nat i)
                (source_intensity v ! nat i) (target_intensity v ! nat i)
                (target_intensity_dx v ! nat i) (target_intensity_dy v ! nat i)
                (source_vertex_maps v ! nat i) (intrinsic_matrices v ! nat i) transf depth_diff)
       (\<lambda>delta_source_to_target.
     Matmul delta_source_to_target transf))"

definition Intensity_odometry ::
  "collab \<Rightarrow> pyramid_intensity \<Rightarrow> real \<Rightarrow> int list \<Rightarrow> int \<Rightarrow> nat \<Rightarrow> nat st" where
  "Intensity_odometry K v depth_diff iterations n_levels transf =
     for_loop 0 n_levels
       (\<lambda>i. for_loop 0 (iterations ! nat i) (\<lambda>iter. Intensity_iteration K v depth_diff i))
       transf"

definition RGBDOdometryMultiScaleIntensity ::
  "collab \<Rightarrow> rgbd \<Rightarrow> rgbd \<Rightarrow> nat \<Rightarrow> nat \<Rightarrow> real \<Rightarrow> real \<Rightarrow> real \<Rightarrow> int list \<Rightarrow> nat st" where
  "RGBDOdometryMultiScaleIntensity K source target intrinsics transf
       depth_scale depth_max depth_diff iterations =
     (let n_levels = int (length iterations) in
      andThen (Intensity_pyramid K source target intrinsics depth_diff n_levels) (\<lambda>v.
      Intensity_odometry K v depth_diff iterations n_levels transf))"

subsection \<open>Hybrid\<close>

definition Hybrid_pyramid_body ::
  "collab \<Rightarrow> nat \<Rightarrow> real \<Rightarrow> int \<Rightarrow> int \<Rightarrow> pyramid_hybrid \<Rightarrow> pyramid_hybrid st" where
  "Hybrid_pyramid_body K intrinsics depth_diff n_levels i v =
     andThen (fetch intrinsics) (\<lambda>Km.
     andThen (call CreateVertexMapCall (CreateVertexMap K (source_depth_curr v) Km NaN))
       (\<lambda>source_vertex_map.
     andThen (call FilterSobelCall (FilterSobel K (target_intensity_curr v)))
       (\<lambda>target_intensity_grad.
     andThen (call FilterSobelCall (FilterSobel K (target_depth_curr v)))
       (\<lambda>target_depth_grad.
     andThen (Clone intrinsics) (\<lambda>c.
       let v1 = v\<lparr>source_depth :=
                     (source_depth v)[nat (n_levels - 1 - i) := source_depth_curr v],
                   target_depth :=
                     (target_depth v)[nat (n_levels - 1 - i) := target_depth_curr v],
                   source_intensity :=
                     (source_intensity v)[nat (n_levels - 1 - i) := source_intensity_curr v],
                   target_intensity :=
                     (target_intensity v)[nat (n_levels - 1 - i) := target_intensity_curr v],
                   source_vertex_maps :=
                     (source_vertex_maps v)[nat (n_levels - 1 - i) := source_vertex_map],
                   target_intensity_dx :=
                     (target_intensity_dx v)[nat (n_levels - 1 - i) := fst target_intensity_grad],
                   target_intensity_dy :=
                     (target_intensity_dy v)[nat (n_levels - 1 - i) := snd target_intensity_grad],
                   target_depth_dx :=
                     (target_depth_dx v)[nat (n_levels - 1 - i) := fst target_depth_grad],
                   target_depth_dy :=
                     (target_depth_dy v)[nat (n_levels - 1 - i) := snd target_depth_grad],
                   intrinsic_matrices :=
                     (intrinsic_matrices v)[nat (n_levels - 1 - i) := Some c]\<rparr>
       in if i \<noteq> n_levels - 1 then
            andThen (PyrDownDepth K (source_depth_curr v1) (depth_diff * 2) NaN) (\<lambda>sd.
            andThen (PyrDownDepth K (target_depth_curr v1) (depth_diff * 2) NaN) (\<lambda>td.
            andThen (call PyrDownCall (PyrDown K (source_intensity_curr v1))) (\<lambda>si.
            andThen (call PyrDownCall (PyrDown K (target_intensity_curr v1))) (\<lambda>ti.
            andThen (halve_intrinsics intrinsics) (\<lambda>_.
            ret (v1\<lparr>source_depth_curr := sd, target_depth_curr := td,
                     source_intensity_curr := si, target_intensity_curr := ti\<rparr>))))))
          else ret v1)))))"

definition Hybrid_pyramid ::
  "collab \<Rightarrow> rgbd \<Rightarrow> rgbd \<Rightarrow> nat \<Rightarrow> real \<Rightarrow> int \<Rightarrow> pyramid_hybrid st" where
  "Hybrid_pyramid K source target intrinsics depth_diff n_levels =
     andThen (call RGBToGrayCall (ImageTo K (RGBToGray K (color source)) Float32)) (\<lambda>si0.
     andThen (call RGBToGrayCall (ImageTo K (RGBToGray K (color target)) Float32)) (\<lambda>ti0.
     for_loop 0 n_levels (Hybrid_pyramid_body K intrinsics depth_diff n_levels)
       \<lparr>source_depth_curr = depth source,
        target_depth_curr = depth target,
        source_vertex_maps = replicate (nat n_levels) empty_image,
        intrinsic_matrices = replicate (nat n_levels) None,
        source_intensity_curr = si0,
        target_intensity_curr = ti0,
        source_intensity = replicate (nat n_levels) empty_image,
        target_intensity = replicate (nat n_levels) empty_image,
        source_depth = replicate (nat n_levels) empty_image,
        target_depth = replicate (nat n_levels) empty_image,
        target_intensity_dx = replicate (nat n_levels) empty_image,
        target_intensity_dy = replicate (nat n_levels) empty_image,
        target_depth_dx = replicate (nat n_levels) empty_image,
        target_depth_dy = replicate (nat n_levels) empty_image\<rparr>))"

definition Hybrid_iteration ::
  "collab \<Rightarrow> pyramid_hybrid \<Rightarrow> real \<Rightarrow> int \<Rightarrow> nat \<Rightarrow> nat st" where
  "Hybrid_iteration K v depth_diff i transf =
     andThen (emit (ComputePoseCall (nat i))) (\<lambda>_.
     andThen (ComputePoseHybrid K (source_depth v ! nat i) (target_depth v ! nat i)
                (source_intensity v ! nat i) (target_intensity v ! nat i)
                (target_depth_dx v ! nat i) (target_depth_dy v ! nat i)
                (target_intensity_dx v ! nat i) (target_intensity_dy v ! nat i)
                (source_vertex_maps v ! nat i) (intrinsic_matrices v ! nat i) transf depth_diff)
       (\<lambda>delta_source_to_target.
     Matmul delta_source_to_target transf))"

definition Hybrid_odometry ::
  "collab \<Rightarrow> pyramid_hybrid \<Rightarrow> real \<Rightarrow> int list \<Rightarrow> int \<Rightarrow> nat \<Rightarrow> nat st" where
  "Hybrid_odometry K v depth_diff iterations n_levels transf =
     for_loop 0 n_levels
       (\<lambda>i. for_loop 0 (iterations ! nat i) (\<lambda>iter. Hybrid_iteration K v depth_diff i))
       transf"

definition RGBDOdometryMultiScaleHybrid ::
  "collab \<Rightarrow> rgbd \<Rightarrow> rgbd \<Rightarrow> nat \<Rightarrow> nat \<Rightarrow> real \<Rightarrow> real \<Rightarrow> real \<Rightarrow> int list \<Rightarrow> nat st" where
  "RGBDOdometryMultiScaleHybrid K source target intrinsics transf
       depth_scale depth_max depth_diff iterations =
     (let n_levels = int (length iterations) in
      andThen (Hybrid_pyramid K source target intrinsics depth_diff n_levels) (\<lambda>v.
      Hybrid_odometry K v depth_diff iterations n_levels transf))"

section \<open>The driver\<close>

text \<open>
  The two depth images are passed through \<^verbatim>\<open>ClipTransform(depth_scale, 0, depth_max, NAN)\<close>
  and paired again with the colour images.
\<close>

definition Preprocess :: "collab \<Rightarrow> rgbd \<Rightarrow> rgbd \<Rightarrow> real \<Rightarrow> real \<Rightarrow> (rgbd \<times> rgbd) st" where
  "Preprocess K source target depth_scale depth_max =
     andThen (call ClipTransformCall (ClipTransform K (depth source) depth_scale 0 depth_max NaN))
       (\<lambda>source_depth_processed.
     andThen (call ClipTransformCall (ClipTransform K (depth target) depth_scale 0 depth_max NaN))
       (\<lambda>target_depth_processed.
     ret (\<lparr>color = color source, depth = source_depth_processed\<rparr>,
          \<lparr>color = color target, depth = target_depth_processed\<rparr>)))"

text \<open>
  The dispatch on the cost method; a method value that is none of the three enumerators is
  reported with \<^verbatim>\<open>"Odometry method not implemented."\<close>.
\<close>

definition MethodDispatch ::
  "collab \<Rightarrow> Method \<Rightarrow> rgbd \<Rightarrow> rgbd \<Rightarrow> nat \<Rightarrow> nat \<Rightarrow> real \<Rightarrow> real \<Rightarrow> real \<Rightarrow> int list \<Rightarrow> nat st" where
  "MethodDispatch K method source_processed target_processed intrinsics_d trans_d
       depth_scale depth_max depth_diff iterations =
     (case method of
        PointToPlane \<Rightarrow>
          RGBDOdometryMultiScalePointToPlane K source_processed target_processed
            intrinsics_d trans_d depth_scale depth_max depth_diff iterations
      | Intensity \<Rightarrow>
          RGBDOdometryMultiScaleIntensity K source_processed target_processed
            intrinsics_d trans_d depth_scale depth_max depth_diff iterations
      | Hybrid \<Rightarrow>
          RGBDOdometryMultiScaleHybrid K source_processed target_processed
            intrinsics_d trans_d depth_scale depth_max depth_diff iterations
      | Unlisted m \<Rightarrow> LogError MethodNotImplemented)"

text \<open>
  \<^verbatim>\<open>RGBDOdometryMultiScale\<close>: the device check, the two host copies in double
  precision, the preprocessing and the dispatch.
\<close>

definition RGBDOdometryMultiScale ::
  "collab \<Rightarrow> rgbd \<Rightarrow> rgbd \<Rightarrow> nat \<Rightarrow> nat \<Rightarrow> real \<Rightarrow> real \<Rightarrow> real \<Rightarrow> int list \<Rightarrow> Method \<Rightarrow> nat st" where
  "RGBDOdometryMultiScale K source target intrinsics init_source_to_target
       depth_scale depth_max depth_diff iterations method =
     (let device = GetDevice (depth source) in
      if GetDevice (depth target) \<noteq> device then
        LogError (DeviceMismatch device (GetDevice (depth target)))
      else
        andThen (To intrinsics (CPU 0) Float64) (\<lambda>a.
        andThen (Clone a) (\<lambda>intrinsics_d.
        andThen (To init_source_to_target (CPU 0) Float64) (\<lambda>b.
        andThen (Clone b) (\<lambda>trans_d.
        andThen (Preprocess K source target depth_scale depth_max)
          (\<lambda>(source_processed, target_processed).
        MethodDispatch K method source_processed target_processed intrinsics_d trans_d
          depth_scale depth_max depth_diff iterations))))))"

section \<open>The length check of the configuration reader\<close>

text \<open>
  The end of \<^verbatim>\<open>ExampleWindow::ReadConfigFile\<close> in \<^verbatim>\<open>DemoTICPOdom.cpp\<close>: the vectors
  read from the configuration file must be as long as \<^verbatim>\<open>voxel_sizes_\<close>; then one
  convergence criterion per entry is appended to \<^verbatim>\<open>criterias_\<close>.  The vector lengths
  are far below the range of \<^verbatim>\<open>int\<close>, so the cast of the length changes nothing.
\<close>

record ICPConvergenceCriteria =
  crit_relative_fitness :: real
  crit_relative_rmse :: real
  crit_max_iteration :: int

definition ReadConfigFile_criteria ::
  "real list \<Rightarrow> real list \<Rightarrow> int list \<Rightarrow> real list \<Rightarrow> real list \<Rightarrow>
   ICPConvergenceCriteria list \<Rightarrow> ICPConvergenceCriteria list st" where
  "ReadConfigFile_criteria voxel_sizes search_radius max_iterations relative_fitness
       relative_rmse criterias =
     (if length search_radius \<noteq> length voxel_sizes \<or>
         length max_iterations \<noteq> length voxel_sizes \<or>
         length relative_fitness \<noteq> length voxel_sizes \<or>
         length relative_rmse \<noteq> length voxel_sizes then
        LogError VectorLengthMismatch
      else
        for_loop 0 (int (length voxel_sizes))
          (\<lambda>i cs. ret (cs @ [\<lparr>crit_relative_fitness = relative_fitness ! nat i,
                                crit_relative_rmse = relative_rmse ! nat i,
                                crit_max_iteration = max_iterations ! nat i\<rparr>]))
          criterias)"

section \<open>Depth clipping as the spec describes it\<close>

text \<open>
  Modelled from the spec: \<^verbatim>\<open>Image::ClipTransform\<close> is outside the files at hand.  The
  spec's contract for it: values outside \<open>[min, max]\<close> after dividing by the scale are
  replaced by the fill value, all other values are divided by the scale; the input is left
  untouched.  An invalid pixel is in no interval, and neither is the non-finite quotient of
  a division by zero.
\<close>

definition clip_pixel :: "real \<Rightarrow> real \<Rightarrow> real \<Rightarrow> pixel \<Rightarrow> pixel \<Rightarrow> pixel" where
  "clip_pixel scale min_value max_value clip_fill p =
     (case p of
        NaN \<Rightarrow> clip_fill
      | Val x \<Rightarrow>
          if scale = 0 then clip_fill
          else if x / scale < min_value \<or> max_value < x / scale then clip_fill
          else Val (x / scale))"

definition ClipTransform_spec :: "image \<Rightarrow> real \<Rightarrow> real \<Rightarrow> real \<Rightarrow> pixel \<Rightarrow> image" where
  "ClipTransform_spec img scale min_value max_value clip_fill =
     img\<lparr>pixels := map (clip_pixel scale min_value max_value clip_fill) (pixels img)\<rparr>"

section \<open>Collaborators and inputs for the examples\<close>

text \<open>
  Simple stand-ins for the collaborators, on which the model can be run: images keep their
  header, downsampling halves it, and the pose kernels answer with a quarter turn about the
  x axis at the identity and with a quarter turn about the z axis anywhere else.
\<close>

definition identity4 :: "real list list" where
  "identity4 = [[1, 0, 0, 0], [0, 1, 0, 0], [0, 0, 1, 0], [0, 0, 0, 1]]"

definition quarter_turn_x :: "real list list" where
  "quarter_turn_x = [[1, 0, 0, 0], [0, 0, -1, 0], [0, 1, 0, 0], [0, 0, 0, 1]]"

definition quarter_turn_z :: "real list list" where
  "quarter_turn_z = [[0, -1, 0, 0], [1, 0, 0, 0], [0, 0, 1, 0], [0, 0, 0, 1]]"

definition example_pose :: "tensor \<Rightarrow> real list \<times> real" where
  "example_pose T = (if t_data T = identity4 then ([1], 0) else ([2], 0))"

definition example_collab :: collab where
  "example_collab =
     \<lparr>ClipTransform = ClipTransform_spec,
      RGBToGray = (\<lambda>img. img\<lparr>GetChannels := 1\<rparr>),
      ImageTo = (\<lambda>img dt. img\<lparr>GetDtype := dt\<rparr>),
      CreateVertexMap = (\<lambda>img Km fill. img\<lparr>GetChannels := 3\<rparr>),
      CreateNormalMap = (\<lambda>img fill. img),
      FilterSobel = (\<lambda>img. (img, img)),
      PyrDown = (\<lambda>img. img\<lparr>GetRows := GetRows img div 2, GetCols := GetCols img div 2\<rparr>),
      kernel_PyrDownDepth = (\<lambda>img thr fill. [fill]),
      kernel_ComputePosePointToPlane = (\<lambda>svm tvm tnm Km T d. example_pose T),
      kernel_ComputePoseIntensity = (\<lambda>sd td si ti dx dy svm Km T d. example_pose T),
      kernel_ComputePoseHybrid = (\<lambda>sd td si ti ddx ddy dx dy svm Km T d. example_pose T),
      PoseToTransformation = (\<lambda>v. if v = [1] then quarter_turn_x else quarter_turn_z)\<rparr>"

definition example_depth :: "device \<Rightarrow> image" where
  "example_depth dev =
     \<lparr>GetRows = 2, GetCols = 2, GetChannels = 1, GetDtype = Float32, GetDevice = dev,
      pixels = [Val 500, Val 4000, Val (-1), NaN]\<rparr>"

definition example_strip :: image where
  "example_strip =
     \<lparr>GetRows = 1, GetCols = 2, GetChannels = 1, GetDtype = Float32, GetDevice = CPU 0,
      pixels = [Val 1, Val 2]\<rparr>"

definition example_color :: "device \<Rightarrow> image" where
  "example_color dev =
     \<lparr>GetRows = 2, GetCols = 2, GetChannels = 3, GetDtype = Float32, GetDevice = dev,
      pixels = replicate 12 (Val 1)\<rparr>"

definition example_frame :: "device \<Rightarrow> rgbd" where
  "example_frame dev = \<lparr>color = example_color dev, depth = example_depth dev\<rparr>"

text \<open>A frame of one row and two columns: its second level has no row.\<close>

definition example_strip_frame :: rgbd where
  "example_strip_frame =
     \<lparr>color = \<lparr>GetRows = 1, GetCols = 2, GetChannels = 3, GetDtype = Float32,
                GetDevice = CPU 0, pixels = replicate 6 (Val 1)\<rparr>,
      depth = example_strip\<rparr>"

text \<open>A pyramid of one level for the example frame, as the point-to-plane loop builds it.\<close>

definition example_levels :: "device \<Rightarrow> pyramid_point_to_plane" where
  "example_levels dev =
     \<lparr>source_depth_curr = example_depth dev,
      target_depth_curr = example_depth dev,
      source_vertex_maps = [(example_depth dev)\<lparr>GetChannels := 3\<rparr>],
      intrinsic_matrices = [Some 0],
      target_vertex_maps = [(example_depth dev)\<lparr>GetChannels := 3\<rparr>],
      target_normal_maps = [(example_depth dev)\<lparr>GetChannels := 3\<rparr>]\<rparr>"

definition example_intrinsics :: tensor where
  "example_intrinsics =
     \<lparr>t_dtype = Float64, t_device = CPU 0,
      t_data = [[8, 0, 4], [0, 8, 2], [0, 0, 1]]\<rparr>"

definition example_state :: state where
  "example_state =
     \<lparr>store = [example_intrinsics, \<lparr>t_dtype = Float32, t_device = CUDA 0, t_data = identity4\<rparr>],
      trace = []\<rparr>"

section \<open>Notions for stating the properties\<close>

text \<open>
  \<open>post m s Q E\<close>: running \<open>m\<close> from \<open>s\<close> ends in a result and state that satisfy
  \<open>Q\<close>, or in an error and state that satisfy \<open>E\<close>.
\<close>

definition post :: "'a st \<Rightarrow> state \<Rightarrow> ('a \<Rightarrow> state \<Rightarrow> bool) \<Rightarrow> (error \<Rightarrow> state \<Rightarrow> bool) \<Rightarrow> bool" where
  "post m s Q E = (case m s of (Inl e, s') \<Rightarrow> E e s' | (Inr x, s') \<Rightarrow> Q x s')"

text \<open>\<open>keeps R m\<close>: however \<open>m\<close> ends, the states before and after are related by \<open>R\<close>.\<close>

definition keeps :: "(state \<Rightarrow> state \<Rightarrow> bool) \<Rightarrow> 'a st \<Rightarrow> bool" where
  "keeps R m = (\<forall>s. post m s (\<lambda>x s'. R s s') (\<lambda>e s'. R s s'))"

text \<open>\<open>raises_only P m\<close>: every error with which \<open>m\<close> can stop satisfies \<open>P\<close>.\<close>

definition raises_only :: "(error \<Rightarrow> bool) \<Rightarrow> 'a st \<Rightarrow> bool" where
  "raises_only P m = (\<forall>s. post m s (\<lambda>x s'. True) (\<lambda>e s'. P e))"

text \<open>The pyramid indices of the pose kernel calls in a trace, in order.\<close>

fun pose_calls :: "event list \<Rightarrow> nat list" where
  "pose_calls [] = []"
| "pose_calls (ComputePoseCall k # es) = k # pose_calls es"
| "pose_calls (e # es) = pose_calls es"

text \<open>
  \<open>grows a0 s s'\<close>: the store has only gained tensors, and no tensor of \<open>s\<close> other than
  the one at \<open>a0\<close> has changed.  \<open>quiet s s'\<close>: no pose kernel was called.
\<close>

definition grows :: "nat \<Rightarrow> state \<Rightarrow> state \<Rightarrow> bool" where
  "grows a0 s s' =
     (length (store s) \<le> length (store s') \<and>
      (\<forall>a<length (store s). a \<noteq> a0 \<longrightarrow> store s' ! a = store s ! a))"

definition quiet :: "state \<Rightarrow> state \<Rightarrow> bool" where
  "quiet s s' = (pose_calls (trace s') = pose_calls (trace s))"

definition tensor_at :: "state \<Rightarrow> nat option \<Rightarrow> tensor" where
  "tensor_at s h = (case h of None \<Rightarrow> empty_tensor | Some a \<Rightarrow> store s ! a)"

definition pose_tensor :: "collab \<Rightarrow> real list \<times> real \<Rightarrow> tensor" where
  "pose_tensor K r = \<lparr>t_dtype = Float64, t_device = CPU 0, t_data = PoseToTransformation K (fst r)\<rparr>"

definition is_host_double :: "tensor \<Rightarrow> bool" where
  "is_host_double t = (t_dtype t = Float64 \<and> t_device t = CPU 0)"

text \<open>
  The fixed schedule: index 0 as often as \<open>iterations ! 0\<close> says, then index 1, and so on
  up to index \<open>n - 1\<close>.  A negative count stands for no iteration.
\<close>

definition schedule :: "int list \<Rightarrow> nat \<Rightarrow> nat list" where
  "schedule iterations n = concat (map (\<lambda>k. replicate (nat (iterations ! k)) k) [0..<n])"

text \<open>
  What one iteration at index \<open>i\<close> does to the state: it records its kernel call and puts
  two tensors into the store, the increment and then the new estimate, which is the
  product of the increment and the old estimate \<open>t\<close>, in this order.
\<close>

definition iteration_post :: "int \<Rightarrow> nat \<Rightarrow> state \<Rightarrow> nat \<Rightarrow> state \<Rightarrow> bool" where
  "iteration_post i t s t' s' =
     (t' = Suc (length (store s)) \<and>
      trace s' = trace s @ [ComputePoseCall (nat i)] \<and>
      length (store s') = length (store s) + 2 \<and>
      (\<forall>a<length (store s). store s' ! a = store s ! a) \<and>
      store s' ! t' =
        \<lparr>t_dtype = Float64, t_device = CPU 0,
         t_data = mat_mul (t_data (store s' ! length (store s))) (t_data (store s ! t))\<rparr>)"

definition iteration_like :: "(int \<Rightarrow> nat \<Rightarrow> nat st) \<Rightarrow> bool" where
  "iteration_like it =
     (\<forall>i t s. t < length (store s) \<longrightarrow> post (it i t) s (iteration_post i t s) (\<lambda>e s'. False))"

text \<open>
  \<open>runs_schedule odometry\<close>: from every state the optimisation loop returns, having made
  exactly the pose kernel calls of the schedule and no other recorded call.
\<close>

definition runs_schedule :: "(int list \<Rightarrow> int \<Rightarrow> nat \<Rightarrow> nat st) \<Rightarrow> bool" where
  "runs_schedule odometry =
     (\<forall>iterations t s. t < length (store s) \<longrightarrow>
        (\<exists>t' s'. odometry iterations (int (length iterations)) t s = (Inr t', s') \<and>
           trace s' = trace s @ map ComputePoseCall (schedule iterations (length iterations))))"

text \<open>
  \<open>composes_in_order compute iteration\<close>: an iteration at index \<open>i\<close> from the estimate
  \<open>t\<close> ends with the estimate \<open>A * T\<close>, where \<open>A\<close> is the increment that
  \<open>compute i t\<close> returns and \<open>T\<close> the old estimate; a second iteration (at any index
  \<open>j\<close>) with increment \<open>B\<close> ends with \<open>B * (A * T)\<close>.
\<close>

definition composes_in_order :: "(int \<Rightarrow> nat \<Rightarrow> nat st) \<Rightarrow> (int \<Rightarrow> nat \<Rightarrow> nat st) \<Rightarrow> bool" where
  "composes_in_order compute iteration =
     (\<forall>i j t s. t < length (store s) \<longrightarrow>
        (\<exists>dA sA t1 s1 dB sB t2 s2.
           compute i t s = (Inr dA, sA) \<and>
           iteration i t s = (Inr t1, s1) \<and>
           t_data (store s1 ! t1) = mat_mul (t_data (store sA ! dA)) (t_data (store s ! t)) \<and>
           compute j t1 s1 = (Inr dB, sB) \<and>
           iteration j t1 s1 = (Inr t2, s2) \<and>
           t_data (store s2 ! t2) =
             mat_mul (t_data (store sB ! dB))
               (mat_mul (t_data (store sA ! dA)) (t_data (store s ! t)))))"

definition is_3x3 :: "real list list \<Rightarrow> bool" where
  "is_3x3 M = (length M = 3 \<and> (\<forall>row\<in>set M. length row = 3))"

text \<open>
  The state \<open>s\<close> and estimate \<open>t\<close> reached from \<open>s0\<close> and \<open>t0\<close> by iterations at the
  indices \<open>ks\<close>.
\<close>

definition iterated :: "state \<Rightarrow> nat \<Rightarrow> nat list \<Rightarrow> nat \<Rightarrow> state \<Rightarrow> bool" where
  "iterated s0 t0 ks t s =
     (trace s = trace s0 @ map ComputePoseCall ks \<and>
      length (store s0) \<le> length (store s) \<and>
      (\<forall>a<length (store s0). store s ! a = store s0 ! a) \<and>
      t < length (store s) \<and>
      (if ks = [] then t = t0 else length (store s0) \<le> t \<and> is_host_double (store s ! t)))"

text \<open>
  The estimate through the loops.  \<open>premultiply D T\<close> is the tensor that
  \<^verbatim>\<open>D.Matmul(T)\<close> creates.  For a function \<open>inc\<close> that gives the increment at a
  pyramid index for an estimate, \<open>iteration_tensors inc ks T\<close> lists the tensors that
  iterations at the indices \<open>ks\<close> create from the estimate \<open>T\<close>: for each index the
  increment computed for the current estimate and then the new estimate, which is their
  product; \<open>estimate_after inc ks T\<close> is the last estimate.
\<close>

definition premultiply :: "tensor \<Rightarrow> tensor \<Rightarrow> tensor" where
  "premultiply D T =
     \<lparr>t_dtype = t_dtype D, t_device = t_device D, t_data = mat_mul (t_data D) (t_data T)\<rparr>"

primrec iteration_tensors :: "(nat \<Rightarrow> tensor \<Rightarrow> tensor) \<Rightarrow> nat list \<Rightarrow> tensor \<Rightarrow> tensor list" where
  "iteration_tensors inc [] T = []"
| "iteration_tensors inc (k # ks) T =
     inc k T # premultiply (inc k T) T # iteration_tensors inc ks (premultiply (inc k T) T)"

definition estimate_after :: "(nat \<Rightarrow> tensor \<Rightarrow> tensor) \<Rightarrow> nat list \<Rightarrow> tensor \<Rightarrow> tensor" where
  "estimate_after inc ks T = fold (\<lambda>k T. premultiply (inc k T) T) ks T"

text \<open>
  The increment of each cost method at the pyramid index \<open>k\<close> for the estimate \<open>T\<close>:
  the transformation of the pose that the kernel of the method returns for the images of
  the pyramid \<open>v\<close> at index \<open>k\<close>, the intrinsics stored for that index (read in the
  state \<open>s\<close>) and \<open>T\<close>.  The residual that the kernel returns beside the pose does
  not enter.
\<close>

definition PointToPlane_increment ::
  "collab \<Rightarrow> pyramid_point_to_plane \<Rightarrow> real \<Rightarrow> state \<Rightarrow> nat \<Rightarrow> tensor \<Rightarrow> tensor" where
  "PointToPlane_increment K v depth_diff s k T =
     pose_tensor K
       (kernel_ComputePosePointToPlane K (source_vertex_maps v ! k) (target_vertex_maps v ! k)
          (target_normal_maps v ! k) (tensor_at s (intrinsic_matrices v ! k)) T depth_diff)"

definition Intensity_increment ::
  "collab \<Rightarrow> pyramid_intensity \<Rightarrow> real \<Rightarrow> state \<Rightarrow> nat \<Rightarrow> tensor \<Rightarrow> tensor" where
  "Intensity_increment K v depth_diff s k T =
     pose_tensor K
       (kernel_ComputePoseIntensity K (source_depth v ! k) (target_depth v ! k)
          (source_intensity v ! k) (target_intensity v ! k)
          (target_intensity_dx v ! k) (target_intensity_dy v ! k)
          (source_vertex_maps v ! k) (tensor_at s (intrinsic_matrices v ! k)) T depth_diff)"

definition Hybrid_increment ::
  "collab \<Rightarrow> pyramid_hybrid \<Rightarrow> real \<Rightarrow> state \<Rightarrow> nat \<Rightarrow> tensor \<Rightarrow> tensor" where
  "Hybrid_increment K v depth_diff s k T =
     pose_tensor K
       (kernel_ComputePoseHybrid K (source_depth v ! k) (target_depth v ! k)
          (source_intensity v ! k) (target_intensity v ! k)
          (target_depth_dx v ! k) (target_depth_dy v ! k)
          (target_intensity_dx v ! k) (target_intensity_dy v ! k)
          (source_vertex_maps v ! k) (tensor_at s (intrinsic_matrices v ! k)) T depth_diff)"

text \<open>
  \<open>levels_stored v n s\<close>: the intrinsics of the first \<open>n\<close> indices of the pyramid
  \<open>v\<close> that refer to a tensor refer to one of the store of \<open>s\<close>.
\<close>

definition levels_stored :: "'a pyramid_base_scheme \<Rightarrow> nat \<Rightarrow> state \<Rightarrow> bool" where
  "levels_stored v n s =
     (\<forall>k<n. case intrinsic_matrices v ! k of None \<Rightarrow> True | Some a \<Rightarrow> a < length (store s))"

text \<open>
  \<open>replace_residuals K g\<close>: the collaborators \<open>K\<close> with every residual \<open>x\<close> that a
  pose kernel returns replaced by \<open>g x\<close>.
\<close>

definition replace_residuals :: "collab \<Rightarrow> (real \<Rightarrow> real) \<Rightarrow> collab" where
  "replace_residuals K g =
     K\<lparr>kernel_ComputePosePointToPlane :=
         (\<lambda>svm tvm tnm Km T d. apsnd g (kernel_ComputePosePointToPlane K svm tvm tnm Km T d)),
       kernel_ComputePoseIntensity :=
         (\<lambda>sd td si ti dx dy svm Km T d.
            apsnd g (kernel_ComputePoseIntensity K sd td si ti dx dy svm Km T d)),
       kernel_ComputePoseHybrid :=
         (\<lambda>sd td si ti ddx ddy dx dy svm Km T d.
            apsnd g (kernel_ComputePoseHybrid K sd td si ti ddx ddy dx dy svm Km T d))\<rparr>"

text \<open>
  The pyramid levels.  \<open>halved\<close> is one step \<^verbatim>\<open>intrinsics /= 2; intrinsics[-1][-1] = 1\<close> on
  the matrix; \<open>down_depth\<close> is the image a successful \<^verbatim>\<open>PyrDownDepth\<close> returns.  Level
  \<open>j\<close> is what \<open>j\<close> such steps make of the input: level 0 is the finest.
\<close>

definition halved :: "real list list \<Rightarrow> real list list" where
  "halved M = set_last_last (div_all M 2) 1"

definition level_tensor :: "tensor \<Rightarrow> nat \<Rightarrow> tensor" where
  "level_tensor T0 j = T0\<lparr>t_data := (halved ^^ j) (t_data T0)\<rparr>"

definition down_depth :: "collab \<Rightarrow> real \<Rightarrow> image \<Rightarrow> image" where
  "down_depth K thr src =
     \<lparr>GetRows = GetRows src div 2, GetCols = GetCols src div 2, GetChannels = 1,
      GetDtype = GetDtype src, GetDevice = GetDevice src,
      pixels = kernel_PyrDownDepth K src thr NaN\<rparr>"

definition depth_level :: "collab \<Rightarrow> real \<Rightarrow> image \<Rightarrow> nat \<Rightarrow> image" where
  "depth_level K depth_diff img j = (down_depth K (depth_diff * 2) ^^ j) img"

definition intensity_level :: "collab \<Rightarrow> image \<Rightarrow> nat \<Rightarrow> image" where
  "intensity_level K img j = (PyrDown K ^^ j) img"

text \<open>
  \<open>clone_at base st h T\<close>: the handle \<open>h\<close> refers to a tensor of the store \<open>st\<close> that was
  created at or after address \<open>base\<close> and holds \<open>T\<close>.
\<close>

definition clone_at :: "nat \<Rightarrow> tensor list \<Rightarrow> nat option \<Rightarrow> tensor \<Rightarrow> bool" where
  "clone_at base st h T = (\<exists>a. h = Some a \<and> base \<le> a \<and> a < length st \<and> st ! a = T)"

text \<open>
  What the per-level vectors hold at index \<open>k\<close> of \<open>n\<close> when the pyramids were built from
  the frames \<open>source\<close> and \<open>target\<close> and the intrinsics \<open>T0\<close>: the data of level
  \<open>n - 1 - k\<close>.
\<close>

definition level_base ::
  "collab \<Rightarrow> real \<Rightarrow> rgbd \<Rightarrow> tensor \<Rightarrow> nat \<Rightarrow> nat \<Rightarrow> 'a pyramid_base_scheme \<Rightarrow> state \<Rightarrow> nat \<Rightarrow> bool" where
  "level_base K dd source T0 base n v s k =
     (source_vertex_maps v ! k =
        CreateVertexMap K (depth_level K dd (depth source) (n - 1 - k))
          (level_tensor T0 (n - 1 - k)) NaN \<and>
      clone_at base (store s) (intrinsic_matrices v ! k) (level_tensor T0 (n - 1 - k)))"

definition level_PointToPlane ::
  "collab \<Rightarrow> real \<Rightarrow> rgbd \<Rightarrow> rgbd \<Rightarrow> tensor \<Rightarrow> nat \<Rightarrow> nat \<Rightarrow> pyramid_point_to_plane \<Rightarrow> state \<Rightarrow>
   nat \<Rightarrow> bool" where
  "level_PointToPlane K dd source target T0 base n v s k =
     (level_base K dd source T0 base n v s k \<and>
      target_vertex_maps v ! k =
        CreateVertexMap K (depth_level K dd (depth target) (n - 1 - k))
          (level_tensor T0 (n - 1 - k)) NaN \<and>
      target_normal_maps v ! k = CreateNormalMap K (target_vertex_maps v ! k) NaN)"

definition gray :: "collab \<Rightarrow> image \<Rightarrow> image" where
  "gray K img = ImageTo K (RGBToGray K img) Float32"

definition level_Intensity ::
  "collab \<Rightarrow> real \<Rightarrow> rgbd \<Rightarrow> rgbd \<Rightarrow> tensor \<Rightarrow> nat \<Rightarrow> nat \<Rightarrow> 'a pyramid_intensity_scheme \<Rightarrow> state \<Rightarrow>
   nat \<Rightarrow> bool" where
  "level_Intensity K dd source target T0 base n v s k =
     (level_base K dd source T0 base n v s k \<and>
      source_depth v ! k = depth_level K dd (depth source) (n - 1 - k) \<and>
      target_depth v ! k = depth_level K dd (depth target) (n - 1 - k) \<and>
      source_intensity v ! k = intensity_level K (gray K (color source)) (n - 1 - k) \<and>
      target_intensity v ! k = intensity_level K (gray K (color target)) (n - 1 - k) \<and>
      target_intensity_dx v ! k = fst (FilterSobel K (target_intensity v ! k)) \<and>
      target_intensity_dy v ! k = snd (FilterSobel K (target_intensity v ! k)))"

definition level_Hybrid ::
  "collab \<Rightarrow> real \<Rightarrow> rgbd \<Rightarrow> rgbd \<Rightarrow> tensor \<Rightarrow> nat \<Rightarrow> nat \<Rightarrow> pyramid_hybrid \<Rightarrow> state \<Rightarrow> nat \<Rightarrow> bool" where
  "level_Hybrid K dd source target T0 base n v s k =
     (level_Intensity K dd source target T0 base n v s k \<and>
      target_depth_dx v ! k = fst (FilterSobel K (target_depth v ! k)) \<and>
      target_depth_dy v ! k = snd (FilterSobel K (target_depth v ! k)))"

text \<open>
  \<open>refused src\<close>: the checks of \<^verbatim>\<open>PyrDownDepth\<close> stop on the image \<open>src\<close>.
  \<open>indexable M\<close>: the matrix has a last row with a last entry, so that \<^verbatim>\<open>[-1][-1]\<close>
  refers to an element.  \<open>levels_accepted K depth_diff source target n\<close>: \<^verbatim>\<open>PyrDownDepth\<close>
  accepts the depth images of source and target at every level but the last of \<open>n\<close>
  levels, that is, every level that a pyramid of \<open>n\<close> levels downsamples.
\<close>

definition refused :: "image \<Rightarrow> bool" where
  "refused src =
     (GetRows src \<le> 0 \<or> GetCols src \<le> 0 \<or> GetChannels src \<noteq> 1 \<or> GetDtype src \<noteq> Float32)"

definition indexable :: "real list list \<Rightarrow> bool" where
  "indexable M = (M \<noteq> [] \<and> last M \<noteq> [])"

definition levels_accepted :: "collab \<Rightarrow> real \<Rightarrow> rgbd \<Rightarrow> rgbd \<Rightarrow> nat \<Rightarrow> bool" where
  "levels_accepted K depth_diff source target n =
     (\<forall>j. Suc j < n \<longrightarrow>
        \<not> refused (depth_level K depth_diff (depth source) j) \<and>
        \<not> refused (depth_level K depth_diff (depth target) j))"

section \<open>Notions for the proofs\<close>

text \<open>
  The invariants of the three pyramid loops before the pass with index \<open>j\<close>: the working
  intrinsics and the current images are at the level of that pass, and the vector elements
  written so far (those from index \<open>n - j\<close> on) hold their levels.
\<close>

definition inv_base ::
  "collab \<Rightarrow> nat \<Rightarrow> real \<Rightarrow> int \<Rightarrow> rgbd \<Rightarrow> rgbd \<Rightarrow> state \<Rightarrow> int \<Rightarrow> 'a pyramid_base_scheme \<Rightarrow> state \<Rightarrow> bool" where
  "inv_base K a0 dd n source target s0 j v s =
     (a0 < length (store s0) \<and> length (store s0) \<le> length (store s) \<and>
      store s ! a0 = level_tensor (store s0 ! a0) (nat (min j (n - 1))) \<and>
      source_depth_curr v = depth_level K dd (depth source) (nat (min j (n - 1))) \<and>
      target_depth_curr v = depth_level K dd (depth target) (nat (min j (n - 1))) \<and>
      length (source_vertex_maps v) = nat n \<and>
      length (intrinsic_matrices v) = nat n)"

definition inv_PointToPlane ::
  "collab \<Rightarrow> nat \<Rightarrow> real \<Rightarrow> int \<Rightarrow> rgbd \<Rightarrow> rgbd \<Rightarrow> state \<Rightarrow> int \<Rightarrow> pyramid_point_to_plane \<Rightarrow> state \<Rightarrow> bool" where
  "inv_PointToPlane K a0 dd n source target s0 j v s =
     (inv_base K a0 dd n source target s0 j v s \<and>
      length (target_vertex_maps v) = nat n \<and>
      length (target_normal_maps v) = nat n \<and>
      (\<forall>k. nat (n - j) \<le> k \<and> k < nat n \<longrightarrow>
         level_PointToPlane K dd source target (store s0 ! a0) (length (store s0)) (nat n) v s k))"

definition inv_intensity_vars ::
  "collab \<Rightarrow> int \<Rightarrow> rgbd \<Rightarrow> rgbd \<Rightarrow> int \<Rightarrow> 'a pyramid_intensity_scheme \<Rightarrow> bool" where
  "inv_intensity_vars K n source target j v =
     (source_intensity_curr v = intensity_level K (gray K (color source)) (nat (min j (n - 1))) \<and>
      target_intensity_curr v = intensity_level K (gray K (color target)) (nat (min j (n - 1))) \<and>
      length (source_intensity v) = nat n \<and>
      length (target_intensity v) = nat n \<and>
      length (source_depth v) = nat n \<and>
      length (target_depth v) = nat n \<and>
      length (target_intensity_dx v) = nat n \<and>
      length (target_intensity_dy v) = nat n)"

definition inv_Intensity ::
  "collab \<Rightarrow> nat \<Rightarrow> real \<Rightarrow> int \<Rightarrow> rgbd \<Rightarrow> rgbd \<Rightarrow> state \<Rightarrow> int \<Rightarrow> pyramid_intensity \<Rightarrow> state \<Rightarrow> bool" where
  "inv_Intensity K a0 dd n source target s0 j v s =
     (inv_base K a0 dd n source target s0 j v s \<and>
      inv_intensity_vars K n source target j v \<and>
      (\<forall>k. nat (n - j) \<le> k \<and> k < nat n \<longrightarrow>
         level_Intensity K dd source target (store s0 ! a0) (length (store s0)) (nat n) v s k))"

definition inv_Hybrid ::
  "collab \<Rightarrow> nat \<Rightarrow> real \<Rightarrow> int \<Rightarrow> rgbd \<Rightarrow> rgbd \<Rightarrow> state \<Rightarrow> int \<Rightarrow> pyramid_hybrid \<Rightarrow> state \<Rightarrow> bool" where
  "inv_Hybrid K a0 dd n source target s0 j v s =
     (inv_base K a0 dd n source target s0 j v s \<and>
      inv_intensity_vars K n source target j v \<and>
      length (target_depth_dx v) = nat n \<and>
      length (target_depth_dy v) = nat n \<and>
      (\<forall>k. nat (n - j) \<le> k \<and> k < nat n \<longrightarrow>
         level_Hybrid K dd source target (store s0 ! a0) (length (store s0)) (nat n) v s k))"

definition put_PointToPlane ::
  "collab \<Rightarrow> tensor \<Rightarrow> nat \<Rightarrow> nat \<Rightarrow> pyramid_point_to_plane \<Rightarrow> pyramid_point_to_plane" where
  "put_PointToPlane K Km c k v =
     v\<lparr>source_vertex_maps :=
         (source_vertex_maps v)[k := CreateVertexMap K (source_depth_curr v) Km NaN],
       target_vertex_maps :=
         (target_vertex_maps v)[k := CreateVertexMap K (target_depth_curr v) Km NaN],
       target_normal_maps :=
         (target_normal_maps v)[k := CreateNormalMap K (CreateVertexMap K (target_depth_curr v) Km NaN) NaN],
       intrinsic_matrices := (intrinsic_matrices v)[k := Some c]\<rparr>"

definition put_Intensity ::
  "collab \<Rightarrow> tensor \<Rightarrow> nat \<Rightarrow> nat \<Rightarrow> 'a pyramid_intensity_scheme \<Rightarrow> 'a pyramid_intensity_scheme" where
  "put_Intensity K Km c k v =
     v\<lparr>source_depth := (source_depth v)[k := source_depth_curr v],
       target_depth := (target_depth v)[k := target_depth_curr v],
       source_intensity := (source_intensity v)[k := source_intensity_curr v],
       target_intensity := (target_intensity v)[k := target_intensity_curr v],
       source_vertex_maps :=
         (source_vertex_maps v)[k := CreateVertexMap K (source_depth_curr v) Km NaN],
       target_intensity_dx :=
         (target_intensity_dx v)[k := fst (FilterSobel K (target_intensity_curr v))],
       target_intensity_dy :=
         (target_intensity_dy v)[k := snd (FilterSobel K (target_intensity_curr v))],
       intrinsic_matrices := (intrinsic_matrices v)[k := Some c]\<rparr>"

definition put_Hybrid ::
  "collab \<Rightarrow> tensor \<Rightarrow> nat \<Rightarrow> nat \<Rightarrow> pyramid_hybrid \<Rightarrow> pyramid_hybrid" where
  "put_Hybrid K Km c k v =
     v\<lparr>source_depth := (source_depth v)[k := source_depth_curr v],
       target_depth := (target_depth v)[k := target_depth_curr v],
       source_intensity := (source_intensity v)[k := source_intensity_curr v],
       target_intensity := (target_intensity v)[k := target_intensity_curr v],
       source_vertex_maps :=
         (source_vertex_maps v)[k := CreateVertexMap K (source_depth_curr v) Km NaN],
       target_intensity_dx :=
         (target_intensity_dx v)[k := fst (FilterSobel K (target_intensity_curr v))],
       target_intensity_dy :=
         (target_intensity_dy v)[k := snd (FilterSobel K (target_intensity_curr v))],
       target_depth_dx := (target_depth_dx v)[k := fst (FilterSobel K (target_depth_curr v))],
       target_depth_dy := (target_depth_dy v)[k := snd (FilterSobel K (target_depth_curr v))],
       intrinsic_matrices := (intrinsic_matrices v)[k := Some c]\<rparr>"

definition down_curr :: "collab \<Rightarrow> real \<Rightarrow> 'a pyramid_base_scheme \<Rightarrow> 'a pyramid_base_scheme" where
  "down_curr K dd v =
     v\<lparr>source_depth_curr := down_depth K (dd * 2) (source_depth_curr v),
       target_depth_curr := down_depth K (dd * 2) (target_depth_curr v)\<rparr>"

definition down_intensity :: "collab \<Rightarrow> 'a pyramid_intensity_scheme \<Rightarrow> 'a pyramid_intensity_scheme" where
  "down_intensity K v =
     v\<lparr>source_intensity_curr := PyrDown K (source_intensity_curr v),
       target_intensity_curr := PyrDown K (target_intensity_curr v)\<rparr>"

definition halved_store :: "nat \<Rightarrow> tensor list \<Rightarrow> tensor list" where
  "halved_store a0 st = (st @ [st ! a0])[a0 := (st ! a0)\<lparr>t_data := halved (t_data (st ! a0))\<rparr>]"

text \<open>
  What a cost method and the driver guarantee when they return, and when they fail.
\<close>

definition method_post :: "nat \<Rightarrow> nat \<Rightarrow> nat list \<Rightarrow> state \<Rightarrow> nat \<Rightarrow> state \<Rightarrow> bool" where
  "method_post a0 t ks s r s' =
     (grows a0 s s' \<and> pose_calls (trace s') = pose_calls (trace s) @ ks \<and>
      r < length (store s') \<and>
      (if ks = [] then r = t else length (store s) \<le> r \<and> is_host_double (store s' ! r)))"

definition driver_post :: "int list \<Rightarrow> state \<Rightarrow> nat \<Rightarrow> state \<Rightarrow> bool" where
  "driver_post its s r s' =
     ((\<forall>a<length (store s). store s' ! a = store s ! a) \<and>
      pose_calls (trace s') = pose_calls (trace s) @ schedule its (length its) \<and>
      length (store s) \<le> r \<and> r < length (store s') \<and> is_host_double (store s' ! r))"

definition driver_fail :: "state \<Rightarrow> error \<Rightarrow> state \<Rightarrow> bool" where
  "driver_fail s e s' =
     ((\<forall>a<length (store s). store s' ! a = store s ! a) \<and>
      pose_calls (trace s') = pose_calls (trace s))"

text \<open>
  The invariant of the optimisation loops: after iterations at the indices \<open>ks\<close> from
  the state \<open>s0\<close> and the estimate at \<open>t0\<close>, the store has gained the tensors of
  these iterations, the trace their kernel calls, and \<open>t\<close> is the address of the last
  estimate.  \<open>exact_step\<close> is what one iteration does.
\<close>

definition exact_run ::
  "(nat \<Rightarrow> tensor \<Rightarrow> tensor) \<Rightarrow> state \<Rightarrow> nat \<Rightarrow> nat list \<Rightarrow> nat \<Rightarrow> state \<Rightarrow> bool" where
  "exact_run inc s0 t0 ks t s =
     (store s = store s0 @ iteration_tensors inc ks (store s0 ! t0) \<and>
      trace s = trace s0 @ map ComputePoseCall ks \<and>
      t < length (store s) \<and>
      store s ! t = estimate_after inc ks (store s0 ! t0))"

definition exact_step :: "(tensor \<Rightarrow> tensor) \<Rightarrow> nat \<Rightarrow> nat \<Rightarrow> state \<Rightarrow> nat \<Rightarrow> state \<Rightarrow> bool" where
  "exact_step f k t s t' s' =
     (t' = Suc (length (store s)) \<and>
      store s' = store s @ [f (store s ! t), premultiply (f (store s ! t)) (store s ! t)] \<and>
      trace s' = trace s @ [ComputePoseCall k])"

section \<open>Lemmas\<close>

subsection \<open>Running the computations\<close>

lemma post_ret [simp]: "post (ret x) s Q E = Q x s"
  by (simp add: post_def ret_def)

lemma post_LogError [simp]: "post (LogError e) s Q E = E e s"
  by (simp add: post_def LogError_def)

lemma post_andThen [simp]: "post (andThen m f) s Q E = post m s (\<lambda>x s'. post (f x) s' Q E) E"
  by (simp add: post_def andThen_def split: prod.splits sum.splits)

lemma post_emit [simp]: "post (emit ev) s Q E = Q () (s\<lparr>trace := trace s @ [ev]\<rparr>)"
  by (simp add: post_def emit_def)

lemma post_call [simp]: "post (call ev x) s Q E = Q x (s\<lparr>trace := trace s @ [ev]\<rparr>)"
  by (simp add: call_def)

lemma post_alloc [simp]: "post (alloc t) s Q E = Q (length (store s)) (s\<lparr>store := store s @ [t]\<rparr>)"
  by (simp add: post_def alloc_def)

lemma post_fetch [simp]: "post (fetch a) s Q E = Q (store s ! a) s"
  by (simp add: post_def fetch_def)

lemma post_deref [simp]: "post (deref h) s Q E = Q (tensor_at s h) s"
  by (cases h) (simp_all add: deref_def tensor_at_def)

lemma post_Clone [simp]:
  "post (Clone a) s Q E = Q (length (store s)) (s\<lparr>store := store s @ [store s ! a]\<rparr>)"
  by (simp add: Clone_def)

lemma post_Matmul [simp]:
  "post (Matmul a b) s Q E =
     Q (length (store s))
       (s\<lparr>store := store s @
          [\<lparr>t_dtype = t_dtype (store s ! a), t_device = t_device (store s ! a),
            t_data = mat_mul (t_data (store s ! a)) (t_data (store s ! b))\<rparr>]\<rparr>)"
  by (simp add: Matmul_def)

lemma post_div_assign [simp]:
  "post (div_assign a c) s Q E =
     Q () (s\<lparr>store := (store s)[a := (store s ! a)\<lparr>t_data := div_all (t_data (store s ! a)) c\<rparr>]\<rparr>)"
  by (simp add: post_def div_assign_def)

lemma post_assign_last_last [simp]:
  "post (assign_last_last a v) s Q E =
     (if t_data (store s ! a) = [] \<or> last (t_data (store s ! a)) = [] then E IndexOutOfRange s
      else Q () (s\<lparr>store := (store s)[a := (store s ! a)\<lparr>t_data := set_last_last (t_data (store s ! a)) v\<rparr>]\<rparr>))"
  by (simp add: post_def assign_last_last_def LogError_def)

lemma post_PyrDownDepth:
  "post (PyrDownDepth K src thr NaN) s Q E =
     (if GetRows src \<le> 0 \<or> GetCols src \<le> 0 \<or> GetChannels src \<noteq> 1 then
        E (InvalidShape (GetRows src) (GetCols src) (GetChannels src)) s
      else if GetDtype src \<noteq> Float32 then E (ExpectedFloat32 (GetDtype src)) s
      else Q (down_depth K thr src) (s\<lparr>trace := trace s @ [PyrDownDepthCall]\<rparr>))"
  by (simp add: PyrDownDepth_def down_depth_def)

lemma post_halve_intrinsics:
  "a < length (store s) \<Longrightarrow>
   post (halve_intrinsics a) s Q E =
     (if t_data (store s ! a) = [] \<or> last (t_data (store s ! a)) = [] then
        E IndexOutOfRange
          (s\<lparr>store := (store s)[a := (store s ! a)\<lparr>t_data := div_all (t_data (store s ! a)) 2\<rparr>]\<rparr>)
      else Q () (s\<lparr>store := (store s)[a := (store s ! a)\<lparr>t_data := halved (t_data (store s ! a))\<rparr>]\<rparr>))"
  by (auto simp: halve_intrinsics_def halved_def div_all_def last_map)

lemma post_mono:
  assumes "post m s Q E" "\<And>x s'. Q x s' \<Longrightarrow> Q' x s'" "\<And>e s'. E e s' \<Longrightarrow> E' e s'"
  shows "post m s Q' E'"
  using assms by (auto simp: post_def split: prod.splits sum.splits)

lemma post_conj:
  "post m s (\<lambda>x s'. Q1 x s' \<and> Q2 x s') (\<lambda>e s'. E1 e s' \<and> E2 e s') \<longleftrightarrow>
   post m s Q1 E1 \<and> post m s Q2 E2"
  by (auto simp: post_def split: prod.splits sum.splits)

lemma post_result:
  "post m s Q E \<Longrightarrow> m s = (Inr x, s') \<Longrightarrow> Q x s'"
  by (simp add: post_def)

lemma post_error:
  "post m s Q E \<Longrightarrow> m s = (Inl e, s') \<Longrightarrow> E e s'"
  by (simp add: post_def)

lemma post_total:
  "post m s Q (\<lambda>e s'. False) \<Longrightarrow> \<exists>x s'. m s = (Inr x, s') \<and> Q x s'"
  by (auto simp: post_def split: prod.splits sum.splits)

lemma for_loop_skip: "n \<le> i \<Longrightarrow> for_loop i n body x s = (Inr x, s)"
  by (simp add: for_loop.simps)

lemma post_for_loop_skip: "n \<le> i \<Longrightarrow> post (for_loop i n body x) s Q E = Q x s"
  by (simp add: post_def for_loop_skip)

lemma post_for_loop_step:
  "i < n \<Longrightarrow> post (for_loop i n body x) s Q E =
     post (body i x) s (\<lambda>x' s'. post (for_loop (i + 1) n body x') s' Q E) E"
  by (simp add: post_def for_loop.simps [of i n body x s] split: prod.splits sum.splits)

lemma post_for_loop:
  assumes "I i x s"
    and "i \<le> n"
    and step: "\<And>j x s. i \<le> j \<Longrightarrow> j < n \<Longrightarrow> I j x s \<Longrightarrow> post (body j x) s (I (j + 1)) E"
  shows "post (for_loop i n body x) s (I n) E"
  using assms(1,2,3)
proof (induction "nat (n - i)" arbitrary: i x s)
  case 0
  then have "i = n" by simp
  with "0.prems"(1) show ?case by (simp add: post_for_loop_skip)
next
  case (Suc k)
  then have lt: "i < n" by simp
  have "post (body i x) s (I (i + 1)) E"
    using Suc.prems lt by simp
  then have "post (body i x) s (\<lambda>x' s'. post (for_loop (i + 1) n body x') s' (I n) E) E"
  proof (rule post_mono)
    fix x' s' assume a: "I (i + 1) x' s'"
    show "post (for_loop (i + 1) n body x') s' (I n) E"
    proof (rule Suc.hyps(1))
      show "k = nat (n - (i + 1))" using Suc.hyps(2) by simp
      show "I (i + 1) x' s'" by (rule a)
      show "i + 1 \<le> n" using lt by simp
      show "\<And>j x s. i + 1 \<le> j \<Longrightarrow> j < n \<Longrightarrow> I j x s \<Longrightarrow> post (body j x) s (I (j + 1)) E"
        using Suc.prems(3) by simp
    qed
  qed simp
  then show ?case using lt by (simp add: post_for_loop_step)
qed

subsection \<open>Relations kept by the computations\<close>

lemma pose_calls_append [simp]: "pose_calls (xs @ ys) = pose_calls xs @ pose_calls ys"
  by (induction xs rule: pose_calls.induct) simp_all

lemma pose_calls_map [simp]: "pose_calls (map ComputePoseCall ks) = ks"
  by (induction ks) simp_all

lemma grows_refl [simp]: "reflp (grows a0)"
  by (simp add: reflp_def grows_def)

lemma grows_trans [simp]: "transp (grows a0)"
  by (auto simp: transp_def grows_def)

lemma quiet_refl [simp]: "reflp quiet"
  by (simp add: reflp_def quiet_def)

lemma quiet_trans [simp]: "transp quiet"
  by (simp add: transp_def quiet_def)

lemma keepsD: "keeps R m \<Longrightarrow> post m s (\<lambda>x s'. R s s') (\<lambda>e s'. R s s')"
  by (simp add: keeps_def)

lemma keeps_ret: "reflp R \<Longrightarrow> keeps R (ret x)"
  by (simp add: keeps_def reflp_def)

lemma keeps_LogError: "reflp R \<Longrightarrow> keeps R (LogError e)"
  by (simp add: keeps_def reflp_def)

lemma keeps_fetch: "reflp R \<Longrightarrow> keeps R (fetch a)"
  by (simp add: keeps_def reflp_def)

lemma keeps_andThen:
  assumes "transp R" "keeps R m" "\<And>x. keeps R (f x)"
  shows "keeps R (andThen m f)"
  unfolding keeps_def
proof
  fix s
  have "post m s (\<lambda>x s'. R s s') (\<lambda>e s'. R s s')" using assms(2) by (rule keepsD)
  then have "post m s (\<lambda>x s'. post (f x) s' (\<lambda>y s''. R s s'') (\<lambda>e s''. R s s'')) (\<lambda>e s'. R s s')"
  proof (rule post_mono)
    fix x s' assume r: "R s s'"
    have "post (f x) s' (\<lambda>y s''. R s' s'') (\<lambda>e s''. R s' s'')" using assms(3) by (rule keepsD)
    then show "post (f x) s' (\<lambda>y s''. R s s'') (\<lambda>e s''. R s s'')"
      using r assms(1) by (auto elim!: post_mono dest: transpD)
  qed simp
  then show "post (andThen m f) s (\<lambda>x s'. R s s') (\<lambda>e s'. R s s')" by simp
qed

lemma keeps_for_loop:
  assumes "reflp R" "transp R" "\<And>j x. keeps R (body j x)"
  shows "keeps R (for_loop i n body x)"
  unfolding keeps_def
proof
  fix s
  show "post (for_loop i n body x) s (\<lambda>x s'. R s s') (\<lambda>e s'. R s s')"
  proof (cases "i \<le> n")
    case True
    have "post (for_loop i n body x) s ((\<lambda>j x s'. R s s') n) (\<lambda>e s'. R s s')"
    proof (rule post_for_loop)
      show "R s s" using assms(1) by (simp add: reflp_def)
      show "i \<le> n" by (rule True)
      fix j x s' assume r: "R s s'"
      have "post (body j x) s' (\<lambda>y s''. R s' s'') (\<lambda>e s''. R s' s'')" using assms(3) by (rule keepsD)
      then show "post (body j x) s' (\<lambda>y s''. R s s'') (\<lambda>e s''. R s s'')"
        using r assms(2) by (auto elim!: post_mono dest: transpD)
    qed
    then show ?thesis by simp
  next
    case False
    then show ?thesis using assms(1) by (simp add: post_for_loop_skip reflp_def)
  qed
qed

lemma keeps_if: "keeps R a \<Longrightarrow> keeps R b \<Longrightarrow> keeps R (if c then a else b)"
  by simp

lemma keeps_Let: "(\<And>x. keeps R (f x)) \<Longrightarrow> keeps R (Let t f)"
  by simp

lemma keeps_case_prod: "(\<And>a b. keeps R (f a b)) \<Longrightarrow> keeps R (case p of (a, b) \<Rightarrow> f a b)"
  by (cases p) simp

lemma keeps_grows_call: "keeps (grows a0) (call ev x)"
  by (simp add: keeps_def grows_def)

lemma keeps_grows_alloc: "keeps (grows a0) (alloc t)"
  by (simp add: keeps_def grows_def nth_append)

lemma keeps_quiet_alloc: "keeps quiet (alloc t)"
  by (simp add: keeps_def quiet_def)

lemma keeps_grows_div_assign: "keeps (grows a0) (div_assign a0 c)"
  by (simp add: keeps_def grows_def)

lemma keeps_grows_assign_last_last: "keeps (grows a0) (assign_last_last a0 v)"
  by (simp add: keeps_def grows_def)

lemma keeps_quiet_div_assign: "keeps quiet (div_assign a c)"
  by (simp add: keeps_def quiet_def)

lemma keeps_quiet_assign_last_last: "keeps quiet (assign_last_last a v)"
  by (simp add: keeps_def quiet_def)

lemma keeps_quiet_call:
  "keeps quiet (call ClipTransformCall x)" "keeps quiet (call RGBToGrayCall x)"
  "keeps quiet (call CreateVertexMapCall x)" "keeps quiet (call CreateNormalMapCall x)"
  "keeps quiet (call FilterSobelCall x)" "keeps quiet (call PyrDownCall x)"
  by (simp_all add: keeps_def quiet_def)

lemma keeps_PyrDownDepth:
  "keeps (grows a0) (PyrDownDepth K src thr NaN)" "keeps quiet (PyrDownDepth K src thr NaN)"
  by (simp_all add: keeps_def post_PyrDownDepth grows_def quiet_def)

lemmas keeps_intros =
  keeps_andThen keeps_for_loop keeps_if keeps_Let keeps_case_prod keeps_ret keeps_LogError
  keeps_fetch keeps_grows_call keeps_grows_alloc keeps_quiet_alloc keeps_grows_div_assign
  keeps_grows_assign_last_last keeps_quiet_div_assign keeps_quiet_assign_last_last
  keeps_PyrDownDepth keeps_quiet_call

lemma keeps_Clone: "keeps (grows a0) (Clone a)" "keeps quiet (Clone a)"
  unfolding Clone_def by (intro keeps_intros; simp)+

lemma keeps_To: "keeps (grows a0) (To a dev dt)" "keeps quiet (To a dev dt)"
  unfolding To_def by (intro keeps_intros; simp)+

lemma keeps_halve_intrinsics:
  "keeps (grows a0) (halve_intrinsics a0)" "keeps quiet (halve_intrinsics a)"
  unfolding halve_intrinsics_def by (intro keeps_intros; simp)+

lemma keeps_PointToPlane_pyramid:
  "keeps (grows a0) (PointToPlane_pyramid K source target a0 dd n)"
  "keeps quiet (PointToPlane_pyramid K source target a0 dd n)"
  unfolding PointToPlane_pyramid_def PointToPlane_pyramid_body_def
  by (intro keeps_intros keeps_Clone keeps_halve_intrinsics; simp)+

lemma keeps_Intensity_pyramid:
  "keeps (grows a0) (Intensity_pyramid K source target a0 dd n)"
  "keeps quiet (Intensity_pyramid K source target a0 dd n)"
  unfolding Intensity_pyramid_def Intensity_pyramid_body_def
  by (intro keeps_intros keeps_Clone keeps_halve_intrinsics; simp)+

lemma keeps_Hybrid_pyramid:
  "keeps (grows a0) (Hybrid_pyramid K source target a0 dd n)"
  "keeps quiet (Hybrid_pyramid K source target a0 dd n)"
  unfolding Hybrid_pyramid_def Hybrid_pyramid_body_def
  by (intro keeps_intros keeps_Clone keeps_halve_intrinsics; simp)+

lemma keeps_Preprocess:
  "keeps (grows a0) (Preprocess K source target ds dm)"
  "keeps quiet (Preprocess K source target ds dm)"
  unfolding Preprocess_def by (intro keeps_intros; simp)+

subsection \<open>The optimisation loops\<close>

lemma post_ComputePosePointToPlane [simp]:
  "post (ComputePosePointToPlane K svm tvm tnm h t dd) s Q E =
     Q (length (store s))
       (s\<lparr>store := store s @
          [pose_tensor K (kernel_ComputePosePointToPlane K svm tvm tnm (tensor_at s h) (store s ! t) dd)]\<rparr>)"
  by (simp add: ComputePosePointToPlane_def pose_tensor_def split: prod.splits)

lemma post_ComputePoseIntensity [simp]:
  "post (ComputePoseIntensity K sd td si ti dx dy svm h t dd) s Q E =
     Q (length (store s))
       (s\<lparr>store := store s @
          [pose_tensor K (kernel_ComputePoseIntensity K sd td si ti dx dy svm (tensor_at s h) (store s ! t) dd)]\<rparr>)"
  by (simp add: ComputePoseIntensity_def pose_tensor_def split: prod.splits)

lemma post_ComputePoseHybrid [simp]:
  "post (ComputePoseHybrid K sd td si ti ddx ddy dx dy svm h t dd) s Q E =
     Q (length (store s))
       (s\<lparr>store := store s @
          [pose_tensor K (kernel_ComputePoseHybrid K sd td si ti ddx ddy dx dy svm (tensor_at s h) (store s ! t) dd)]\<rparr>)"
  by (simp add: ComputePoseHybrid_def pose_tensor_def split: prod.splits)

lemma iteration_like_PointToPlane: "iteration_like (PointToPlane_iteration K v dd)"
  by (simp add: iteration_like_def iteration_post_def PointToPlane_iteration_def nth_append pose_tensor_def)

lemma iteration_like_Intensity: "iteration_like (Intensity_iteration K v dd)"
  by (simp add: iteration_like_def iteration_post_def Intensity_iteration_def nth_append pose_tensor_def)

lemma iteration_like_Hybrid: "iteration_like (Hybrid_iteration K v dd)"
  by (simp add: iteration_like_def iteration_post_def Hybrid_iteration_def nth_append pose_tensor_def)

lemma schedule_Suc: "schedule its (Suc n) = schedule its n @ replicate (nat (its ! n)) n"
  by (simp add: schedule_def)

lemma inner_loop:
  assumes it: "iteration_like it" and "iterated s0 t0 ks t s"
  shows "post (for_loop 0 m (\<lambda>iter. it i) t) s
           (iterated s0 t0 (ks @ replicate (nat m) (nat i))) (\<lambda>e s'. False)"
proof (cases "0 \<le> m")
  case True
  have "post (for_loop 0 m (\<lambda>iter. it i) t) s
          ((\<lambda>j. iterated s0 t0 (ks @ replicate (nat j) (nat i))) m) (\<lambda>e s'. False)"
  proof (rule post_for_loop)
    show "iterated s0 t0 (ks @ replicate (nat 0) (nat i)) t s" using assms(2) by simp
    show "0 \<le> m" by (rule True)
    fix j t s
    assume j: "0 \<le> j" "j < m" and inv: "iterated s0 t0 (ks @ replicate (nat j) (nat i)) t s"
    then have t: "t < length (store s)" by (simp add: iterated_def)
    have "post (it i t) s (iteration_post i t s) (\<lambda>e s'. False)"
      using it t by (simp add: iteration_like_def)
    then show "post (it i t) s (iterated s0 t0 (ks @ replicate (nat (j + 1)) (nat i))) (\<lambda>e s'. False)"
    proof (rule post_mono)
      fix t' s'
      assume a: "iteration_post i t s t' s'"
      have n: "nat (j + 1) = Suc (nat j)" using j by simp
      show "iterated s0 t0 (ks @ replicate (nat (j + 1)) (nat i)) t' s'"
        using a inv unfolding n iterated_def iteration_post_def
        by (auto simp: replicate_append_same is_host_double_def)
    qed simp
  qed
  then show ?thesis by simp
next
  case False
  then show ?thesis using assms(2) by (simp add: post_for_loop_skip)
qed

lemma outer_loop:
  assumes it: "iteration_like it" and "iterated s0 t0 [] t s" and "0 \<le> n"
  shows "post (for_loop 0 n (\<lambda>i. for_loop 0 (its ! nat i) (\<lambda>iter. it i)) t) s
           (iterated s0 t0 (schedule its (nat n))) (\<lambda>e s'. False)"
proof -
  have "post (for_loop 0 n (\<lambda>i. for_loop 0 (its ! nat i) (\<lambda>iter. it i)) t) s
          ((\<lambda>j. iterated s0 t0 (schedule its (nat j))) n) (\<lambda>e s'. False)"
  proof (rule post_for_loop)
    show "iterated s0 t0 (schedule its (nat 0)) t s" using assms(2) by (simp add: schedule_def)
    show "0 \<le> n" by (rule assms(3))
    fix j t s
    assume j: "0 \<le> j" "j < n" and inv: "iterated s0 t0 (schedule its (nat j)) t s"
    have n: "nat (j + 1) = Suc (nat j)" using j by simp
    show "post (for_loop 0 (its ! nat j) (\<lambda>iter. it j) t) s
            (iterated s0 t0 (schedule its (nat (j + 1)))) (\<lambda>e s'. False)"
      unfolding n schedule_Suc using inner_loop [OF it inv, of "its ! nat j" j] by simp
  qed
  then show ?thesis by simp
qed

lemma iterated_start: "t < length (store s) \<Longrightarrow> iterated s t [] t s"
  by (simp add: iterated_def)

lemma PointToPlane_odometry_iterated:
  assumes "t < length (store s)"
  shows "post (PointToPlane_odometry K v dd its (int (length its)) t) s
           (iterated s t (schedule its (length its))) (\<lambda>e s'. False)"
proof -
  have "iterated s t [] t s" using assms by (rule iterated_start)
  then have "post (for_loop 0 (int (length its))
                (\<lambda>i. for_loop 0 (its ! nat i) (\<lambda>iter. PointToPlane_iteration K v dd i)) t) s
              (iterated s t (schedule its (nat (int (length its))))) (\<lambda>e s'. False)"
    by (rule outer_loop [OF iteration_like_PointToPlane]) simp
  then show ?thesis by (simp add: PointToPlane_odometry_def)
qed

lemma Intensity_odometry_iterated:
  assumes "t < length (store s)"
  shows "post (Intensity_odometry K v dd its (int (length its)) t) s
           (iterated s t (schedule its (length its))) (\<lambda>e s'. False)"
proof -
  have "iterated s t [] t s" using assms by (rule iterated_start)
  then have "post (for_loop 0 (int (length its))
                (\<lambda>i. for_loop 0 (its ! nat i) (\<lambda>iter. Intensity_iteration K v dd i)) t) s
              (iterated s t (schedule its (nat (int (length its))))) (\<lambda>e s'. False)"
    by (rule outer_loop [OF iteration_like_Intensity]) simp
  then show ?thesis by (simp add: Intensity_odometry_def)
qed

lemma Hybrid_odometry_iterated:
  assumes "t < length (store s)"
  shows "post (Hybrid_odometry K v dd its (int (length its)) t) s
           (iterated s t (schedule its (length its))) (\<lambda>e s'. False)"
proof -
  have "iterated s t [] t s" using assms by (rule iterated_start)
  then have "post (for_loop 0 (int (length its))
                (\<lambda>i. for_loop 0 (its ! nat i) (\<lambda>iter. Hybrid_iteration K v dd i)) t) s
              (iterated s t (schedule its (nat (int (length its))))) (\<lambda>e s'. False)"
    by (rule outer_loop [OF iteration_like_Hybrid]) simp
  then show ?thesis by (simp add: Hybrid_odometry_def)
qed

subsection \<open>Pyramid levels\<close>

lemma clone_at_append: "clone_at base st h T \<Longrightarrow> clone_at base (st @ xs) h T"
  by (auto simp: clone_at_def nth_append)

lemma clone_at_update: "clone_at base st h T \<Longrightarrow> a0 < base \<Longrightarrow> clone_at base (st[a0 := x]) h T"
  by (auto simp: clone_at_def)

lemma clone_at_new: "base \<le> length st \<Longrightarrow> clone_at base (st @ [T]) (Some (length st)) T"
  by (simp add: clone_at_def)

lemma clone_at_new_update:
  "base \<le> length st \<Longrightarrow> a0 < base \<Longrightarrow> clone_at base ((st @ [T])[a0 := x]) (Some (length st)) T"
  by (simp add: clone_at_def)

lemma level_tensor_0 [simp]: "level_tensor T0 0 = T0"
  by (simp add: level_tensor_def)

lemma level_tensor_Suc:
  "(level_tensor T0 j)\<lparr>t_data := halved (t_data (level_tensor T0 j))\<rparr> = level_tensor T0 (Suc j)"
  by (simp add: level_tensor_def)

lemma depth_level_0 [simp]: "depth_level K dd img 0 = img"
  by (simp add: depth_level_def)

lemma depth_level_Suc: "down_depth K (dd * 2) (depth_level K dd img j) = depth_level K dd img (Suc j)"
  by (simp add: depth_level_def)

lemma intensity_level_0 [simp]: "intensity_level K img 0 = img"
  by (simp add: intensity_level_def)

lemma intensity_level_Suc: "PyrDown K (intensity_level K img j) = intensity_level K img (Suc j)"
  by (simp add: intensity_level_def)

subsection \<open>One pass of a pyramid loop\<close>

lemma PointToPlane_body_last:
  "post (PointToPlane_pyramid_body K a0 dd n (n - 1) v) s Q E =
     Q (put_PointToPlane K (store s ! a0) (length (store s)) 0 v)
       (s\<lparr>trace := trace s @ [CreateVertexMapCall, CreateVertexMapCall, CreateNormalMapCall],
          store := store s @ [store s ! a0]\<rparr>)"
  by (simp add: PointToPlane_pyramid_body_def put_PointToPlane_def Let_def)

lemma PointToPlane_body_down:
  assumes "j \<noteq> n - 1" "a0 < length (store s)"
    and "Q (down_curr K dd (put_PointToPlane K (store s ! a0) (length (store s)) (nat (n - 1 - j)) v))
            (s\<lparr>trace := trace s @ [CreateVertexMapCall, CreateVertexMapCall, CreateNormalMapCall,
                                    PyrDownDepthCall, PyrDownDepthCall],
               store := halved_store a0 (store s)\<rparr>)"
  shows "post (PointToPlane_pyramid_body K a0 dd n j v) s Q (\<lambda>e s'. True)"
  using assms
  by (simp add: PointToPlane_pyramid_body_def put_PointToPlane_def Let_def post_PyrDownDepth
      post_halve_intrinsics nth_append down_curr_def halved_store_def)

lemma Intensity_body_last:
  "post (Intensity_pyramid_body K a0 dd n (n - 1) v) s Q E =
     Q (put_Intensity K (store s ! a0) (length (store s)) 0 v)
       (s\<lparr>trace := trace s @ [CreateVertexMapCall, FilterSobelCall],
          store := store s @ [store s ! a0]\<rparr>)"
  by (simp add: Intensity_pyramid_body_def put_Intensity_def Let_def)

lemma Intensity_body_down:
  assumes "j \<noteq> n - 1" "a0 < length (store s)"
    and "Q (down_intensity K (down_curr K dd
              (put_Intensity K (store s ! a0) (length (store s)) (nat (n - 1 - j)) v)))
            (s\<lparr>trace := trace s @ [CreateVertexMapCall, FilterSobelCall,
                                    PyrDownDepthCall, PyrDownDepthCall, PyrDownCall, PyrDownCall],
               store := halved_store a0 (store s)\<rparr>)"
  shows "post (Intensity_pyramid_body K a0 dd n j v) s Q (\<lambda>e s'. True)"
  using assms
  by (simp add: Intensity_pyramid_body_def put_Intensity_def Let_def post_PyrDownDepth
      post_halve_intrinsics nth_append down_curr_def down_intensity_def halved_store_def)

lemma Hybrid_body_last:
  "post (Hybrid_pyramid_body K a0 dd n (n - 1) v) s Q E =
     Q (put_Hybrid K (store s ! a0) (length (store s)) 0 v)
       (s\<lparr>trace := trace s @ [CreateVertexMapCall, FilterSobelCall, FilterSobelCall],
          store := store s @ [store s ! a0]\<rparr>)"
  by (simp add: Hybrid_pyramid_body_def put_Hybrid_def Let_def)

lemma Hybrid_body_down:
  assumes "j \<noteq> n - 1" "a0 < length (store s)"
    and "Q (down_intensity K (down_curr K dd
              (put_Hybrid K (store s ! a0) (length (store s)) (nat (n - 1 - j)) v)))
            (s\<lparr>trace := trace s @ [CreateVertexMapCall, FilterSobelCall, FilterSobelCall,
                                    PyrDownDepthCall, PyrDownDepthCall, PyrDownCall, PyrDownCall],
               store := halved_store a0 (store s)\<rparr>)"
  shows "post (Hybrid_pyramid_body K a0 dd n j v) s Q (\<lambda>e s'. True)"
  using assms
  by (simp add: Hybrid_pyramid_body_def put_Hybrid_def Let_def post_PyrDownDepth
      post_halve_intrinsics nth_append down_curr_def down_intensity_def halved_store_def)

subsection \<open>The invariants are kept\<close>

lemma last_index:
  assumes "j = n - 1" "0 \<le> j"
  shows "nat (min j (n - 1)) = nat n - 1" "nat (min (j + 1) (n - 1)) = nat n - 1"
    "nat (n - (j + 1)) = 0" "nat (n - j) = Suc 0" "nat (min (n - 1) (n - 1)) = nat n - 1"
    "nat (min (n - 1 + 1) (n - 1)) = nat n - 1" "nat (n - (n - 1 + 1)) = 0" "nat (n - (n - 1)) = Suc 0"
  using assms by simp_all

lemma inner_index:
  assumes "j < n - 1" "0 \<le> j"
  shows "nat (min j (n - 1)) = nat j" "nat (min (j + 1) (n - 1)) = Suc (nat j)"
    "nat (n - j) = Suc (nat (n - 1 - j))" "nat (n - (j + 1)) = nat (n - 1 - j)"
    "nat n - Suc (nat (n - 1 - j)) = nat j"
  using assms by simp_all

lemma inv_PointToPlane_step:
  assumes inv: "inv_PointToPlane K a0 dd n source target s0 j v s" and j: "0 \<le> j" "j < n"
  shows "post (PointToPlane_pyramid_body K a0 dd n j v) s
           (inv_PointToPlane K a0 dd n source target s0 (j + 1)) (\<lambda>e s'. True)"
proof (cases "j = n - 1")
  case True
  note m = last_index [OF True j(1)]
  show ?thesis
    unfolding True PointToPlane_body_last
    using inv j unfolding True inv_PointToPlane_def inv_base_def m level_PointToPlane_def
      level_base_def put_PointToPlane_def
    apply (simp add: nth_append nth_list_update)
    apply (intro allI impI)
    subgoal for k
      by (cases "k = 0") (simp_all add: clone_at_append clone_at_new)
    done
next
  case False
  then have lt: "j < n - 1" using j by simp
  note m = inner_index [OF lt j(1)]
  have a0: "a0 < length (store s)" using inv by (simp add: inv_PointToPlane_def inv_base_def)
  show ?thesis
  proof (rule PointToPlane_body_down [OF False a0])
    show "inv_PointToPlane K a0 dd n source target s0 (j + 1)
            (down_curr K dd (put_PointToPlane K (store s ! a0) (length (store s)) (nat (n - 1 - j)) v))
            (s\<lparr>trace := trace s @ [CreateVertexMapCall, CreateVertexMapCall, CreateNormalMapCall,
                                    PyrDownDepthCall, PyrDownDepthCall],
               store := halved_store a0 (store s)\<rparr>)"
      using inv j lt unfolding inv_PointToPlane_def inv_base_def m level_PointToPlane_def
        level_base_def put_PointToPlane_def down_curr_def halved_store_def
      apply (simp add: nth_append nth_list_update level_tensor_Suc depth_level_Suc)
      apply (intro allI impI)
      subgoal for k
        by (cases "k = nat (n - 1 - j)")
          (simp_all add: m clone_at_append clone_at_new clone_at_update clone_at_new_update)
      done
  qed
qed

lemma inv_Intensity_step:
  assumes inv: "inv_Intensity K a0 dd n source target s0 j v s" and j: "0 \<le> j" "j < n"
  shows "post (Intensity_pyramid_body K a0 dd n j v) s
           (inv_Intensity K a0 dd n source target s0 (j + 1)) (\<lambda>e s'. True)"
proof (cases "j = n - 1")
  case True
  note m = last_index [OF True j(1)]
  show ?thesis
    unfolding True Intensity_body_last
    using inv j unfolding True inv_Intensity_def inv_base_def inv_intensity_vars_def m
      level_Intensity_def level_base_def put_Intensity_def
    apply (simp add: nth_append nth_list_update)
    apply (intro allI impI)
    subgoal for k
      by (cases "k = 0") (simp_all add: clone_at_append clone_at_new)
    done
next
  case False
  then have lt: "j < n - 1" using j by simp
  note m = inner_index [OF lt j(1)]
  have a0: "a0 < length (store s)" using inv by (simp add: inv_Intensity_def inv_base_def)
  show ?thesis
  proof (rule Intensity_body_down [OF False a0])
    show "inv_Intensity K a0 dd n source target s0 (j + 1)
            (down_intensity K (down_curr K dd
              (put_Intensity K (store s ! a0) (length (store s)) (nat (n - 1 - j)) v)))
            (s\<lparr>trace := trace s @ [CreateVertexMapCall, FilterSobelCall,
                                    PyrDownDepthCall, PyrDownDepthCall, PyrDownCall, PyrDownCall],
               store := halved_store a0 (store s)\<rparr>)"
      using inv j lt unfolding inv_Intensity_def inv_base_def inv_intensity_vars_def m
        level_Intensity_def level_base_def put_Intensity_def down_curr_def down_intensity_def
        halved_store_def
      apply (simp add: nth_append nth_list_update level_tensor_Suc depth_level_Suc intensity_level_Suc)
      apply (intro allI impI)
      subgoal for k
        by (cases "k = nat (n - 1 - j)")
          (simp_all add: m clone_at_append clone_at_new clone_at_update clone_at_new_update)
      done
  qed
qed

lemma inv_Hybrid_step:
  assumes inv: "inv_Hybrid K a0 dd n source target s0 j v s" and j: "0 \<le> j" "j < n"
  shows "post (Hybrid_pyramid_body K a0 dd n j v) s
           (inv_Hybrid K a0 dd n source target s0 (j + 1)) (\<lambda>e s'. True)"
proof (cases "j = n - 1")
  case True
  note m = last_index [OF True j(1)]
  show ?thesis
    unfolding True Hybrid_body_last
    using inv j unfolding True inv_Hybrid_def inv_base_def inv_intensity_vars_def m
      level_Hybrid_def level_Intensity_def level_base_def put_Hybrid_def
    apply (simp add: nth_append nth_list_update)
    apply (intro allI impI)
    subgoal for k
      by (cases "k = 0") (simp_all add: clone_at_append clone_at_new)
    done
next
  case False
  then have lt: "j < n - 1" using j by simp
  note m = inner_index [OF lt j(1)]
  have a0: "a0 < length (store s)" using inv by (simp add: inv_Hybrid_def inv_base_def)
  show ?thesis
  proof (rule Hybrid_body_down [OF False a0])
    show "inv_Hybrid K a0 dd n source target s0 (j + 1)
            (down_intensity K (down_curr K dd
              (put_Hybrid K (store s ! a0) (length (store s)) (nat (n - 1 - j)) v)))
            (s\<lparr>trace := trace s @ [CreateVertexMapCall, FilterSobelCall, FilterSobelCall,
                                    PyrDownDepthCall, PyrDownDepthCall, PyrDownCall, PyrDownCall],
               store := halved_store a0 (store s)\<rparr>)"
      using inv j lt unfolding inv_Hybrid_def inv_base_def inv_intensity_vars_def m
        level_Hybrid_def level_Intensity_def level_base_def put_Hybrid_def down_curr_def
        down_intensity_def halved_store_def
      apply (simp add: nth_append nth_list_update level_tensor_Suc depth_level_Suc intensity_level_Suc)
      apply (intro allI impI)
      subgoal for k
        by (cases "k = nat (n - 1 - j)")
          (simp_all add: m clone_at_append clone_at_new clone_at_update clone_at_new_update)
      done
  qed
qed

subsection \<open>The pyramids and the methods\<close>

lemma nat_min_0 [simp]: "nat (min 0 (n - 1)) = 0"
  by simp

lemma PointToPlane_pyramid_levels:
  assumes "a0 < length (store s)" "0 \<le> n"
  shows "post (PointToPlane_pyramid K source target a0 dd n) s
           (\<lambda>v s'. \<forall>k<nat n. level_PointToPlane K dd source target (store s ! a0)
                                (length (store s)) (nat n) v s' k)
           (\<lambda>e s'. True)"
proof -
  have "post (PointToPlane_pyramid K source target a0 dd n) s
          (inv_PointToPlane K a0 dd n source target s n) (\<lambda>e s'. True)"
    unfolding PointToPlane_pyramid_def
  proof (rule post_for_loop [where I = "inv_PointToPlane K a0 dd n source target s"])
    show "0 \<le> n" by (rule assms(2))
    show "inv_PointToPlane K a0 dd n source target s 0
            \<lparr>source_depth_curr = depth source, target_depth_curr = depth target,
             source_vertex_maps = replicate (nat n) empty_image,
             intrinsic_matrices = replicate (nat n) None,
             target_vertex_maps = replicate (nat n) empty_image,
             target_normal_maps = replicate (nat n) empty_image\<rparr> s"
      using assms by (auto simp: inv_PointToPlane_def inv_base_def)
  qed (rule inv_PointToPlane_step)
  then show ?thesis
    by (rule post_mono) (simp_all add: inv_PointToPlane_def)
qed

lemma Intensity_pyramid_levels:
  assumes "a0 < length (store s)" "0 \<le> n"
  shows "post (Intensity_pyramid K source target a0 dd n) s
           (\<lambda>v s'. \<forall>k<nat n. level_Intensity K dd source target (store s ! a0)
                                (length (store s)) (nat n) v s' k)
           (\<lambda>e s'. True)"
proof -
  let ?s1 = "s\<lparr>trace := trace s @ [RGBToGrayCall, RGBToGrayCall]\<rparr>"
  have "post (for_loop 0 n (Intensity_pyramid_body K a0 dd n)
           \<lparr>source_depth_curr = depth source, target_depth_curr = depth target,
            source_vertex_maps = replicate (nat n) empty_image,
            intrinsic_matrices = replicate (nat n) None,
            source_intensity_curr = gray K (color source),
            target_intensity_curr = gray K (color target),
            source_intensity = replicate (nat n) empty_image,
            target_intensity = replicate (nat n) empty_image,
            source_depth = replicate (nat n) empty_image,
            target_depth = replicate (nat n) empty_image,
            target_intensity_dx = replicate (nat n) empty_image,
            target_intensity_dy = replicate (nat n) empty_image\<rparr>) ?s1
          (inv_Intensity K a0 dd n source target ?s1 n) (\<lambda>e s'. True)"
  proof (rule post_for_loop [where I = "inv_Intensity K a0 dd n source target ?s1"])
    show "0 \<le> n" by (rule assms(2))
    show "inv_Intensity K a0 dd n source target ?s1 0
           \<lparr>source_depth_curr = depth source, target_depth_curr = depth target,
            source_vertex_maps = replicate (nat n) empty_image,
            intrinsic_matrices = replicate (nat n) None,
            source_intensity_curr = gray K (color source),
            target_intensity_curr = gray K (color target),
            source_intensity = replicate (nat n) empty_image,
            target_intensity = replicate (nat n) empty_image,
            source_depth = replicate (nat n) empty_image,
            target_depth = replicate (nat n) empty_image,
            target_intensity_dx = replicate (nat n) empty_image,
            target_intensity_dy = replicate (nat n) empty_image\<rparr> ?s1"
      using assms by (auto simp: inv_Intensity_def inv_base_def inv_intensity_vars_def)
  qed (rule inv_Intensity_step)
  then show ?thesis
    unfolding Intensity_pyramid_def
    by (simp add: gray_def) (erule post_mono, simp_all add: inv_Intensity_def)
qed

lemma Hybrid_pyramid_levels:
  assumes "a0 < length (store s)" "0 \<le> n"
  shows "post (Hybrid_pyramid K source target a0 dd n) s
           (\<lambda>v s'. \<forall>k<nat n. level_Hybrid K dd source target (store s ! a0)
                                (length (store s)) (nat n) v s' k)
           (\<lambda>e s'. True)"
proof -
  let ?s1 = "s\<lparr>trace := trace s @ [RGBToGrayCall, RGBToGrayCall]\<rparr>"
  have "post (for_loop 0 n (Hybrid_pyramid_body K a0 dd n)
           \<lparr>source_depth_curr = depth source, target_depth_curr = depth target,
            source_vertex_maps = replicate (nat n) empty_image,
            intrinsic_matrices = replicate (nat n) None,
            source_intensity_curr = gray K (color source),
            target_intensity_curr = gray K (color target),
            source_intensity = replicate (nat n) empty_image,
            target_intensity = replicate (nat n) empty_image,
            source_depth = replicate (nat n) empty_image,
            target_depth = replicate (nat n) empty_image,
            target_intensity_dx = replicate (nat n) empty_image,
            target_intensity_dy = replicate (nat n) empty_image,
            target_depth_dx = replicate (nat n) empty_image,
            target_depth_dy = replicate (nat n) empty_image\<rparr>) ?s1
          (inv_Hybrid K a0 dd n source target ?s1 n) (\<lambda>e s'. True)"
  proof (rule post_for_loop [where I = "inv_Hybrid K a0 dd n source target ?s1"])
    show "0 \<le> n" by (rule assms(2))
    show "inv_Hybrid K a0 dd n source target ?s1 0
           \<lparr>source_depth_curr = depth source, target_depth_curr = depth target,
            source_vertex_maps = replicate (nat n) empty_image,
            intrinsic_matrices = replicate (nat n) None,
            source_intensity_curr = gray K (color source),
            target_intensity_curr = gray K (color target),
            source_intensity = replicate (nat n) empty_image,
            target_intensity = replicate (nat n) empty_image,
            source_depth = replicate (nat n) empty_image,
            target_depth = replicate (nat n) empty_image,
            target_intensity_dx = replicate (nat n) empty_image,
            target_intensity_dy = replicate (nat n) empty_image,
            target_depth_dx = replicate (nat n) empty_image,
            target_depth_dy = replicate (nat n) empty_image\<rparr> ?s1"
      using assms by (auto simp: inv_Hybrid_def inv_base_def inv_intensity_vars_def)
  qed (rule inv_Hybrid_step)
  then show ?thesis
    unfolding Hybrid_pyramid_def
    by (simp add: gray_def) (erule post_mono, simp_all add: inv_Hybrid_def)
qed

lemma method_spec:
  assumes g: "keeps (grows a0) pyr" and q: "keeps quiet pyr"
    and odo: "\<And>v s1. t < length (store s1) \<Longrightarrow> post (odo v) s1 (iterated s1 t ks) (\<lambda>e s'. False)"
    and t: "t < length (store s)"
  shows "post (andThen pyr odo) s (method_post a0 t ks s) (\<lambda>e s'. grows a0 s s' \<and> quiet s s')"
proof -
  have "post pyr s (\<lambda>v s1. grows a0 s s1 \<and> quiet s s1) (\<lambda>e s1. grows a0 s s1 \<and> quiet s s1)"
    using keepsD [OF g, of s] keepsD [OF q, of s] by (simp add: post_conj)
  then have "post pyr s (\<lambda>v s1. post (odo v) s1 (method_post a0 t ks s) (\<lambda>e s'. grows a0 s s' \<and> quiet s s'))
               (\<lambda>e s1. grows a0 s s1 \<and> quiet s s1)"
  proof (rule post_mono)
    fix v s1 assume a: "grows a0 s s1 \<and> quiet s s1"
    then have t1: "t < length (store s1)" using t by (simp add: grows_def)
    show "post (odo v) s1 (method_post a0 t ks s) (\<lambda>e s'. grows a0 s s' \<and> quiet s s')"
      using odo [OF t1]
    proof (rule post_mono)
      fix r s' assume i: "iterated s1 t ks r s'"
      show "method_post a0 t ks s r s'"
        using a i t unfolding method_post_def iterated_def grows_def quiet_def
        by (auto split: if_splits)
    qed simp
  qed simp
  then show ?thesis by simp
qed

lemma PointToPlane_spec:
  "t < length (store s) \<Longrightarrow>
   post (RGBDOdometryMultiScalePointToPlane K source target a0 t ds dm dd its) s
     (method_post a0 t (schedule its (length its)) s) (\<lambda>e s'. grows a0 s s' \<and> quiet s s')"
  unfolding RGBDOdometryMultiScalePointToPlane_def Let_def
  by (rule method_spec [OF keeps_PointToPlane_pyramid]) (simp_all add: PointToPlane_odometry_iterated)

lemma Intensity_spec:
  "t < length (store s) \<Longrightarrow>
   post (RGBDOdometryMultiScaleIntensity K source target a0 t ds dm dd its) s
     (method_post a0 t (schedule its (length its)) s) (\<lambda>e s'. grows a0 s s' \<and> quiet s s')"
  unfolding RGBDOdometryMultiScaleIntensity_def Let_def
  by (rule method_spec [OF keeps_Intensity_pyramid]) (simp_all add: Intensity_odometry_iterated)

lemma Hybrid_spec:
  "t < length (store s) \<Longrightarrow>
   post (RGBDOdometryMultiScaleHybrid K source target a0 t ds dm dd its) s
     (method_post a0 t (schedule its (length its)) s) (\<lambda>e s'. grows a0 s s' \<and> quiet s s')"
  unfolding RGBDOdometryMultiScaleHybrid_def Let_def
  by (rule method_spec [OF keeps_Hybrid_pyramid]) (simp_all add: Hybrid_odometry_iterated)

subsection \<open>The driver\<close>

lemma post_To:
  "post (To a dev dt) s Q E =
     (if t_device (store s ! a) = dev \<and> t_dtype (store s ! a) = dt then Q a s
      else Q (length (store s)) (s\<lparr>store := store s @ [(store s ! a)\<lparr>t_dtype := dt, t_device := dev\<rparr>]\<rparr>))"
  by (simp add: To_def)

lemma post_Preprocess:
  "post (Preprocess K source target ds dm) s Q E =
     Q (\<lparr>color = color source, depth = ClipTransform K (depth source) ds 0 dm NaN\<rparr>,
        \<lparr>color = color target, depth = ClipTransform K (depth target) ds 0 dm NaN\<rparr>)
       (s\<lparr>trace := trace s @ [ClipTransformCall, ClipTransformCall]\<rparr>)"
  by (simp add: Preprocess_def)

lemma MethodDispatch_spec:
  assumes "t < length (store s)"
  shows "post (MethodDispatch K method sp tp a0 t ds dm dd its) s
           (method_post a0 t (schedule its (length its)) s) (\<lambda>e s'. grows a0 s s' \<and> quiet s s')"
proof (cases "method")
  case (Unlisted m)
  then show ?thesis by (simp add: MethodDispatch_def grows_def quiet_def)
qed (simp_all add: MethodDispatch_def PointToPlane_spec Intensity_spec Hybrid_spec assms)

lemma driver_tail:
  assumes "length (store s) \<le> a0" "length (store s) \<le> t" "t < length st" "t \<noteq> a0"
    "is_host_double (st ! t)" "length (store s) \<le> length st"
    "\<forall>a<length (store s). st ! a = store s ! a" "pose_calls tr = pose_calls (trace s)"
  shows "post (MethodDispatch K method sp tp a0 t ds dm dd its) (s\<lparr>store := st, trace := tr\<rparr>)
           (driver_post its s) (driver_fail s)"
proof -
  let ?s1 = "s\<lparr>store := st, trace := tr\<rparr>"
  have "post (MethodDispatch K method sp tp a0 t ds dm dd its) ?s1
          (method_post a0 t (schedule its (length its)) ?s1) (\<lambda>e s'. grows a0 ?s1 s' \<and> quiet ?s1 s')"
    by (rule MethodDispatch_spec) (simp add: assms)
  then show ?thesis
  proof (rule post_mono)
    fix r s' assume "method_post a0 t (schedule its (length its)) ?s1 r s'"
    then show "driver_post its s r s'"
      using assms unfolding method_post_def driver_post_def grows_def
      by (auto split: if_splits)
  next
    fix e s' assume "grows a0 ?s1 s' \<and> quiet ?s1 s'"
    then show "driver_fail s e s'"
      using assms unfolding driver_fail_def grows_def quiet_def
      by auto
  qed
qed

lemma driver_spec:
  "post (RGBDOdometryMultiScale K source target intr init ds dm dd its method) s
     (driver_post its s) (driver_fail s)"
proof (cases "GetDevice (depth target) = GetDevice (depth source)")
  case False
  then show ?thesis
    by (simp add: RGBDOdometryMultiScale_def driver_fail_def)
next
  case True
  have tail: "\<And>st a0 t sp tp.
      length (store s) \<le> a0 \<Longrightarrow> length (store s) \<le> t \<Longrightarrow> t < length st \<Longrightarrow> t \<noteq> a0 \<Longrightarrow>
      is_host_double (st ! t) \<Longrightarrow> length (store s) \<le> length st \<Longrightarrow>
      \<forall>a<length (store s). st ! a = store s ! a \<Longrightarrow>
      post (MethodDispatch K method sp tp a0 t ds dm dd its)
        (s\<lparr>store := st, trace := trace s @ [ClipTransformCall, ClipTransformCall]\<rparr>)
        (driver_post its s) (driver_fail s)"
    by (rule driver_tail) simp_all
  show ?thesis
    using True
    apply (simp add: RGBDOdometryMultiScale_def post_To post_Preprocess)
    apply (intro conjI impI)
    apply (rule tail; simp add: nth_append is_host_double_def)+
    done
qed

subsection \<open>The errors a computation can raise\<close>

lemma raises_onlyD: "raises_only P m \<Longrightarrow> post m s (\<lambda>x s'. True) (\<lambda>e s'. P e)"
  by (simp add: raises_only_def)

lemma raises_only_ret: "raises_only P (ret x)"
  by (simp add: raises_only_def)

lemma raises_only_LogError: "P e \<Longrightarrow> raises_only P (LogError e)"
  by (simp add: raises_only_def)

lemma raises_only_andThen:
  assumes "raises_only P m" "\<And>x. raises_only P (f x)"
  shows "raises_only P (andThen m f)"
  unfolding raises_only_def
proof
  fix s
  have "post m s (\<lambda>x s'. True) (\<lambda>e s'. P e)" using assms(1) by (rule raises_onlyD)
  then have "post m s (\<lambda>x s'. post (f x) s' (\<lambda>x s'. True) (\<lambda>e s'. P e)) (\<lambda>e s'. P e)"
    by (rule post_mono) (simp_all add: raises_onlyD [OF assms(2)])
  then show "post (andThen m f) s (\<lambda>x s'. True) (\<lambda>e s'. P e)" by simp
qed

lemma raises_only_for_loop:
  assumes "\<And>j x. raises_only P (body j x)"
  shows "raises_only P (for_loop i n body x)"
  unfolding raises_only_def
proof
  fix s
  show "post (for_loop i n body x) s (\<lambda>x s'. True) (\<lambda>e s'. P e)"
  proof (cases "i \<le> n")
    case True
    have "post (for_loop i n body x) s ((\<lambda>j x s'. True) n) (\<lambda>e s'. P e)"
      by (rule post_for_loop) (simp_all add: True raises_onlyD [OF assms])
    then show ?thesis by simp
  next
    case False
    then show ?thesis by (simp add: post_for_loop_skip)
  qed
qed

lemma raises_only_if: "raises_only P a \<Longrightarrow> raises_only P b \<Longrightarrow> raises_only P (if c then a else b)"
  by simp

lemma raises_only_Let: "(\<And>x. raises_only P (f x)) \<Longrightarrow> raises_only P (Let t f)"
  by simp

lemma raises_only_case_prod:
  "(\<And>a b. raises_only P (f a b)) \<Longrightarrow> raises_only P (case p of (a, b) \<Rightarrow> f a b)"
  by (cases p) simp

lemma raises_only_never:
  "raises_only P (fetch a)" "raises_only P (call ev x)" "raises_only P (emit ev)"
  "raises_only P (alloc T)" "raises_only P (div_assign a c)" "raises_only P (Clone a)"
  "raises_only P (To a dev dt)" "raises_only P (Matmul a b)" "raises_only P (deref h)"
  "raises_only P (ComputePosePointToPlane K svm tvm tnm h t dd)"
  "raises_only P (ComputePoseIntensity K sd td si ti dx dy svm h t dd)"
  "raises_only P (ComputePoseHybrid K sd td si ti ddx ddy dx dy svm h t dd)"
  "raises_only P (Preprocess K source target ds dm)"
  by (simp_all add: raises_only_def post_To post_Preprocess)

lemma raises_only_assign_last_last: "P IndexOutOfRange \<Longrightarrow> raises_only P (assign_last_last a v)"
  by (simp add: raises_only_def)

lemma raises_only_PyrDownDepth:
  "(\<And>r c ch. P (InvalidShape r c ch)) \<Longrightarrow> (\<And>dt. P (ExpectedFloat32 dt)) \<Longrightarrow>
   raises_only P (PyrDownDepth K src thr NaN)"
  by (simp add: raises_only_def post_PyrDownDepth)

lemmas raises_only_intros =
  raises_only_andThen raises_only_for_loop raises_only_if raises_only_Let raises_only_case_prod
  raises_only_ret raises_only_LogError raises_only_never raises_only_assign_last_last
  raises_only_PyrDownDepth

lemma raises_only_driver:
  assumes "\<And>r c ch. P (InvalidShape r c ch)" "\<And>dt. P (ExpectedFloat32 dt)" "P IndexOutOfRange"
    "P MethodNotImplemented" "\<And>d1 d2. P (DeviceMismatch d1 d2)"
  shows "raises_only P (RGBDOdometryMultiScale K source target intr init ds dm dd its method)"
  unfolding RGBDOdometryMultiScale_def MethodDispatch_def
    RGBDOdometryMultiScalePointToPlane_def RGBDOdometryMultiScaleIntensity_def
    RGBDOdometryMultiScaleHybrid_def
    PointToPlane_pyramid_def Intensity_pyramid_def Hybrid_pyramid_def
    PointToPlane_pyramid_body_def Intensity_pyramid_body_def Hybrid_pyramid_body_def
    PointToPlane_odometry_def Intensity_odometry_def Hybrid_odometry_def
    PointToPlane_iteration_def Intensity_iteration_def Hybrid_iteration_def
    halve_intrinsics_def
  by (cases "method") (simp_all only: Method.case, (intro raises_only_intros assms)+)

subsection \<open>The order of composition\<close>

lemma post_value: "post m s (\<lambda>x s'. m s = (Inr x, s')) (\<lambda>e s'. m s = (Inl e, s'))"
  by (simp add: post_def split: prod.splits sum.splits)

lemma run_eq: "post m s (\<lambda>x s'. x = y \<and> s' = u) (\<lambda>e s'. False) \<Longrightarrow> m s = (Inr y, u)"
  by (auto simp: post_def split: prod.splits sum.splits)

lemma tensor_at_trace [simp]: "tensor_at (s\<lparr>trace := tr\<rparr>) h = tensor_at s h"
  by (cases h) (simp_all add: tensor_at_def)

lemma composes_in_orderI:
  assumes c: "\<And>i t s. t < length (store s) \<Longrightarrow> \<exists>D. compute i t s = (Inr (length (store s)), s\<lparr>store := store s @ [D]\<rparr>) \<and>
                  iteration i t s =
                    (Inr (Suc (length (store s))),
                     s\<lparr>trace := trace s @ [ComputePoseCall (nat i)],
                       store := store s @ [D, \<lparr>t_dtype = Float64, t_device = CPU 0,
                                 t_data = mat_mul (t_data D) (t_data (store s ! t))\<rparr>]\<rparr>)"
  shows "composes_in_order compute iteration"
  unfolding composes_in_order_def
proof (intro allI impI)
  fix i j t and s :: state
  assume t: "t < length (store s)"
  obtain A where A: "compute i t s = (Inr (length (store s)), s\<lparr>store := store s @ [A]\<rparr>)"
    "iteration i t s =
       (Inr (Suc (length (store s))),
        s\<lparr>trace := trace s @ [ComputePoseCall (nat i)],
          store := store s @ [A, \<lparr>t_dtype = Float64, t_device = CPU 0,
                    t_data = mat_mul (t_data A) (t_data (store s ! t))\<rparr>]\<rparr>)"
    using c [OF t, of i] by blast
  let ?t1 = "Suc (length (store s))"
  let ?s1 = "s\<lparr>trace := trace s @ [ComputePoseCall (nat i)],
          store := store s @ [A, \<lparr>t_dtype = Float64, t_device = CPU 0,
                    t_data = mat_mul (t_data A) (t_data (store s ! t))\<rparr>]\<rparr>"
  obtain B where B: "compute j ?t1 ?s1 = (Inr (length (store ?s1)), ?s1\<lparr>store := store ?s1 @ [B]\<rparr>)"
    "iteration j ?t1 ?s1 =
       (Inr (Suc (length (store ?s1))),
        ?s1\<lparr>trace := trace ?s1 @ [ComputePoseCall (nat j)],
          store := store ?s1 @ [B, \<lparr>t_dtype = Float64, t_device = CPU 0,
                    t_data = mat_mul (t_data B) (t_data (store ?s1 ! ?t1))\<rparr>]\<rparr>)"
    using c [of ?t1 ?s1 j] by auto
  show "\<exists>dA sA t1 s1 dB sB t2 s2.
           compute i t s = (Inr dA, sA) \<and>
           iteration i t s = (Inr t1, s1) \<and>
           t_data (store s1 ! t1) = mat_mul (t_data (store sA ! dA)) (t_data (store s ! t)) \<and>
           compute j t1 s1 = (Inr dB, sB) \<and>
           iteration j t1 s1 = (Inr t2, s2) \<and>
           t_data (store s2 ! t2) =
             mat_mul (t_data (store sB ! dB))
               (mat_mul (t_data (store sA ! dA)) (t_data (store s ! t)))"
    apply (intro exI conjI)
         apply (rule A(1))
        apply (rule A(2))
       apply (simp add: nth_append)
      apply (rule B(1))
     apply (rule B(2))
    apply (simp add: nth_append)
    done
qed

lemma PointToPlane_composes:
  "composes_in_order
     (\<lambda>i t. ComputePosePointToPlane K (source_vertex_maps v ! nat i) (target_vertex_maps v ! nat i)
        (target_normal_maps v ! nat i) (intrinsic_matrices v ! nat i) t dd)
     (PointToPlane_iteration K v dd)"
proof (rule composes_in_orderI)
  fix i t and s :: state
  assume t: "t < length (store s)"
  let ?D = "pose_tensor K (kernel_ComputePosePointToPlane K (source_vertex_maps v ! nat i)
     (target_vertex_maps v ! nat i) (target_normal_maps v ! nat i)
     (tensor_at s (intrinsic_matrices v ! nat i)) (store s ! t) dd)"
  show "\<exists>D. ComputePosePointToPlane K (source_vertex_maps v ! nat i) (target_vertex_maps v ! nat i)
        (target_normal_maps v ! nat i) (intrinsic_matrices v ! nat i) t dd s
        = (Inr (length (store s)), s\<lparr>store := store s @ [D]\<rparr>) \<and>
       PointToPlane_iteration K v dd i t s =
                    (Inr (Suc (length (store s))),
                     s\<lparr>trace := trace s @ [ComputePoseCall (nat i)],
                       store := store s @ [D, \<lparr>t_dtype = Float64, t_device = CPU 0,
                                 t_data = mat_mul (t_data D) (t_data (store s ! t))\<rparr>]\<rparr>)"
    apply (rule exI [of _ ?D])
    apply (rule conjI)
     apply (rule run_eq, simp)
    apply (rule run_eq)
    apply (simp add: PointToPlane_iteration_def nth_append pose_tensor_def t)
    done
qed

lemma Intensity_composes:
  "composes_in_order
     (\<lambda>i t. ComputePoseIntensity K (source_depth v ! nat i) (target_depth v ! nat i)
        (source_intensity v ! nat i) (target_intensity v ! nat i)
        (target_intensity_dx v ! nat i) (target_intensity_dy v ! nat i)
        (source_vertex_maps v ! nat i) (intrinsic_matrices v ! nat i) t dd)
     (Intensity_iteration K v dd)"
proof (rule composes_in_orderI)
  fix i t and s :: state
  assume t: "t < length (store s)"
  let ?D = "pose_tensor K (kernel_ComputePoseIntensity K (source_depth v ! nat i)
     (target_depth v ! nat i) (source_intensity v ! nat i) (target_intensity v ! nat i)
     (target_intensity_dx v ! nat i) (target_intensity_dy v ! nat i)
     (source_vertex_maps v ! nat i)
     (tensor_at s (intrinsic_matrices v ! nat i)) (store s ! t) dd)"
  show "\<exists>D. ComputePoseIntensity K (source_depth v ! nat i) (target_depth v ! nat i)
        (source_intensity v ! nat i) (target_intensity v ! nat i)
        (target_intensity_dx v ! nat i) (target_intensity_dy v ! nat i)
        (source_vertex_maps v ! nat i) (intrinsic_matrices v ! nat i) t dd s
        = (Inr (length (store s)), s\<lparr>store := store s @ [D]\<rparr>) \<and>
       Intensity_iteration K v dd i t s =
                    (Inr (Suc (length (store s))),
                     s\<lparr>trace := trace s @ [ComputePoseCall (nat i)],
                       store := store s @ [D, \<lparr>t_dtype = Float64, t_device = CPU 0,
                                 t_data = mat_mul (t_data D) (t_data (store s ! t))\<rparr>]\<rparr>)"
    apply (rule exI [of _ ?D])
    apply (rule conjI)
     apply (rule run_eq, simp)
    apply (rule run_eq)
    apply (simp add: Intensity_iteration_def nth_append pose_tensor_def t)
    done
qed

lemma Hybrid_composes:
  "composes_in_order
     (\<lambda>i t. ComputePoseHybrid K (source_depth v ! nat i) (target_depth v ! nat i)
        (source_intensity v ! nat i) (target_intensity v ! nat i)
        (target_depth_dx v ! nat i) (target_depth_dy v ! nat i)
        (target_intensity_dx v ! nat i) (target_intensity_dy v ! nat i)
        (source_vertex_maps v ! nat i) (intrinsic_matrices v ! nat i) t dd)
     (Hybrid_iteration K v dd)"
proof (rule composes_in_orderI)
  fix i t and s :: state
  assume t: "t < length (store s)"
  let ?D = "pose_tensor K (kernel_ComputePoseHybrid K (source_depth v ! nat i)
     (target_depth v ! nat i) (source_intensity v ! nat i) (target_intensity v ! nat i)
     (target_depth_dx v ! nat i) (target_depth_dy v ! nat i)
     (target_intensity_dx v ! nat i) (target_intensity_dy v ! nat i)
     (source_vertex_maps v ! nat i)
     (tensor_at s (intrinsic_matrices v ! nat i)) (store s ! t) dd)"
  show "\<exists>D. ComputePoseHybrid K (source_depth v ! nat i) (target_depth v ! nat i)
        (source_intensity v ! nat i) (target_intensity v ! nat i)
        (target_depth_dx v ! nat i) (target_depth_dy v ! nat i)
        (target_intensity_dx v ! nat i) (target_intensity_dy v ! nat i)
        (source_vertex_maps v ! nat i) (intrinsic_matrices v ! nat i) t dd s
        = (Inr (length (store s)), s\<lparr>store := store s @ [D]\<rparr>) \<and>
       Hybrid_iteration K v dd i t s =
                    (Inr (Suc (length (store s))),
                     s\<lparr>trace := trace s @ [ComputePoseCall (nat i)],
                       store := store s @ [D, \<lparr>t_dtype = Float64, t_device = CPU 0,
                                 t_data = mat_mul (t_data D) (t_data (store s ! t))\<rparr>]\<rparr>)"
    apply (rule exI [of _ ?D])
    apply (rule conjI)
     apply (rule run_eq, simp)
    apply (rule run_eq)
    apply (simp add: Hybrid_iteration_def nth_append pose_tensor_def t)
    done
qed

lemma quarter_turns_differ:
  "mat_mul quarter_turn_z (mat_mul quarter_turn_x identity4) \<noteq>
   mat_mul quarter_turn_x (mat_mul quarter_turn_z identity4)"
  by (simp add: mat_mul_def quarter_turn_z_def quarter_turn_x_def identity4_def)

lemma example_compute:
  assumes "ComputePosePointToPlane example_collab a b c h t dd s = (Inr d, sd)"
  shows "t_data (store sd ! d) =
           (if t_data (store s ! t) = identity4 then quarter_turn_x else quarter_turn_z)"
proof -
  have "post (ComputePosePointToPlane example_collab a b c h t dd) s
          (\<lambda>d sd. t_data (store sd ! d) =
             (if t_data (store s ! t) = identity4 then quarter_turn_x else quarter_turn_z))
          (\<lambda>e s'. True)"
    by (simp add: pose_tensor_def example_collab_def example_pose_def)
  from post_result [OF this assms] show ?thesis .
qed

subsection \<open>The schedule and the driver\<close>

lemma post_fails: "post m s (\<lambda>x s'. False) E \<Longrightarrow> \<exists>e s'. m s = (Inl e, s') \<and> E e s'"
  by (auto simp: post_def split: prod.splits sum.splits)

lemma runs_scheduleI:
  assumes "\<And>its t s. t < length (store s) \<Longrightarrow>
     post (odometry its (int (length its)) t) s (iterated s t (schedule its (length its))) (\<lambda>e s'. False)"
  shows "runs_schedule odometry"
  unfolding runs_schedule_def
proof (intro allI impI)
  fix its t and s :: state
  assume "t < length (store s)"
  then have "post (odometry its (int (length its)) t) s
               (iterated s t (schedule its (length its))) (\<lambda>e s'. False)"
    by (rule assms)
  from post_total [OF this]
  show "\<exists>t' s'. odometry its (int (length its)) t s = (Inr t', s') \<and>
          trace s' = trace s @ map ComputePoseCall (schedule its (length its))"
    by (auto simp: iterated_def)
qed

lemma runs_schedule_PointToPlane: "runs_schedule (PointToPlane_odometry K v dd)"
  by (rule runs_scheduleI) (rule PointToPlane_odometry_iterated)

lemma runs_schedule_Intensity: "runs_schedule (Intensity_odometry K v dd)"
  by (rule runs_scheduleI) (rule Intensity_odometry_iterated)

lemma runs_schedule_Hybrid: "runs_schedule (Hybrid_odometry K v dd)"
  by (rule runs_scheduleI) (rule Hybrid_odometry_iterated)

lemma count_list_replicate: "count_list (replicate m x) y = (if x = y then m else 0)"
  by (induction m) auto

lemma count_schedule: "count_list (schedule its n) i = (if i < n then nat (its ! i) else 0)"
  by (induction n) (auto simp: schedule_Suc count_list_replicate, simp add: schedule_def)

lemma driver_returns:
  assumes "RGBDOdometryMultiScale K source target intr init ds dm dd its method s = (Inr r, s')"
  shows "driver_post its s r s'"
  using post_result [OF driver_spec assms] .

lemma driver_fails:
  assumes "RGBDOdometryMultiScale K source target intr init ds dm dd its method s = (Inl e, s')"
  shows "driver_fail s e s'"
  using post_error [OF driver_spec assms] .

subsection \<open>Running the examples\<close>

lemma post_for_loop_unroll:
  "post (for_loop i n body x) s Q E =
     (if i < n then post (body i x) s (\<lambda>x' s'. post (for_loop (i + 1) n body x') s' Q E) E
      else Q x s)"
  by (simp add: post_for_loop_step post_for_loop_skip)

lemmas run_simps =
  RGBDOdometryMultiScale_def MethodDispatch_def post_To post_Preprocess
  RGBDOdometryMultiScalePointToPlane_def RGBDOdometryMultiScaleIntensity_def
  RGBDOdometryMultiScaleHybrid_def
  PointToPlane_pyramid_def Intensity_pyramid_def Hybrid_pyramid_def
  PointToPlane_pyramid_body_def Intensity_pyramid_body_def Hybrid_pyramid_body_def
  PointToPlane_odometry_def Intensity_odometry_def Hybrid_odometry_def
  PointToPlane_iteration_def Intensity_iteration_def Hybrid_iteration_def
  post_for_loop_unroll post_PyrDownDepth post_halve_intrinsics Let_def
  example_collab_def example_frame_def example_depth_def example_color_def example_state_def
  example_intrinsics_def down_depth_def halved_def div_all_def set_last_last_def
  ClipTransform_spec_def tensor_at_def pose_tensor_def example_pose_def nth_append

subsection \<open>Intrinsics of the levels\<close>

lemma length_3_conv: "length xs = 3 \<Longrightarrow> \<exists>a b c. xs = [a, b, c]"
  by (auto simp: numeral_3_eq_3 length_Suc_conv)

lemma is_3x3_rows: "is_3x3 M \<Longrightarrow> \<exists>a b c d e f g h i. M = [[a, b, c], [d, e, f], [g, h, i]]"
proof -
  assume "is_3x3 M"
  then have l: "length M = 3" and r: "\<forall>row\<in>set M. length row = 3" by (simp_all add: is_3x3_def)
  from length_3_conv [OF l] obtain r1 r2 r3 where M: "M = [r1, r2, r3]" by blast
  with r have l1: "length r1 = 3" and l2: "length r2 = 3" and l3: "length r3 = 3" by simp_all
  from length_3_conv [OF l1] obtain a b c where r1: "r1 = [a, b, c]" by blast
  from length_3_conv [OF l2] obtain d e f where r2: "r2 = [d, e, f]" by blast
  from length_3_conv [OF l3] obtain g h i where r3: "r3 = [g, h, i]" by blast
  show ?thesis unfolding M r1 r2 r3 by blast
qed

lemma halved_3x3:
  "halved [[a, b, c], [d, e, f], [g, h, i]] = [[a / 2, b / 2, c / 2], [d / 2, e / 2, f / 2], [g / 2, h / 2, 1]]"
  by (simp add: halved_def div_all_def set_last_last_def)

lemma halved_funpow_3x3:
  "(halved ^^ j) [[a, b, c], [d, e, f], [g, h, i]] =
     [[a / 2 ^ j, b / 2 ^ j, c / 2 ^ j], [d / 2 ^ j, e / 2 ^ j, f / 2 ^ j],
      [g / 2 ^ j, h / 2 ^ j, if j = 0 then i else 1]]"
  by (induction j) (simp_all add: halved_3x3)

lemma nth3: "r < 3 \<Longrightarrow> r = 0 \<or> r = Suc 0 \<or> r = 2" for r :: nat
  by arith

lemma halved_funpow_entry:
  assumes "is_3x3 M" "r < 3" "c < 3"
  shows "(halved ^^ j) M ! r ! c =
           (if r = 2 \<and> c = 2 then (if j = 0 then M ! 2 ! 2 else 1) else M ! r ! c / 2 ^ j)"
proof -
  from is_3x3_rows [OF assms(1)] obtain a b c' d e f g h i
    where M: "M = [[a, b, c'], [d, e, f], [g, h, i]]" by blast
  show ?thesis
    using nth3 [OF assms(2)] nth3 [OF assms(3)] unfolding M halved_funpow_3x3
    by (auto simp: numeral_2_eq_2)
qed

lemma halve_intrinsics_run:
  assumes "a0 < length (store s)" "t_data (store s ! a0) \<noteq> []" "last (t_data (store s ! a0)) \<noteq> []"
  shows "halve_intrinsics a0 s =
           (Inr (), s\<lparr>store := (store s)[a0 := (store s ! a0)
              \<lparr>t_data := set_last_last (div_all (t_data (store s ! a0)) 2) 1\<rparr>]\<rparr>)"
  by (rule run_eq) (use assms in \<open>simp add: post_halve_intrinsics halved_def\<close>)

lemma PointToPlane_pyramid_result:
  assumes "a0 < length (store s)"
    and "PointToPlane_pyramid K source target a0 dd (int n) s = (Inr v, s')"
  shows "\<forall>k<n. level_PointToPlane K dd source target (store s ! a0) (length (store s)) n v s' k"
  using post_result [OF PointToPlane_pyramid_levels [OF assms(1), of "int n"] assms(2)] by simp

lemma Intensity_pyramid_result:
  assumes "a0 < length (store s)"
    and "Intensity_pyramid K source target a0 dd (int n) s = (Inr v, s')"
  shows "\<forall>k<n. level_Intensity K dd source target (store s ! a0) (length (store s)) n v s' k"
  using post_result [OF Intensity_pyramid_levels [OF assms(1), of "int n"] assms(2)] by simp

lemma Hybrid_pyramid_result:
  assumes "a0 < length (store s)"
    and "Hybrid_pyramid K source target a0 dd (int n) s = (Inr v, s')"
  shows "\<forall>k<n. level_Hybrid K dd source target (store s ! a0) (length (store s)) n v s' k"
  using post_result [OF Hybrid_pyramid_levels [OF assms(1), of "int n"] assms(2)] by simp

lemma example_level_1:
  "level_tensor example_intrinsics 1 = example_intrinsics\<lparr>t_data := [[4, 0, 2], [0, 4, 1], [0, 0, 1]]\<rparr>"
  by (simp add: level_tensor_def example_intrinsics_def halved_3x3)

subsection \<open>The tensors of the optimisation loops\<close>

lemma iteration_tensors_snoc:
  "iteration_tensors inc (ks @ [k]) T =
     iteration_tensors inc ks T @
       [inc k (estimate_after inc ks T),
        premultiply (inc k (estimate_after inc ks T)) (estimate_after inc ks T)]"
  by (induction ks arbitrary: T) (simp_all add: estimate_after_def)

lemma estimate_after_snoc:
  "estimate_after inc (ks @ [k]) T =
     premultiply (inc k (estimate_after inc ks T)) (estimate_after inc ks T)"
  by (simp add: estimate_after_def)

lemma length_iteration_tensors: "length (iteration_tensors inc ks T) = 2 * length ks"
  by (induction ks arbitrary: T) simp_all

lemma exact_run_start: "t < length (store s) \<Longrightarrow> exact_run inc s t [] t s"
  by (simp add: exact_run_def estimate_after_def)

lemma nth_append_second: "(xs @ [a, b]) ! Suc (length xs) = b"
  by (simp add: nth_append)

lemma exact_run_step:
  assumes inv: "exact_run inc s0 t0 ks t s"
    and st: "store s' = store s @ [inc k (store s ! t), premultiply (inc k (store s ! t)) (store s ! t)]"
    and tr: "trace s' = trace s @ [ComputePoseCall k]"
    and t': "t' = Suc (length (store s))"
  shows "exact_run inc s0 t0 (ks @ [k]) t' s'"
proof -
  from inv have a: "store s = store s0 @ iteration_tensors inc ks (store s0 ! t0)"
    and b: "trace s = trace s0 @ map ComputePoseCall ks"
    and e: "store s ! t = estimate_after inc ks (store s0 ! t0)"
    unfolding exact_run_def by blast+
  have 1: "store s' = store s0 @ iteration_tensors inc (ks @ [k]) (store s0 ! t0)"
    unfolding st e by (simp add: iteration_tensors_snoc a)
  have 2: "trace s' = trace s0 @ map ComputePoseCall (ks @ [k])"
    unfolding tr b by simp
  have 3: "t' < length (store s')"
    unfolding st t' by simp
  have 4: "store s' ! t' = estimate_after inc (ks @ [k]) (store s0 ! t0)"
    unfolding st t' nth_append_second e estimate_after_snoc by (rule refl)
  from 1 2 3 4 show ?thesis unfolding exact_run_def by blast
qed

lemma tensor_at_extend:
  assumes "case h of None \<Rightarrow> True | Some a \<Rightarrow> a < length (store s0)"
    and "store s = store s0 @ xs"
  shows "tensor_at s h = tensor_at s0 h"
  using assms by (cases h) (simp_all add: tensor_at_def nth_append)

lemma post_PointToPlane_iteration:
  assumes "t < length (store s)"
  shows "post (PointToPlane_iteration K v dd i t) s Q E =
     Q (Suc (length (store s)))
       (s\<lparr>trace := trace s @ [ComputePoseCall (nat i)],
          store := store s @
            [PointToPlane_increment K v dd s (nat i) (store s ! t),
             premultiply (PointToPlane_increment K v dd s (nat i) (store s ! t)) (store s ! t)]\<rparr>)"
  using assms
  by (simp add: PointToPlane_iteration_def PointToPlane_increment_def premultiply_def nth_append
      pose_tensor_def)

lemma post_Intensity_iteration:
  assumes "t < length (store s)"
  shows "post (Intensity_iteration K v dd i t) s Q E =
     Q (Suc (length (store s)))
       (s\<lparr>trace := trace s @ [ComputePoseCall (nat i)],
          store := store s @
            [Intensity_increment K v dd s (nat i) (store s ! t),
             premultiply (Intensity_increment K v dd s (nat i) (store s ! t)) (store s ! t)]\<rparr>)"
  using assms
  by (simp add: Intensity_iteration_def Intensity_increment_def premultiply_def nth_append
      pose_tensor_def)

lemma post_Hybrid_iteration:
  assumes "t < length (store s)"
  shows "post (Hybrid_iteration K v dd i t) s Q E =
     Q (Suc (length (store s)))
       (s\<lparr>trace := trace s @ [ComputePoseCall (nat i)],
          store := store s @
            [Hybrid_increment K v dd s (nat i) (store s ! t),
             premultiply (Hybrid_increment K v dd s (nat i) (store s ! t)) (store s ! t)]\<rparr>)"
  using assms
  by (simp add: Hybrid_iteration_def Hybrid_increment_def premultiply_def nth_append
      pose_tensor_def)

lemma replicate_snoc: "ks @ replicate (Suc m) k = (ks @ replicate m k) @ [k]"
  by (simp add: replicate_append_same)

lemma exact_inner:
  assumes it: "\<And>t s. t < length (store s) \<Longrightarrow> \<exists>xs. store s = store s0 @ xs \<Longrightarrow>
            post (body t) s (exact_step (inc k) k t s) (\<lambda>e s'. False)"
    and inv0: "exact_run inc s0 t0 ks t s"
  shows "post (for_loop 0 m (\<lambda>iter. body) t) s
           (exact_run inc s0 t0 (ks @ replicate (nat m) k)) (\<lambda>e s'. False)"
proof (cases "0 \<le> m")
  case True
  have "post (for_loop 0 m (\<lambda>iter. body) t) s
          ((\<lambda>j. exact_run inc s0 t0 (ks @ replicate (nat j) k)) m) (\<lambda>e s'. False)"
  proof (rule post_for_loop)
    show "exact_run inc s0 t0 (ks @ replicate (nat 0) k) t s" using inv0 by simp
    show "0 \<le> m" by (rule True)
    fix j t s
    assume j: "0 \<le> j" "j < m" and inv: "exact_run inc s0 t0 (ks @ replicate (nat j) k) t s"
    then have t: "t < length (store s)" and ext: "\<exists>xs. store s = store s0 @ xs"
      unfolding exact_run_def by blast+
    have n: "nat (j + 1) = Suc (nat j)" using j by simp
    from it [OF t ext]
    show "post (body t) s (exact_run inc s0 t0 (ks @ replicate (nat (j + 1)) k)) (\<lambda>e s'. False)"
    proof (rule post_mono)
      fix t' s'
      assume a: "exact_step (inc k) k t s t' s'"
      show "exact_run inc s0 t0 (ks @ replicate (nat (j + 1)) k) t' s'"
        unfolding n replicate_snoc
        using a by (intro exact_run_step [OF inv]) (simp_all add: exact_step_def)
    qed simp
  qed
  then show ?thesis by simp
next
  case False
  then show ?thesis using inv0 by (simp add: post_for_loop_skip)
qed

lemma exact_outer:
  assumes it: "\<And>i t s. 0 \<le> i \<Longrightarrow> i < n \<Longrightarrow> t < length (store s) \<Longrightarrow>
            \<exists>xs. store s = store s0 @ xs \<Longrightarrow>
            post (body i t) s (exact_step (inc (nat i)) (nat i) t s) (\<lambda>e s'. False)"
    and inv0: "exact_run inc s0 t0 [] t s" and n: "0 \<le> n"
  shows "post (for_loop 0 n (\<lambda>i. for_loop 0 (its ! nat i) (\<lambda>iter. body i)) t) s
           (exact_run inc s0 t0 (schedule its (nat n))) (\<lambda>e s'. False)"
proof -
  have "post (for_loop 0 n (\<lambda>i. for_loop 0 (its ! nat i) (\<lambda>iter. body i)) t) s
          ((\<lambda>j. exact_run inc s0 t0 (schedule its (nat j))) n) (\<lambda>e s'. False)"
  proof (rule post_for_loop)
    show "exact_run inc s0 t0 (schedule its (nat 0)) t s" using inv0 by (simp add: schedule_def)
    show "0 \<le> n" by (rule n)
    fix j t s
    assume j: "0 \<le> j" "j < n" and inv: "exact_run inc s0 t0 (schedule its (nat j)) t s"
    have sj: "nat (j + 1) = Suc (nat j)" using j by simp
    show "post (for_loop 0 (its ! nat j) (\<lambda>iter. body j) t) s
            (exact_run inc s0 t0 (schedule its (nat (j + 1)))) (\<lambda>e s'. False)"
      unfolding sj schedule_Suc
      by (rule exact_inner [OF it [OF j] inv])
  qed
  then show ?thesis by simp
qed

lemma PointToPlane_increment_extend:
  assumes "levels_stored v n s0" "k < n" "store s = store s0 @ xs"
  shows "PointToPlane_increment K v dd s k = PointToPlane_increment K v dd s0 k"
proof -
  from assms(1,2) have "case intrinsic_matrices v ! k of None \<Rightarrow> True | Some a \<Rightarrow> a < length (store s0)"
    by (simp add: levels_stored_def)
  from tensor_at_extend [OF this assms(3)] show ?thesis
    by (simp add: PointToPlane_increment_def fun_eq_iff)
qed

lemma Intensity_increment_extend:
  assumes "levels_stored v n s0" "k < n" "store s = store s0 @ xs"
  shows "Intensity_increment K v dd s k = Intensity_increment K v dd s0 k"
proof -
  from assms(1,2) have "case intrinsic_matrices v ! k of None \<Rightarrow> True | Some a \<Rightarrow> a < length (store s0)"
    by (simp add: levels_stored_def)
  from tensor_at_extend [OF this assms(3)] show ?thesis
    by (simp add: Intensity_increment_def fun_eq_iff)
qed

lemma Hybrid_increment_extend:
  assumes "levels_stored v n s0" "k < n" "store s = store s0 @ xs"
  shows "Hybrid_increment K v dd s k = Hybrid_increment K v dd s0 k"
proof -
  from assms(1,2) have "case intrinsic_matrices v ! k of None \<Rightarrow> True | Some a \<Rightarrow> a < length (store s0)"
    by (simp add: levels_stored_def)
  from tensor_at_extend [OF this assms(3)] show ?thesis
    by (simp add: Hybrid_increment_def fun_eq_iff)
qed

lemma PointToPlane_odometry_exact:
  assumes t: "t < length (store s)" and lv: "levels_stored v (length its) s"
  shows "post (PointToPlane_odometry K v dd its (int (length its)) t) s
           (exact_run (PointToPlane_increment K v dd s) s t (schedule its (length its)))
           (\<lambda>e s'. False)"
proof -
  have "post (for_loop 0 (int (length its))
                (\<lambda>i. for_loop 0 (its ! nat i) (\<lambda>iter. PointToPlane_iteration K v dd i)) t) s
              (exact_run (PointToPlane_increment K v dd s) s t (schedule its (nat (int (length its)))))
              (\<lambda>e s'. False)"
  proof (rule exact_outer)
    show "exact_run (PointToPlane_increment K v dd s) s t [] t s" using t by (rule exact_run_start)
    show "0 \<le> int (length its)" by simp
    fix i t' and s' :: state
    assume i: "0 \<le> i" "i < int (length its)" and t': "t' < length (store s')"
      and "\<exists>xs. store s' = store s @ xs"
    then obtain xs where xs: "store s' = store s @ xs" by blast
    from i have k: "nat i < length its" by simp
    show "post (PointToPlane_iteration K v dd i t') s'
            (exact_step (PointToPlane_increment K v dd s (nat i)) (nat i) t' s') (\<lambda>e s'. False)"
      unfolding post_PointToPlane_iteration [OF t'] PointToPlane_increment_extend [OF lv k xs]
      by (simp add: exact_step_def)
  qed
  then show ?thesis by (simp add: PointToPlane_odometry_def)
qed

lemma Intensity_odometry_exact:
  assumes t: "t < length (store s)" and lv: "levels_stored v (length its) s"
  shows "post (Intensity_odometry K v dd its (int (length its)) t) s
           (exact_run (Intensity_increment K v dd s) s t (schedule its (length its)))
           (\<lambda>e s'. False)"
proof -
  have "post (for_loop 0 (int (length its))
                (\<lambda>i. for_loop 0 (its ! nat i) (\<lambda>iter. Intensity_iteration K v dd i)) t) s
              (exact_run (Intensity_increment K v dd s) s t (schedule its (nat (int (length its)))))
              (\<lambda>e s'. False)"
  proof (rule exact_outer)
    show "exact_run (Intensity_increment K v dd s) s t [] t s" using t by (rule exact_run_start)
    show "0 \<le> int (length its)" by simp
    fix i t' and s' :: state
    assume i: "0 \<le> i" "i < int (length its)" and t': "t' < length (store s')"
      and "\<exists>xs. store s' = store s @ xs"
    then obtain xs where xs: "store s' = store s @ xs" by blast
    from i have k: "nat i < length its" by simp
    show "post (Intensity_iteration K v dd i t') s'
            (exact_step (Intensity_increment K v dd s (nat i)) (nat i) t' s') (\<lambda>e s'. False)"
      unfolding post_Intensity_iteration [OF t'] Intensity_increment_extend [OF lv k xs]
      by (simp add: exact_step_def)
  qed
  then show ?thesis by (simp add: Intensity_odometry_def)
qed

lemma Hybrid_odometry_exact:
  assumes t: "t < length (store s)" and lv: "levels_stored v (length its) s"
  shows "post (Hybrid_odometry K v dd its (int (length its)) t) s
           (exact_run (Hybrid_increment K v dd s) s t (schedule its (length its)))
           (\<lambda>e s'. False)"
proof -
  have "post (for_loop 0 (int (length its))
                (\<lambda>i. for_loop 0 (its ! nat i) (\<lambda>iter. Hybrid_iteration K v dd i)) t) s
              (exact_run (Hybrid_increment K v dd s) s t (schedule its (nat (int (length its)))))
              (\<lambda>e s'. False)"
  proof (rule exact_outer)
    show "exact_run (Hybrid_increment K v dd s) s t [] t s" using t by (rule exact_run_start)
    show "0 \<le> int (length its)" by simp
    fix i t' and s' :: state
    assume i: "0 \<le> i" "i < int (length its)" and t': "t' < length (store s')"
      and "\<exists>xs. store s' = store s @ xs"
    then obtain xs where xs: "store s' = store s @ xs" by blast
    from i have k: "nat i < length its" by simp
    show "post (Hybrid_iteration K v dd i t') s'
            (exact_step (Hybrid_increment K v dd s (nat i)) (nat i) t' s') (\<lambda>e s'. False)"
      unfolding post_Hybrid_iteration [OF t'] Hybrid_increment_extend [OF lv k xs]
      by (simp add: exact_step_def)
  qed
  then show ?thesis by (simp add: Hybrid_odometry_def)
qed

lemma andThen_Inr:
  "andThen m f s = (Inr r, s') \<Longrightarrow> \<exists>x s1. m s = (Inr x, s1) \<and> f x s1 = (Inr r, s')"
  by (auto simp: andThen_def split: prod.splits sum.splits)

lemma grows_length: "grows a0 s s1 \<Longrightarrow> t < length (store s) \<Longrightarrow> t < length (store s1)"
  by (simp add: grows_def)

lemma clone_at_stored: "clone_at base st h T \<Longrightarrow> (case h of None \<Rightarrow> True | Some a \<Rightarrow> a < length st)"
  by (auto simp: clone_at_def)

lemma PointToPlane_method_exact:
  assumes a0: "a0 < length (store s)" and t: "t < length (store s)"
    and run: "RGBDOdometryMultiScalePointToPlane K source target a0 t ds dm dd its s = (Inr r, s')"
  shows "\<exists>v s1. PointToPlane_pyramid K source target a0 dd (int (length its)) s = (Inr v, s1) \<and>
           PointToPlane_odometry K v dd its (int (length its)) t s1 = (Inr r, s') \<and>
           exact_run (PointToPlane_increment K v dd s1) s1 t (schedule its (length its)) r s'"
proof -
  from run obtain v s1 where
    pyr: "PointToPlane_pyramid K source target a0 dd (int (length its)) s = (Inr v, s1)"
    and odo: "PointToPlane_odometry K v dd its (int (length its)) t s1 = (Inr r, s')"
    unfolding RGBDOdometryMultiScalePointToPlane_def Let_def by (blast dest: andThen_Inr)
  have "grows a0 s s1"
    using post_result [OF keepsD [OF keeps_PointToPlane_pyramid(1)] pyr] .
  then have t1: "t < length (store s1)" using t by (rule grows_length)
  have "levels_stored v (length its) s1"
    unfolding levels_stored_def
    using PointToPlane_pyramid_result [OF a0 pyr]
    by (auto simp: level_PointToPlane_def level_base_def dest: clone_at_stored)
  from post_result [OF PointToPlane_odometry_exact [OF t1 this] odo] pyr odo
  show ?thesis by blast
qed

lemma Intensity_method_exact:
  assumes a0: "a0 < length (store s)" and t: "t < length (store s)"
    and run: "RGBDOdometryMultiScaleIntensity K source target a0 t ds dm dd its s = (Inr r, s')"
  shows "\<exists>v s1. Intensity_pyramid K source target a0 dd (int (length its)) s = (Inr v, s1) \<and>
           Intensity_odometry K v dd its (int (length its)) t s1 = (Inr r, s') \<and>
           exact_run (Intensity_increment K v dd s1) s1 t (schedule its (length its)) r s'"
proof -
  from run obtain v s1 where
    pyr: "Intensity_pyramid K source target a0 dd (int (length its)) s = (Inr v, s1)"
    and odo: "Intensity_odometry K v dd its (int (length its)) t s1 = (Inr r, s')"
    unfolding RGBDOdometryMultiScaleIntensity_def Let_def by (blast dest: andThen_Inr)
  have "grows a0 s s1"
    using post_result [OF keepsD [OF keeps_Intensity_pyramid(1)] pyr] .
  then have t1: "t < length (store s1)" using t by (rule grows_length)
  have "levels_stored v (length its) s1"
    unfolding levels_stored_def
    using Intensity_pyramid_result [OF a0 pyr]
    by (auto simp: level_Intensity_def level_base_def dest: clone_at_stored)
  from post_result [OF Intensity_odometry_exact [OF t1 this] odo] pyr odo
  show ?thesis by blast
qed

lemma Hybrid_method_exact:
  assumes a0: "a0 < length (store s)" and t: "t < length (store s)"
    and run: "RGBDOdometryMultiScaleHybrid K source target a0 t ds dm dd its s = (Inr r, s')"
  shows "\<exists>v s1. Hybrid_pyramid K source target a0 dd (int (length its)) s = (Inr v, s1) \<and>
           Hybrid_odometry K v dd its (int (length its)) t s1 = (Inr r, s') \<and>
           exact_run (Hybrid_increment K v dd s1) s1 t (schedule its (length its)) r s'"
proof -
  from run obtain v s1 where
    pyr: "Hybrid_pyramid K source target a0 dd (int (length its)) s = (Inr v, s1)"
    and odo: "Hybrid_odometry K v dd its (int (length its)) t s1 = (Inr r, s')"
    unfolding RGBDOdometryMultiScaleHybrid_def Let_def by (blast dest: andThen_Inr)
  have "grows a0 s s1"
    using post_result [OF keepsD [OF keeps_Hybrid_pyramid(1)] pyr] .
  then have t1: "t < length (store s1)" using t by (rule grows_length)
  have "levels_stored v (length its) s1"
    unfolding levels_stored_def
    using Hybrid_pyramid_result [OF a0 pyr]
    by (auto simp: level_Hybrid_def level_Intensity_def level_base_def dest: clone_at_stored)
  from post_result [OF Hybrid_odometry_exact [OF t1 this] odo] pyr odo
  show ?thesis by blast
qed

lemma ComputePosePointToPlane_residual:
  "ComputePosePointToPlane (replace_residuals K g) svm tvm tnm h t dd =
   ComputePosePointToPlane K svm tvm tnm h t dd"
  by (simp add: ComputePosePointToPlane_def replace_residuals_def case_prod_beta)

lemma ComputePoseIntensity_residual:
  "ComputePoseIntensity (replace_residuals K g) sd td si ti dx dy svm h t dd =
   ComputePoseIntensity K sd td si ti dx dy svm h t dd"
  by (simp add: ComputePoseIntensity_def replace_residuals_def case_prod_beta)

lemma ComputePoseHybrid_residual:
  "ComputePoseHybrid (replace_residuals K g) sd td si ti ddx ddy dx dy svm h t dd =
   ComputePoseHybrid K sd td si ti ddx ddy dx dy svm h t dd"
  by (simp add: ComputePoseHybrid_def replace_residuals_def case_prod_beta)

lemma iteration_residual:
  "PointToPlane_iteration (replace_residuals K g) v1 dd = PointToPlane_iteration K v1 dd"
  "Intensity_iteration (replace_residuals K g) v2 dd = Intensity_iteration K v2 dd"
  "Hybrid_iteration (replace_residuals K g) v3 dd = Hybrid_iteration K v3 dd"
  by (simp_all add: fun_eq_iff PointToPlane_iteration_def Intensity_iteration_def
      Hybrid_iteration_def ComputePosePointToPlane_residual ComputePoseIntensity_residual
      ComputePoseHybrid_residual)

lemma odometry_residual:
  "PointToPlane_odometry (replace_residuals K g) v1 dd = PointToPlane_odometry K v1 dd"
  "Intensity_odometry (replace_residuals K g) v2 dd = Intensity_odometry K v2 dd"
  "Hybrid_odometry (replace_residuals K g) v3 dd = Hybrid_odometry K v3 dd"
  by (simp_all add: fun_eq_iff PointToPlane_odometry_def Intensity_odometry_def
      Hybrid_odometry_def iteration_residual)

lemma exact_run_estimate:
  "exact_run inc s0 t0 ks t s \<Longrightarrow> store s ! t = estimate_after inc ks (store s0 ! t0)"
  unfolding exact_run_def by blast

lemma grows_nth: "grows a0 s s1 \<Longrightarrow> t < length (store s) \<Longrightarrow> t \<noteq> a0 \<Longrightarrow> store s1 ! t = store s ! t"
  by (simp add: grows_def)

lemma PointToPlane_pyramid_grows:
  "PointToPlane_pyramid K source target a0 dd n s = (Inr v, s1) \<Longrightarrow> grows a0 s s1"
  using post_result [OF keepsD [OF keeps_PointToPlane_pyramid(1)]] by blast

lemma Intensity_pyramid_grows:
  "Intensity_pyramid K source target a0 dd n s = (Inr v, s1) \<Longrightarrow> grows a0 s s1"
  using post_result [OF keepsD [OF keeps_Intensity_pyramid(1)]] by blast

lemma Hybrid_pyramid_grows:
  "Hybrid_pyramid K source target a0 dd n s = (Inr v, s1) \<Longrightarrow> grows a0 s s1"
  using post_result [OF keepsD [OF keeps_Hybrid_pyramid(1)]] by blast

lemma estimate_after_two:
  "estimate_after inc [j, k] T =
     premultiply (inc k (premultiply (inc j T) T)) (premultiply (inc j T) T)"
  by (simp add: estimate_after_def)

lemma example_increment:
  "PointToPlane_increment example_collab v dd s k T =
     \<lparr>t_dtype = Float64, t_device = CPU 0,
      t_data = (if t_data T = identity4 then quarter_turn_x else quarter_turn_z)\<rparr>"
  by (simp add: PointToPlane_increment_def pose_tensor_def example_collab_def example_pose_def)

lemma quarter_turn_x_moves: "mat_mul quarter_turn_x identity4 \<noteq> identity4"
  by (simp add: mat_mul_def quarter_turn_x_def identity4_def)

lemma exact_run_store:
  "exact_run inc s0 t0 ks t s \<Longrightarrow>
     store s = store s0 @ iteration_tensors inc ks (store s0 ! t0) \<and>
     trace s = trace s0 @ map ComputePoseCall ks"
  unfolding exact_run_def by blast

lemma iteration_tensors_nth:
  "i < length ks \<Longrightarrow>
     iteration_tensors inc ks T ! (2 * i) = inc (ks ! i) (estimate_after inc (take i ks) T)"
proof (induction ks arbitrary: i T)
  case Nil
  then show ?case by simp
next
  case (Cons k ks)
  show ?case
  proof (cases i)
    case 0
    then show ?thesis by (simp add: estimate_after_def)
  next
    case (Suc m)
    with Cons.prems have "m < length ks" by simp
    from Cons.IH [OF this, of "premultiply (inc k T) T"] Suc
    show ?thesis by (simp add: estimate_after_def)
  qed
qed

subsection \<open>When the pyramids are built\<close>

lemma post_PyrDownDepth_refused:
  "post (PyrDownDepth K src thr NaN) s Q E =
     (if refused src then
        E (if GetRows src \<le> 0 \<or> GetCols src \<le> 0 \<or> GetChannels src \<noteq> 1
           then InvalidShape (GetRows src) (GetCols src) (GetChannels src)
           else ExpectedFloat32 (GetDtype src)) s
      else Q (down_depth K thr src) (s\<lparr>trace := trace s @ [PyrDownDepthCall]\<rparr>))"
  by (auto simp: post_PyrDownDepth refused_def)

lemma indexable_halved: "indexable M \<Longrightarrow> indexable (halved M)"
  by (simp add: indexable_def halved_def set_last_last_def div_all_def last_list_update last_map)

lemma indexable_level: "indexable M \<Longrightarrow> indexable ((halved ^^ j) M)"
  by (induction j) (simp_all add: indexable_halved)

lemma post_trivial: "post m s (\<lambda>x s'. True) (\<lambda>e s'. True)"
  by (simp add: post_def split: prod.splits sum.splits)

lemma PointToPlane_body_needs:
  "post (PointToPlane_pyramid_body K a0 dd n j v) s
     (\<lambda>v' s'. j = n - 1 \<or> (\<not> refused (source_depth_curr v) \<and> \<not> refused (target_depth_curr v)))
     (\<lambda>e s'. True)"
  by (simp add: PointToPlane_pyramid_body_def Let_def post_PyrDownDepth_refused post_trivial)

lemma PointToPlane_body_returns:
  assumes "j = n - 1 \<or> (\<not> refused (source_depth_curr v) \<and> \<not> refused (target_depth_curr v) \<and>
             a0 < length (store s) \<and> indexable (t_data (store s ! a0)))"
  shows "post (PointToPlane_pyramid_body K a0 dd n j v) s (\<lambda>v' s'. True) (\<lambda>e s'. False)"
  using assms
  by (auto simp: PointToPlane_pyramid_body_def Let_def post_PyrDownDepth_refused post_halve_intrinsics
      nth_append indexable_def)

lemma Intensity_body_needs:
  "post (Intensity_pyramid_body K a0 dd n j v) s
     (\<lambda>v' s'. j = n - 1 \<or> (\<not> refused (source_depth_curr v) \<and> \<not> refused (target_depth_curr v)))
     (\<lambda>e s'. True)"
  by (simp add: Intensity_pyramid_body_def Let_def post_PyrDownDepth_refused post_trivial)

lemma Intensity_body_returns:
  assumes "j = n - 1 \<or> (\<not> refused (source_depth_curr v) \<and> \<not> refused (target_depth_curr v) \<and>
             a0 < length (store s) \<and> indexable (t_data (store s ! a0)))"
  shows "post (Intensity_pyramid_body K a0 dd n j v) s (\<lambda>v' s'. True) (\<lambda>e s'. False)"
  using assms
  by (auto simp: Intensity_pyramid_body_def Let_def post_PyrDownDepth_refused post_halve_intrinsics
      nth_append indexable_def)

lemma Hybrid_body_needs:
  "post (Hybrid_pyramid_body K a0 dd n j v) s
     (\<lambda>v' s'. j = n - 1 \<or> (\<not> refused (source_depth_curr v) \<and> \<not> refused (target_depth_curr v)))
     (\<lambda>e s'. True)"
  by (simp add: Hybrid_pyramid_body_def Let_def post_PyrDownDepth_refused post_trivial)

lemma Hybrid_body_returns:
  assumes "j = n - 1 \<or> (\<not> refused (source_depth_curr v) \<and> \<not> refused (target_depth_curr v) \<and>
             a0 < length (store s) \<and> indexable (t_data (store s ! a0)))"
  shows "post (Hybrid_pyramid_body K a0 dd n j v) s (\<lambda>v' s'. True) (\<lambda>e s'. False)"
  using assms
  by (auto simp: Hybrid_pyramid_body_def Let_def post_PyrDownDepth_refused post_halve_intrinsics
      nth_append indexable_def)

lemma loop_returns:
  assumes inv0: "I 0 x s" and n: "0 \<le> n"
    and step: "\<And>j x s. 0 \<le> j \<Longrightarrow> j < n \<Longrightarrow> I j x s \<Longrightarrow> post (body j x) s (I (j + 1)) (\<lambda>e s'. True)"
    and ok: "\<And>j x s. 0 \<le> j \<Longrightarrow> j < n \<Longrightarrow> I j x s \<Longrightarrow>
               post (body j x) s (\<lambda>x' s'. True) (\<lambda>e s'. False)"
  shows "post (for_loop 0 n body x) s (I n) (\<lambda>e s'. False)"
proof (rule post_for_loop [where I = I, OF inv0 n])
  fix j x s
  assume j: "0 \<le> j" "j < n" and inv: "I j x s"
  have "post (body j x) s (\<lambda>x' s'. I (j + 1) x' s' \<and> True) (\<lambda>e s'. True \<and> False)"
    unfolding post_conj using step [OF j inv] ok [OF j inv] by blast
  then show "post (body j x) s (I (j + 1)) (\<lambda>e s'. False)" by simp
qed

lemma loop_needs:
  assumes inv0: "I 0 x s" and n: "0 \<le> n"
    and step: "\<And>j x s. 0 \<le> j \<Longrightarrow> j < n \<Longrightarrow> I j x s \<Longrightarrow> post (body j x) s (I (j + 1)) (\<lambda>e s'. True)"
    and g: "\<And>j x s. 0 \<le> j \<Longrightarrow> j < n \<Longrightarrow> I j x s \<Longrightarrow>
               post (body j x) s (\<lambda>x' s'. G j) (\<lambda>e s'. True)"
  shows "post (for_loop 0 n body x) s (\<lambda>x' s'. \<forall>j. 0 \<le> j \<and> j < n \<longrightarrow> G j) (\<lambda>e s'. True)"
proof -
  have "post (for_loop 0 n body x) s
          ((\<lambda>k x s. I k x s \<and> (\<forall>j. 0 \<le> j \<and> j < k \<longrightarrow> G j)) n) (\<lambda>e s'. True)"
  proof (rule post_for_loop [where I = "\<lambda>k x s. I k x s \<and> (\<forall>j. 0 \<le> j \<and> j < k \<longrightarrow> G j)"])
    show "I 0 x s \<and> (\<forall>j. 0 \<le> j \<and> j < 0 \<longrightarrow> G j)" using inv0 by auto
    show "0 \<le> n" by (rule n)
    fix k x s
    assume k: "0 \<le> k" "k < n" and inv: "I k x s \<and> (\<forall>j. 0 \<le> j \<and> j < k \<longrightarrow> G j)"
    then have i: "I k x s" and old: "\<forall>j. 0 \<le> j \<and> j < k \<longrightarrow> G j" by blast+
    have "post (body k x) s (\<lambda>x' s'. I (k + 1) x' s' \<and> G k) (\<lambda>e s'. True \<and> True)"
      unfolding post_conj using step [OF k i] g [OF k i] by blast
    then show "post (body k x) s
                 (\<lambda>x s. I (k + 1) x s \<and> (\<forall>j. 0 \<le> j \<and> j < k + 1 \<longrightarrow> G j)) (\<lambda>e s'. True)"
    proof (rule post_mono)
      fix x' s' assume a: "I (k + 1) x' s' \<and> G k"
      have "G j" if "0 \<le> j" "j < k + 1" for j
        using that old a by (cases "j = k") auto
      with a show "I (k + 1) x' s' \<and> (\<forall>j. 0 \<le> j \<and> j < k + 1 \<longrightarrow> G j)" by blast
    qed simp
  qed
  then show ?thesis by (rule post_mono) simp_all
qed

lemma inv_base_curr:
  assumes "inv_base K a0 dd n source target s0 j v s" "0 \<le> j" "j < n"
  shows "source_depth_curr v = depth_level K dd (depth source) (nat j)"
    and "target_depth_curr v = depth_level K dd (depth target) (nat j)"
    and "a0 < length (store s)"
    and "t_data (store s ! a0) = (halved ^^ nat j) (t_data (store s0 ! a0))"
  using assms by (simp_all add: inv_base_def level_tensor_def min_def)

lemma returns_iff:
  assumes "post m s (\<lambda>x s'. P) (\<lambda>e s'. True)" and "P \<Longrightarrow> post m s Q (\<lambda>e s'. False)"
  shows "(\<exists>x s'. m s = (Inr x, s')) \<longleftrightarrow> P"
  using assms by (auto simp: post_def split: prod.splits sum.splits)

lemma levels_accepted_int:
  "levels_accepted K dd source target (nat n) \<longleftrightarrow>
     (\<forall>j. 0 \<le> j \<and> j < n \<longrightarrow>
        j = n - 1 \<or> (\<not> refused (depth_level K dd (depth source) (nat j)) \<and>
                     \<not> refused (depth_level K dd (depth target) (nat j))))"
proof
  assume a: "levels_accepted K dd source target (nat n)"
  show "\<forall>j. 0 \<le> j \<and> j < n \<longrightarrow>
        j = n - 1 \<or> (\<not> refused (depth_level K dd (depth source) (nat j)) \<and>
                     \<not> refused (depth_level K dd (depth target) (nat j)))"
  proof (intro allI impI)
    fix j :: int assume j: "0 \<le> j \<and> j < n"
    show "j = n - 1 \<or> (\<not> refused (depth_level K dd (depth source) (nat j)) \<and>
                     \<not> refused (depth_level K dd (depth target) (nat j)))"
    proof (cases "j = n - 1")
      case False
      with j have "Suc (nat j) < nat n" by linarith
      with a show ?thesis unfolding levels_accepted_def by blast
    qed simp
  qed
next
  assume b: "\<forall>j. 0 \<le> j \<and> j < n \<longrightarrow>
        j = n - 1 \<or> (\<not> refused (depth_level K dd (depth source) (nat j)) \<and>
                     \<not> refused (depth_level K dd (depth target) (nat j)))"
  show "levels_accepted K dd source target (nat n)"
    unfolding levels_accepted_def
  proof (intro allI impI)
    fix j assume "Suc j < nat n"
    then have "0 \<le> int j \<and> int j < n" "int j \<noteq> n - 1" by auto
    with b [rule_format, of "int j"]
    show "\<not> refused (depth_level K dd (depth source) j) \<and>
          \<not> refused (depth_level K dd (depth target) j)"
      by simp
  qed
qed

lemma pyramid_loop_needs:
  assumes inv0: "I 0 x s1" and n: "0 \<le> n"
    and base: "\<And>j v s'. I j v s' \<Longrightarrow> inv_base K a0 dd n source target s0 j v s'"
    and step: "\<And>j v s'. 0 \<le> j \<Longrightarrow> j < n \<Longrightarrow> I j v s' \<Longrightarrow>
                 post (body j v) s' (I (j + 1)) (\<lambda>e s'. True)"
    and needs: "\<And>j v s'. post (body j v) s'
                 (\<lambda>v' s''. j = n - 1 \<or> (\<not> refused (source_depth_curr v) \<and>
                                           \<not> refused (target_depth_curr v)))
                 (\<lambda>e s'. True)"
  shows "post (for_loop 0 n body x) s1
           (\<lambda>v s'. levels_accepted K dd source target (nat n)) (\<lambda>e s'. True)"
  unfolding levels_accepted_int
proof (rule loop_needs [where I = I, OF inv0 n step])
  fix j v s'
  assume j: "0 \<le> j" "j < n" and inv: "I j v s'"
  note c = inv_base_curr [OF base [OF inv] j]
  show "post (body j v) s'
          (\<lambda>x' s'. j = n - 1 \<or> (\<not> refused (depth_level K dd (depth source) (nat j)) \<and>
                               \<not> refused (depth_level K dd (depth target) (nat j))))
          (\<lambda>e s'. True)"
    using needs [of j v s'] unfolding c(1,2) .
qed

lemma pyramid_loop_returns:
  assumes inv0: "I 0 x s1" and n: "0 \<le> n"
    and base: "\<And>j v s'. I j v s' \<Longrightarrow> inv_base K a0 dd n source target s0 j v s'"
    and step: "\<And>j v s'. 0 \<le> j \<Longrightarrow> j < n \<Longrightarrow> I j v s' \<Longrightarrow>
                 post (body j v) s' (I (j + 1)) (\<lambda>e s'. True)"
    and returns: "\<And>j v s'. j = n - 1 \<or> (\<not> refused (source_depth_curr v) \<and>
                     \<not> refused (target_depth_curr v) \<and> a0 < length (store s') \<and>
                     indexable (t_data (store s' ! a0))) \<Longrightarrow>
                 post (body j v) s' (\<lambda>v' s''. True) (\<lambda>e s'. False)"
    and idx: "indexable (t_data (store s0 ! a0))"
    and acc: "levels_accepted K dd source target (nat n)"
  shows "post (for_loop 0 n body x) s1 (I n) (\<lambda>e s'. False)"
proof (rule loop_returns [where I = I, OF inv0 n step])
  fix j v s'
  assume j: "0 \<le> j" "j < n" and inv: "I j v s'"
  note c = inv_base_curr [OF base [OF inv] j]
  have "j = n - 1 \<or> (\<not> refused (depth_level K dd (depth source) (nat j)) \<and>
                     \<not> refused (depth_level K dd (depth target) (nat j)))"
    using acc j unfolding levels_accepted_int by blast
  then have "j = n - 1 \<or> (\<not> refused (source_depth_curr v) \<and>
                     \<not> refused (target_depth_curr v) \<and> a0 < length (store s') \<and>
                     indexable (t_data (store s' ! a0)))"
    unfolding c(1,2,4) using c(3) indexable_level [OF idx] by blast
  then show "post (body j v) s' (\<lambda>x' s'. True) (\<lambda>e s'. False)" by (rule returns)
qed

lemma post_PointToPlane_pyramid:
  "post (PointToPlane_pyramid K source target a0 dd n) s Q E =
     post (for_loop 0 n (PointToPlane_pyramid_body K a0 dd n)
            \<lparr>source_depth_curr = depth source, target_depth_curr = depth target,
             source_vertex_maps = replicate (nat n) empty_image,
             intrinsic_matrices = replicate (nat n) None,
             target_vertex_maps = replicate (nat n) empty_image,
             target_normal_maps = replicate (nat n) empty_image\<rparr>)
       s Q E"
  by (simp add: PointToPlane_pyramid_def gray_def)

lemma inv_PointToPlane_start:
  assumes "a0 < length (store s)" "0 \<le> n"
  shows "inv_PointToPlane K a0 dd n source target s 0
            \<lparr>source_depth_curr = depth source, target_depth_curr = depth target,
             source_vertex_maps = replicate (nat n) empty_image,
             intrinsic_matrices = replicate (nat n) None,
             target_vertex_maps = replicate (nat n) empty_image,
             target_normal_maps = replicate (nat n) empty_image\<rparr>
            s"
  using assms by (auto simp: inv_PointToPlane_def inv_base_def)

lemma inv_PointToPlane_base:
  "inv_PointToPlane K a0 dd n source target s0 j v s \<Longrightarrow> inv_base K a0 dd n source target s0 j v s"
  by (simp add: inv_PointToPlane_def)

lemma PointToPlane_pyramid_returns_iff:
  assumes a0: "a0 < length (store s)" and idx: "indexable (t_data (store s ! a0))"
  shows "(\<exists>v s'. PointToPlane_pyramid K source target a0 dd (int n) s = (Inr v, s')) \<longleftrightarrow>
           levels_accepted K dd source target n"
proof (rule returns_iff [where Q = "inv_PointToPlane K a0 dd (int n) source target s (int n)"])
  have n: "0 \<le> int n" by simp
  have idx': "indexable (t_data (store s ! a0))" using idx by simp
  note start = inv_PointToPlane_start [OF a0 n, of K dd source target]
  show "post (PointToPlane_pyramid K source target a0 dd (int n)) s
          (\<lambda>x s'. levels_accepted K dd source target n) (\<lambda>e s'. True)"
    unfolding post_PointToPlane_pyramid
    using pyramid_loop_needs [where I = "inv_PointToPlane K a0 dd (int n) source target s",
        OF start n inv_PointToPlane_base inv_PointToPlane_step PointToPlane_body_needs]
    by simp
  show "post (PointToPlane_pyramid K source target a0 dd (int n)) s
          (inv_PointToPlane K a0 dd (int n) source target s (int n)) (\<lambda>e s'. False)"
    if acc: "levels_accepted K dd source target n"
  proof -
    from acc have acc': "levels_accepted K dd source target (nat (int n))" by simp
    show ?thesis
      unfolding post_PointToPlane_pyramid
      by (rule pyramid_loop_returns [where I = "inv_PointToPlane K a0 dd (int n) source target s",
          OF start n inv_PointToPlane_base inv_PointToPlane_step PointToPlane_body_returns idx' acc'])
  qed
qed

lemma post_Intensity_pyramid:
  "post (Intensity_pyramid K source target a0 dd n) s Q E =
     post (for_loop 0 n (Intensity_pyramid_body K a0 dd n)
            \<lparr>source_depth_curr = depth source, target_depth_curr = depth target,
            source_vertex_maps = replicate (nat n) empty_image,
            intrinsic_matrices = replicate (nat n) None,
            source_intensity_curr = gray K (color source),
            target_intensity_curr = gray K (color target),
            source_intensity = replicate (nat n) empty_image,
            target_intensity = replicate (nat n) empty_image,
            source_depth = replicate (nat n) empty_image,
            target_depth = replicate (nat n) empty_image,
            target_intensity_dx = replicate (nat n) empty_image,
            target_intensity_dy = replicate (nat n) empty_image\<rparr>)
       (s\<lparr>trace := trace s @ [RGBToGrayCall, RGBToGrayCall]\<rparr>) Q E"
  by (simp add: Intensity_pyramid_def gray_def)

lemma inv_Intensity_start:
  assumes "a0 < length (store s)" "0 \<le> n"
  shows "inv_Intensity K a0 dd n source target (s\<lparr>trace := trace s @ [RGBToGrayCall, RGBToGrayCall]\<rparr>) 0
            \<lparr>source_depth_curr = depth source, target_depth_curr = depth target,
            source_vertex_maps = replicate (nat n) empty_image,
            intrinsic_matrices = replicate (nat n) None,
            source_intensity_curr = gray K (color source),
            target_intensity_curr = gray K (color target),
            source_intensity = replicate (nat n) empty_image,
            target_intensity = replicate (nat n) empty_image,
            source_depth = replicate (nat n) empty_image,
            target_depth = replicate (nat n) empty_image,
            target_intensity_dx = replicate (nat n) empty_image,
            target_intensity_dy = replicate (nat n) empty_image\<rparr>
            (s\<lparr>trace := trace s @ [RGBToGrayCall, RGBToGrayCall]\<rparr>)"
  using assms by (auto simp: inv_Intensity_def inv_base_def inv_intensity_vars_def)

lemma inv_Intensity_base:
  "inv_Intensity K a0 dd n source target s0 j v s \<Longrightarrow> inv_base K a0 dd n source target s0 j v s"
  by (simp add: inv_Intensity_def)

lemma Intensity_pyramid_returns_iff:
  assumes a0: "a0 < length (store s)" and idx: "indexable (t_data (store s ! a0))"
  shows "(\<exists>v s'. Intensity_pyramid K source target a0 dd (int n) s = (Inr v, s')) \<longleftrightarrow>
           levels_accepted K dd source target n"
proof (rule returns_iff [where Q = "inv_Intensity K a0 dd (int n) source target (s\<lparr>trace := trace s @ [RGBToGrayCall, RGBToGrayCall]\<rparr>) (int n)"])
  have n: "0 \<le> int n" by simp
  have idx': "indexable (t_data (store (s\<lparr>trace := trace s @ [RGBToGrayCall, RGBToGrayCall]\<rparr>) ! a0))" using idx by simp
  note start = inv_Intensity_start [OF a0 n, of K dd source target]
  show "post (Intensity_pyramid K source target a0 dd (int n)) s
          (\<lambda>x s'. levels_accepted K dd source target n) (\<lambda>e s'. True)"
    unfolding post_Intensity_pyramid
    using pyramid_loop_needs [where I = "inv_Intensity K a0 dd (int n) source target (s\<lparr>trace := trace s @ [RGBToGrayCall, RGBToGrayCall]\<rparr>)",
        OF start n inv_Intensity_base inv_Intensity_step Intensity_body_needs]
    by simp
  show "post (Intensity_pyramid K source target a0 dd (int n)) s
          (inv_Intensity K a0 dd (int n) source target (s\<lparr>trace := trace s @ [RGBToGrayCall, RGBToGrayCall]\<rparr>) (int n)) (\<lambda>e s'. False)"
    if acc: "levels_accepted K dd source target n"
  proof -
    from acc have acc': "levels_accepted K dd source target (nat (int n))" by simp
    show ?thesis
      unfolding post_Intensity_pyramid
      by (rule pyramid_loop_returns [where I = "inv_Intensity K a0 dd (int n) source target (s\<lparr>trace := trace s @ [RGBToGrayCall, RGBToGrayCall]\<rparr>)",
          OF start n inv_Intensity_base inv_Intensity_step Intensity_body_returns idx' acc'])
  qed
qed

lemma post_Hybrid_pyramid:
  "post (Hybrid_pyramid K source target a0 dd n) s Q E =
     post (for_loop 0 n (Hybrid_pyramid_body K a0 dd n)
            \<lparr>source_depth_curr = depth source, target_depth_curr = depth target,
            source_vertex_maps = replicate (nat n) empty_image,
            intrinsic_matrices = replicate (nat n) None,
            source_intensity_curr = gray K (color source),
            target_intensity_curr = gray K (color target),
            source_intensity = replicate (nat n) empty_image,
            target_intensity = replicate (nat n) empty_image,
            source_depth = replicate (nat n) empty_image,
            target_depth = replicate (nat n) empty_image,
            target_intensity_dx = replicate (nat n) empty_image,
            target_intensity_dy = replicate (nat n) empty_image,
            target_depth_dx = replicate (nat n) empty_image,
            target_depth_dy = replicate (nat n) empty_image\<rparr>)
       (s\<lparr>trace := trace s @ [RGBToGrayCall, RGBToGrayCall]\<rparr>) Q E"
  by (simp add: Hybrid_pyramid_def gray_def)

lemma inv_Hybrid_start:
  assumes "a0 < length (store s)" "0 \<le> n"
  shows "inv_Hybrid K a0 dd n source target (s\<lparr>trace := trace s @ [RGBToGrayCall, RGBToGrayCall]\<rparr>) 0
            \<lparr>source_depth_curr = depth source, target_depth_curr = depth target,
            source_vertex_maps = replicate (nat n) empty_image,
            intrinsic_matrices = replicate (nat n) None,
            source_intensity_curr = gray K (color source),
            target_intensity_curr = gray K (color target),
            source_intensity = replicate (nat n) empty_image,
            target_intensity = replicate (nat n) empty_image,
            source_depth = replicate (nat n) empty_image,
            target_depth = replicate (nat n) empty_image,
            target_intensity_dx = replicate (nat n) empty_image,
            target_intensity_dy = replicate (nat n) empty_image,
            target_depth_dx = replicate (nat n) empty_image,
            target_depth_dy = replicate (nat n) empty_image\<rparr>
            (s\<lparr>trace := trace s @ [RGBToGrayCall, RGBToGrayCall]\<rparr>)"
  using assms by (auto simp: inv_Hybrid_def inv_base_def inv_intensity_vars_def)

lemma inv_Hybrid_base:
  "inv_Hybrid K a0 dd n source target s0 j v s \<Longrightarrow> inv_base K a0 dd n source target s0 j v s"
  by (simp add: inv_Hybrid_def)

lemma Hybrid_pyramid_returns_iff:
  assumes a0: "a0 < length (store s)" and idx: "indexable (t_data (store s ! a0))"
  shows "(\<exists>v s'. Hybrid_pyramid K source target a0 dd (int n) s = (Inr v, s')) \<longleftrightarrow>
           levels_accepted K dd source target n"
proof (rule returns_iff [where Q = "inv_Hybrid K a0 dd (int n) source target (s\<lparr>trace := trace s @ [RGBToGrayCall, RGBToGrayCall]\<rparr>) (int n)"])
  have n: "0 \<le> int n" by simp
  have idx': "indexable (t_data (store (s\<lparr>trace := trace s @ [RGBToGrayCall, RGBToGrayCall]\<rparr>) ! a0))" using idx by simp
  note start = inv_Hybrid_start [OF a0 n, of K dd source target]
  show "post (Hybrid_pyramid K source target a0 dd (int n)) s
          (\<lambda>x s'. levels_accepted K dd source target n) (\<lambda>e s'. True)"
    unfolding post_Hybrid_pyramid
    using pyramid_loop_needs [where I = "inv_Hybrid K a0 dd (int n) source target (s\<lparr>trace := trace s @ [RGBToGrayCall, RGBToGrayCall]\<rparr>)",
        OF start n inv_Hybrid_base inv_Hybrid_step Hybrid_body_needs]
    by simp
  show "post (Hybrid_pyramid K source target a0 dd (int n)) s
          (inv_Hybrid K a0 dd (int n) source target (s\<lparr>trace := trace s @ [RGBToGrayCall, RGBToGrayCall]\<rparr>) (int n)) (\<lambda>e s'. False)"
    if acc: "levels_accepted K dd source target n"
  proof -
    from acc have acc': "levels_accepted K dd source target (nat (int n))" by simp
    show ?thesis
      unfolding post_Hybrid_pyramid
      by (rule pyramid_loop_returns [where I = "inv_Hybrid K a0 dd (int n) source target (s\<lparr>trace := trace s @ [RGBToGrayCall, RGBToGrayCall]\<rparr>)",
          OF start n inv_Hybrid_base inv_Hybrid_step Hybrid_body_returns idx' acc'])
  qed
qed

lemma halving_commutes: "(a :: int) div 2 ^ j div 2 = a div (2 * 2 ^ j)"
proof -
  have "a div 2 ^ j div 2 = a div (2 ^ j * 2)" by (simp add: zdiv_zmult2_eq)
  also have "\<dots> = a div (2 * 2 ^ j)" by (simp add: mult.commute)
  finally show ?thesis .
qed

lemma depth_level_shape:
  "GetRows (depth_level K dd img j) = GetRows img div 2 ^ j"
  "GetCols (depth_level K dd img j) = GetCols img div 2 ^ j"
  "GetDtype (depth_level K dd img j) = GetDtype img"
  "GetChannels (depth_level K dd img j) = (if j = 0 then GetChannels img else 1)"
  by (induction j) (simp_all add: depth_level_def down_depth_def halving_commutes)

lemma refused_level:
  "refused (depth_level K dd img j) \<longleftrightarrow>
     (GetRows img div 2 ^ j \<le> 0 \<or> GetCols img div 2 ^ j \<le> 0 \<or>
      (j = 0 \<and> GetChannels img \<noteq> 1) \<or> GetDtype img \<noteq> Float32)"
  by (simp add: refused_def depth_level_shape)

subsection \<open>The order of the schedule\<close>

lemma set_schedule: "k \<in> set (schedule its n) \<Longrightarrow> k < n"
  by (auto simp: schedule_def)

lemma sorted_schedule: "sorted (schedule its n)"
proof (induction n)
  case 0
  show ?case by (simp add: schedule_def)
next
  case (Suc n)
  have "\<forall>x\<in>set (schedule its n). \<forall>y\<in>set (replicate (nat (its ! n)) n). x \<le> y"
    using set_schedule [of _ its n] by fastforce
  with Suc show ?case
    unfolding schedule_Suc by (simp add: sorted_append sorted_replicate)
qed

lemma remdups_adj_schedule:
  "remdups_adj (schedule its n) = filter (\<lambda>k. 0 < its ! k) [0..<n]"
proof (induction n)
  case 0
  show ?case by (simp add: schedule_def)
next
  case (Suc n)
  show ?case
  proof (cases "0 < its ! n")
    case False
    then have "nat (its ! n) = 0" by simp
    with Suc False show ?thesis unfolding schedule_Suc by simp
  next
    case True
    then obtain m where m: "nat (its ! n) = Suc m" by (cases "nat (its ! n)") auto
    have last: "schedule its n = [] \<or> last (schedule its n) \<noteq> n"
      using set_schedule [of "last (schedule its n)" its n] by (cases "schedule its n = []") auto
    have "remdups_adj (schedule its n @ replicate (Suc m) n) =
            remdups_adj (schedule its n) @ remdups_adj (replicate (Suc m) n)"
      using last by (intro remdups_adj_append') auto
    moreover have "remdups_adj (replicate (Suc m) n) = [n]"
      unfolding remdups_adj_replicate by simp
    ultimately have "remdups_adj (schedule its n @ replicate (Suc m) n) =
            remdups_adj (schedule its n) @ [n]"
      by (rule trans [OF _ arg_cong])
    with Suc True show ?thesis unfolding schedule_Suc m by simp
  qed
qed

subsection \<open>The configuration reader\<close>

lemma criteria_loop:
  "post (for_loop 0 (int n) (\<lambda>i cs. ret (cs @ [f (nat i)])) cs) s
     (\<lambda>cs' s'. cs' = cs @ map f [0..<n] \<and> s' = s) (\<lambda>e s'. False)"
proof -
  have "post (for_loop 0 (int n) (\<lambda>i cs. ret (cs @ [f (nat i)])) cs) s
          ((\<lambda>j cs' s'. cs' = cs @ map f [0..<nat j] \<and> s' = s) (int n)) (\<lambda>e s'. False)"
  proof (rule post_for_loop [where I = "\<lambda>j cs' s'. cs' = cs @ map f [0..<nat j] \<and> s' = s"])
    show "cs = cs @ map f [0..<nat 0] \<and> s = s" by simp
    show "0 \<le> int n" by simp
    fix j :: int and x :: "'a list" and s' :: state
    assume j: "0 \<le> j" "j < int n" and inv: "x = cs @ map f [0..<nat j] \<and> s' = s"
    have n: "nat (j + 1) = Suc (nat j)" using j by simp
    show "post (ret (x @ [f (nat j)])) s'
            (\<lambda>cs' s'. cs' = cs @ map f [0..<nat (j + 1)] \<and> s' = s) (\<lambda>e s'. False)"
      unfolding n post_ret using inv by simp
  qed
  then show ?thesis by simp
qed

lemma ReadConfigFile_criteria_ok:
  assumes "length search_radius = length voxel_sizes" "length max_iterations = length voxel_sizes"
    "length relative_fitness = length voxel_sizes" "length relative_rmse = length voxel_sizes"
  shows "ReadConfigFile_criteria voxel_sizes search_radius max_iterations relative_fitness
           relative_rmse criterias s =
         (Inr (criterias @
                 map (\<lambda>i. \<lparr>crit_relative_fitness = relative_fitness ! i,
                            crit_relative_rmse = relative_rmse ! i,
                            crit_max_iteration = max_iterations ! i\<rparr>)
                   [0..<length voxel_sizes]), s)"
proof (rule run_eq)
  show "post (ReadConfigFile_criteria voxel_sizes search_radius max_iterations relative_fitness
           relative_rmse criterias) s
         (\<lambda>x s'. x = criterias @
                 map (\<lambda>i. \<lparr>crit_relative_fitness = relative_fitness ! i,
                            crit_relative_rmse = relative_rmse ! i,
                            crit_max_iteration = max_iterations ! i\<rparr>)
                   [0..<length voxel_sizes] \<and> s' = s) (\<lambda>e s'. False)"
    unfolding ReadConfigFile_criteria_def using assms
    by (simp add: criteria_loop [where f = "\<lambda>i. \<lparr>crit_relative_fitness = relative_fitness ! i,
                            crit_relative_rmse = relative_rmse ! i,
                            crit_max_iteration = max_iterations ! i\<rparr>"])
qed

lemma ReadConfigFile_criteria_mismatch:
  assumes "length search_radius \<noteq> length voxel_sizes \<or> length max_iterations \<noteq> length voxel_sizes \<or>
    length relative_fitness \<noteq> length voxel_sizes \<or> length relative_rmse \<noteq> length voxel_sizes"
  shows "ReadConfigFile_criteria voxel_sizes search_radius max_iterations relative_fitness
           relative_rmse criterias s = (Inl VectorLengthMismatch, s)"
  using assms by (auto simp: ReadConfigFile_criteria_def LogError_def)

lemma driver_no_length_error:
  assumes "RGBDOdometryMultiScale K source target intr init ds dm dd its method s = (Inl e, s')"
  shows "e \<noteq> VectorLengthMismatch"
  using post_error [OF raises_onlyD [OF raises_only_driver
        [where P = "\<lambda>e. e \<noteq> VectorLengthMismatch"]] assms]
  by simp

lemma method_levels:
  "RGBDOdometryMultiScalePointToPlane K source target a0 t ds dm dd its =
     andThen (PointToPlane_pyramid K source target a0 dd (int (length its)))
       (\<lambda>v. PointToPlane_odometry K v dd its (int (length its)) t)"
  "RGBDOdometryMultiScaleIntensity K source target a0 t ds dm dd its =
     andThen (Intensity_pyramid K source target a0 dd (int (length its)))
       (\<lambda>v. Intensity_odometry K v dd its (int (length its)) t)"
  "RGBDOdometryMultiScaleHybrid K source target a0 t ds dm dd its =
     andThen (Hybrid_pyramid K source target a0 dd (int (length its)))
       (\<lambda>v. Hybrid_odometry K v dd its (int (length its)) t)"
  by (simp_all add: RGBDOdometryMultiScalePointToPlane_def RGBDOdometryMultiScaleIntensity_def
      RGBDOdometryMultiScaleHybrid_def Let_def)

subsection \<open>Depth clipping\<close>

lemma clip_pixel_Val:
  "clip_pixel scale lo hi fill (Val x) =
     (if scale = 0 \<or> x / scale < lo \<or> hi < x / scale then fill else Val (x / scale))"
  by (simp add: clip_pixel_def)

lemma clip_pixel_NaN: "clip_pixel scale lo hi fill NaN = fill"
  by (simp add: clip_pixel_def)

lemma driver_dispatches_processed:
  "GetDevice (depth target) = GetDevice (depth source) \<Longrightarrow>
   RGBDOdometryMultiScale K source target intrinsics init_source_to_target
       depth_scale depth_max depth_diff iterations method =
     andThen (To intrinsics (CPU 0) Float64) (\<lambda>a.
     andThen (Clone a) (\<lambda>intrinsics_d.
     andThen (To init_source_to_target (CPU 0) Float64) (\<lambda>b.
     andThen (Clone b) (\<lambda>trans_d.
     andThen (emit ClipTransformCall) (\<lambda>_.
     andThen (emit ClipTransformCall) (\<lambda>_.
       MethodDispatch K method
         \<lparr>color = color source,
          depth = ClipTransform K (depth source) depth_scale 0 depth_max NaN\<rparr>
         \<lparr>color = color target,
          depth = ClipTransform K (depth target) depth_scale 0 depth_max NaN\<rparr>
         intrinsics_d trans_d depth_scale depth_max depth_diff iterations))))))"
  by (simp add: RGBDOdometryMultiScale_def Preprocess_def call_def andThen_def ret_def emit_def
      fun_eq_iff split: prod.splits sum.splits)

section \<open>The claims\<close>

text \<open>
  C1.  For each of the three cost methods and at every pyramid index, an iteration replaces
  the running transformation \<open>T\<close> by \<open>A * T\<close>, where \<open>A\<close> is the incremental transform
  that the \<^verbatim>\<open>ComputePose\<close> function of the method returns for this index and estimate
  (\<^verbatim>\<open>trans = delta.Matmul(trans)\<close>).  Two successive iterations with increments \<open>A\<close> and
  then \<open>B\<close> therefore end with \<open>B * (A * T)\<close>.  The order matters: for the quarter turns
  about the x and the z axis the two orders give different matrices.

  The loops thread the estimate through all their iterations: each optimisation loop
  returns the tensor \<open>estimate_after inc ks T\<close>, where \<open>T\<close> is the estimate it was
  given, \<open>ks\<close> the schedule of its iterations and \<open>inc\<close> the increment of the method,
  so that every increment is computed for the estimate of the iteration before and
  multiplied on its left.  The same holds for the three functions
  \<^verbatim>\<open>RGBDOdometryMultiScalePointToPlane\<close>, \<^verbatim>\<open>RGBDOdometryMultiScaleIntensity\<close> and
  \<^verbatim>\<open>RGBDOdometryMultiScaleHybrid\<close> with the pyramid they build.
\<close>

theorem increments_premultiply:
  "composes_in_order
     (\<lambda>i t. ComputePosePointToPlane K (source_vertex_maps v1 ! nat i) (target_vertex_maps v1 ! nat i)
        (target_normal_maps v1 ! nat i) (intrinsic_matrices v1 ! nat i) t depth_diff)
     (PointToPlane_iteration K v1 depth_diff)
   \<and> composes_in_order
     (\<lambda>i t. ComputePoseIntensity K (source_depth v2 ! nat i) (target_depth v2 ! nat i)
        (source_intensity v2 ! nat i) (target_intensity v2 ! nat i)
        (target_intensity_dx v2 ! nat i) (target_intensity_dy v2 ! nat i)
        (source_vertex_maps v2 ! nat i) (intrinsic_matrices v2 ! nat i) t depth_diff)
     (Intensity_iteration K v2 depth_diff)
   \<and> composes_in_order
     (\<lambda>i t. ComputePoseHybrid K (source_depth v3 ! nat i) (target_depth v3 ! nat i)
        (source_intensity v3 ! nat i) (target_intensity v3 ! nat i)
        (target_depth_dx v3 ! nat i) (target_depth_dy v3 ! nat i)
        (target_intensity_dx v3 ! nat i) (target_intensity_dy v3 ! nat i)
        (source_vertex_maps v3 ! nat i) (intrinsic_matrices v3 ! nat i) t depth_diff)
     (Hybrid_iteration K v3 depth_diff)
   \<and> mat_mul quarter_turn_z (mat_mul quarter_turn_x identity4) \<noteq>
     mat_mul quarter_turn_x (mat_mul quarter_turn_z identity4)
   \<and> (t < length (store s) \<and> levels_stored v1 (length iterations) s \<longrightarrow>
        (\<exists>t' s'. PointToPlane_odometry K v1 depth_diff iterations (int (length iterations)) t s
                   = (Inr t', s') \<and>
           store s' ! t' =
             estimate_after (PointToPlane_increment K v1 depth_diff s)
               (schedule iterations (length iterations)) (store s ! t)))
   \<and> (t < length (store s) \<and> levels_stored v2 (length iterations) s \<longrightarrow>
        (\<exists>t' s'. Intensity_odometry K v2 depth_diff iterations (int (length iterations)) t s
                   = (Inr t', s') \<and>
           store s' ! t' =
             estimate_after (Intensity_increment K v2 depth_diff s)
               (schedule iterations (length iterations)) (store s ! t)))
   \<and> (t < length (store s) \<and> levels_stored v3 (length iterations) s \<longrightarrow>
        (\<exists>t' s'. Hybrid_odometry K v3 depth_diff iterations (int (length iterations)) t s
                   = (Inr t', s') \<and>
           store s' ! t' =
             estimate_after (Hybrid_increment K v3 depth_diff s)
               (schedule iterations (length iterations)) (store s ! t)))
   \<and> (a0 < length (store s) \<and> t < length (store s) \<and> t \<noteq> a0 \<and>
       RGBDOdometryMultiScalePointToPlane K source target a0 t depth_scale depth_max depth_diff
         iterations s = (Inr r1, s1) \<longrightarrow>
        (\<exists>v sv. PointToPlane_pyramid K source target a0 depth_diff (int (length iterations)) s
                   = (Inr v, sv) \<and>
           store s1 ! r1 =
             estimate_after (PointToPlane_increment K v depth_diff sv)
               (schedule iterations (length iterations)) (store s ! t)))
   \<and> (a0 < length (store s) \<and> t < length (store s) \<and> t \<noteq> a0 \<and>
       RGBDOdometryMultiScaleIntensity K source target a0 t depth_scale depth_max depth_diff
         iterations s = (Inr r2, s2) \<longrightarrow>
        (\<exists>v sv. Intensity_pyramid K source target a0 depth_diff (int (length iterations)) s
                   = (Inr v, sv) \<and>
           store s2 ! r2 =
             estimate_after (Intensity_increment K v depth_diff sv)
               (schedule iterations (length iterations)) (store s ! t)))
   \<and> (a0 < length (store s) \<and> t < length (store s) \<and> t \<noteq> a0 \<and>
       RGBDOdometryMultiScaleHybrid K source target a0 t depth_scale depth_max depth_diff
         iterations s = (Inr r3, s3) \<longrightarrow>
        (\<exists>v sv. Hybrid_pyramid K source target a0 depth_diff (int (length iterations)) s
                   = (Inr v, sv) \<and>
           store s3 ! r3 =
             estimate_after (Hybrid_increment K v depth_diff sv)
               (schedule iterations (length iterations)) (store s ! t)))
   \<and> estimate_after inc [j, k] T =
       premultiply (inc k (premultiply (inc j T) T)) (premultiply (inc j T) T)
   \<and> t_data (premultiply D T) = mat_mul (t_data D) (t_data T)"
proof -
  have loop1: "\<exists>t' s'. PointToPlane_odometry K v1 depth_diff iterations (int (length iterations)) t s
                   = (Inr t', s') \<and>
           store s' ! t' =
             estimate_after (PointToPlane_increment K v1 depth_diff s)
               (schedule iterations (length iterations)) (store s ! t)"
    if "t < length (store s) \<and> levels_stored v1 (length iterations) s"
    using post_total [OF PointToPlane_odometry_exact [of t s v1 iterations K depth_diff]] that
    by (blast dest: exact_run_estimate)
  have loop2: "\<exists>t' s'. Intensity_odometry K v2 depth_diff iterations (int (length iterations)) t s
                   = (Inr t', s') \<and>
           store s' ! t' =
             estimate_after (Intensity_increment K v2 depth_diff s)
               (schedule iterations (length iterations)) (store s ! t)"
    if "t < length (store s) \<and> levels_stored v2 (length iterations) s"
    using post_total [OF Intensity_odometry_exact [of t s v2 iterations K depth_diff]] that
    by (blast dest: exact_run_estimate)
  have loop3: "\<exists>t' s'. Hybrid_odometry K v3 depth_diff iterations (int (length iterations)) t s
                   = (Inr t', s') \<and>
           store s' ! t' =
             estimate_after (Hybrid_increment K v3 depth_diff s)
               (schedule iterations (length iterations)) (store s ! t)"
    if "t < length (store s) \<and> levels_stored v3 (length iterations) s"
    using post_total [OF Hybrid_odometry_exact [of t s v3 iterations K depth_diff]] that
    by (blast dest: exact_run_estimate)
  have m1: "\<exists>v sv. PointToPlane_pyramid K source target a0 depth_diff (int (length iterations)) s
                   = (Inr v, sv) \<and>
           store s1 ! r1 =
             estimate_after (PointToPlane_increment K v depth_diff sv)
               (schedule iterations (length iterations)) (store s ! t)"
    if h: "a0 < length (store s) \<and> t < length (store s) \<and> t \<noteq> a0 \<and>
       RGBDOdometryMultiScalePointToPlane K source target a0 t depth_scale depth_max depth_diff
         iterations s = (Inr r1, s1)"
  proof -
    from h have a0: "a0 < length (store s)" and t: "t < length (store s)" and ne: "t \<noteq> a0"
      and run: "RGBDOdometryMultiScalePointToPlane K source target a0 t depth_scale depth_max
         depth_diff iterations s = (Inr r1, s1)"
      by blast+
    from PointToPlane_method_exact [OF a0 t run] obtain v sv where
      pyr: "PointToPlane_pyramid K source target a0 depth_diff (int (length iterations)) s = (Inr v, sv)"
      and ex: "exact_run (PointToPlane_increment K v depth_diff sv) sv t
                 (schedule iterations (length iterations)) r1 s1"
      by blast
    have "store sv ! t = store s ! t"
      using grows_nth [OF PointToPlane_pyramid_grows [OF pyr] t ne] .
    with exact_run_estimate [OF ex] pyr show ?thesis by auto
  qed
  have m2: "\<exists>v sv. Intensity_pyramid K source target a0 depth_diff (int (length iterations)) s
                   = (Inr v, sv) \<and>
           store s2 ! r2 =
             estimate_after (Intensity_increment K v depth_diff sv)
               (schedule iterations (length iterations)) (store s ! t)"
    if h: "a0 < length (store s) \<and> t < length (store s) \<and> t \<noteq> a0 \<and>
       RGBDOdometryMultiScaleIntensity K source target a0 t depth_scale depth_max depth_diff
         iterations s = (Inr r2, s2)"
  proof -
    from h have a0: "a0 < length (store s)" and t: "t < length (store s)" and ne: "t \<noteq> a0"
      and run: "RGBDOdometryMultiScaleIntensity K source target a0 t depth_scale depth_max
         depth_diff iterations s = (Inr r2, s2)"
      by blast+
    from Intensity_method_exact [OF a0 t run] obtain v sv where
      pyr: "Intensity_pyramid K source target a0 depth_diff (int (length iterations)) s = (Inr v, sv)"
      and ex: "exact_run (Intensity_increment K v depth_diff sv) sv t
                 (schedule iterations (length iterations)) r2 s2"
      by blast
    have "store sv ! t = store s ! t"
      using grows_nth [OF Intensity_pyramid_grows [OF pyr] t ne] .
    with exact_run_estimate [OF ex] pyr show ?thesis by auto
  qed
  have m3: "\<exists>v sv. Hybrid_pyramid K source target a0 depth_diff (int (length iterations)) s
                   = (Inr v, sv) \<and>
           store s3 ! r3 =
             estimate_after (Hybrid_increment K v depth_diff sv)
               (schedule iterations (length iterations)) (store s ! t)"
    if h: "a0 < length (store s) \<and> t < length (store s) \<and> t \<noteq> a0 \<and>
       RGBDOdometryMultiScaleHybrid K source target a0 t depth_scale depth_max depth_diff
         iterations s = (Inr r3, s3)"
  proof -
    from h have a0: "a0 < length (store s)" and t: "t < length (store s)" and ne: "t \<noteq> a0"
      and run: "RGBDOdometryMultiScaleHybrid K source target a0 t depth_scale depth_max
         depth_diff iterations s = (Inr r3, s3)"
      by blast+
    from Hybrid_method_exact [OF a0 t run] obtain v sv where
      pyr: "Hybrid_pyramid K source target a0 depth_diff (int (length iterations)) s = (Inr v, sv)"
      and ex: "exact_run (Hybrid_increment K v depth_diff sv) sv t
                 (schedule iterations (length iterations)) r3 s3"
      by blast
    have "store sv ! t = store s ! t"
      using grows_nth [OF Hybrid_pyramid_grows [OF pyr] t ne] .
    with exact_run_estimate [OF ex] pyr show ?thesis by auto
  qed
  have two: "estimate_after inc [j, k] T =
       premultiply (inc k (premultiply (inc j T) T)) (premultiply (inc j T) T)"
    by (rule estimate_after_two)
  have pm: "t_data (premultiply D T) = mat_mul (t_data D) (t_data T)"
    by (simp add: premultiply_def)
  from loop1 loop2 loop3 m1 m2 m3 two pm
    PointToPlane_composes [of K v1 depth_diff] Intensity_composes [of K v2 depth_diff]
    Hybrid_composes [of K v3 depth_diff] quarter_turns_differ
  show ?thesis by (intro conjI impI) blast+
qed

theorem increments_premultiply_witness:
  "1 < length (store example_state) \<and>
   (\<exists>t1 s1 t2 s2.
      PointToPlane_iteration example_collab (example_levels (CUDA 0)) (7 / 100) 0 1 example_state
        = (Inr t1, s1) \<and>
      PointToPlane_iteration example_collab (example_levels (CUDA 0)) (7 / 100) 0 t1 s1
        = (Inr t2, s2) \<and>
      t_data (store s1 ! t1) = mat_mul quarter_turn_x identity4 \<and>
      t_data (store s2 ! t2) = mat_mul quarter_turn_z (mat_mul quarter_turn_x identity4) \<and>
      t_data (store s2 ! t2) \<noteq> mat_mul quarter_turn_x (mat_mul quarter_turn_z identity4))
   \<and> (\<exists>t' s'.
        PointToPlane_odometry example_collab (example_levels (CUDA 0)) (7 / 100) [2] 1 1 example_state
          = (Inr t', s') \<and>
        t_data (store s' ! t') = mat_mul quarter_turn_z (mat_mul quarter_turn_x identity4))
   \<and> (\<exists>r s'.
        RGBDOdometryMultiScalePointToPlane example_collab (example_frame (CUDA 0))
          (example_frame (CUDA 0)) 0 1 1000 3 (7 / 100) [1, 1] example_state = (Inr r, s') \<and>
        t_data (store s' ! r) = mat_mul quarter_turn_z (mat_mul quarter_turn_x identity4))"
proof -
  have len: "1 < length (store example_state)" by (simp add: example_state_def)
  have T: "t_data (store example_state ! 1) = identity4" by (simp add: example_state_def)
  have inst: "composes_in_order
     (\<lambda>i t. ComputePosePointToPlane example_collab
        (source_vertex_maps (example_levels (CUDA 0)) ! nat i)
        (target_vertex_maps (example_levels (CUDA 0)) ! nat i)
        (target_normal_maps (example_levels (CUDA 0)) ! nat i)
        (intrinsic_matrices (example_levels (CUDA 0)) ! nat i) t (7 / 100))
     (PointToPlane_iteration example_collab (example_levels (CUDA 0)) (7 / 100))"
    by (rule increments_premultiply [where K = example_collab
        and ?v1.0 = "example_levels (CUDA 0)" and depth_diff = "7 / 100", THEN conjunct1])
  have differ: "mat_mul quarter_turn_z (mat_mul quarter_turn_x identity4) \<noteq>
      mat_mul quarter_turn_x (mat_mul quarter_turn_z identity4)"
    by (rule increments_premultiply [THEN conjunct2, THEN conjunct2, THEN conjunct2,
        THEN conjunct1])
  have two: "estimate_after (PointToPlane_increment example_collab v (7 / 100) sv) [j, k]
               (store example_state ! 1) =
             \<lparr>t_dtype = Float64, t_device = CPU 0,
              t_data = mat_mul quarter_turn_z (mat_mul quarter_turn_x identity4)\<rparr>" for v sv j k
    by (simp add: estimate_after_two example_increment premultiply_def example_state_def
        quarter_turn_x_moves)
  have s1: "schedule [2] (length [2 :: int]) = [0, 0]" and s2: "schedule [1, 1] (length [1, 1 :: int]) = [0, 1]"
    by (simp_all add: schedule_def numeral_2_eq_2)
  have lv: "levels_stored (example_levels (CUDA 0)) (length [2 :: int]) example_state"
    by (simp add: levels_stored_def example_levels_def example_state_def)
  have loop: "\<exists>t' s'.
        PointToPlane_odometry example_collab (example_levels (CUDA 0)) (7 / 100) [2] 1 1 example_state
          = (Inr t', s') \<and>
        t_data (store s' ! t') = mat_mul quarter_turn_z (mat_mul quarter_turn_x identity4)"
  proof -
    from increments_premultiply [where K = example_collab and ?v1.0 = "example_levels (CUDA 0)"
        and depth_diff = "7 / 100" and t = 1 and s = example_state and iterations = "[2]",
        THEN conjunct2, THEN conjunct2, THEN conjunct2, THEN conjunct2, THEN conjunct1] len lv
    obtain t' s' where
      "PointToPlane_odometry example_collab (example_levels (CUDA 0)) (7 / 100) [2]
         (int (length [2 :: int])) 1 example_state = (Inr t', s')"
      "store s' ! t' =
         estimate_after (PointToPlane_increment example_collab (example_levels (CUDA 0)) (7 / 100)
           example_state) (schedule [2] (length [2 :: int])) (store example_state ! 1)"
      by blast
    then show ?thesis unfolding s1 two by simp
  qed
  have "post (RGBDOdometryMultiScalePointToPlane example_collab (example_frame (CUDA 0))
          (example_frame (CUDA 0)) 0 1 1000 3 (7 / 100) [1, 1]) example_state
          (\<lambda>r s'. True) (\<lambda>e s'. False)"
    by (simp add: run_simps)
  from post_total [OF this] obtain r sr where
    run: "RGBDOdometryMultiScalePointToPlane example_collab (example_frame (CUDA 0))
          (example_frame (CUDA 0)) 0 1 1000 3 (7 / 100) [1, 1] example_state = (Inr r, sr)"
    by blast
  have whole: "\<exists>r s'.
        RGBDOdometryMultiScalePointToPlane example_collab (example_frame (CUDA 0))
          (example_frame (CUDA 0)) 0 1 1000 3 (7 / 100) [1, 1] example_state = (Inr r, s') \<and>
        t_data (store s' ! r) = mat_mul quarter_turn_z (mat_mul quarter_turn_x identity4)"
  proof -
    have "0 < length (store example_state) \<and> 1 < length (store example_state) \<and> (1 :: nat) \<noteq> 0"
      by (simp add: example_state_def)
    with increments_premultiply [where K = example_collab and depth_diff = "7 / 100" and t = 1
        and s = example_state and iterations = "[1, 1]" and ?a0.0 = 0
        and source = "example_frame (CUDA 0)" and target = "example_frame (CUDA 0)"
        and depth_scale = 1000 and depth_max = 3 and ?r1.0 = r and ?s1.0 = sr,
        THEN conjunct2, THEN conjunct2, THEN conjunct2, THEN conjunct2, THEN conjunct2,
        THEN conjunct2, THEN conjunct2, THEN conjunct1] run
    obtain v sv where
      "store sr ! r =
         estimate_after (PointToPlane_increment example_collab v (7 / 100) sv)
           (schedule [1, 1] (length [1, 1 :: int])) (store example_state ! 1)"
      by blast
    then have "t_data (store sr ! r) = mat_mul quarter_turn_z (mat_mul quarter_turn_x identity4)"
      unfolding s2 two by simp
    with run show ?thesis by blast
  qed
  from inst [unfolded composes_in_order_def, rule_format, OF len, of 0 0]
  obtain dA sA t1 s1 dB sB t2 s2 where
    cA: "ComputePosePointToPlane example_collab
        (source_vertex_maps (example_levels (CUDA 0)) ! nat 0)
        (target_vertex_maps (example_levels (CUDA 0)) ! nat 0)
        (target_normal_maps (example_levels (CUDA 0)) ! nat 0)
        (intrinsic_matrices (example_levels (CUDA 0)) ! nat 0) 1 (7 / 100) example_state = (Inr dA, sA)"
    and iA: "PointToPlane_iteration example_collab (example_levels (CUDA 0)) (7 / 100) 0 1 example_state
        = (Inr t1, s1)"
    and dA: "t_data (store s1 ! t1) = mat_mul (t_data (store sA ! dA)) (t_data (store example_state ! 1))"
    and cB: "ComputePosePointToPlane example_collab
        (source_vertex_maps (example_levels (CUDA 0)) ! nat 0)
        (target_vertex_maps (example_levels (CUDA 0)) ! nat 0)
        (target_normal_maps (example_levels (CUDA 0)) ! nat 0)
        (intrinsic_matrices (example_levels (CUDA 0)) ! nat 0) t1 (7 / 100) s1 = (Inr dB, sB)"
    and iB: "PointToPlane_iteration example_collab (example_levels (CUDA 0)) (7 / 100) 0 t1 s1
        = (Inr t2, s2)"
    and dB: "t_data (store s2 ! t2) =
       mat_mul (t_data (store sB ! dB))
         (mat_mul (t_data (store sA ! dA)) (t_data (store example_state ! 1)))"
    by blast
  have A: "t_data (store sA ! dA) = quarter_turn_x"
    using example_compute [OF cA] T by simp
  have moved: "mat_mul quarter_turn_x identity4 \<noteq> identity4"
    by (simp add: mat_mul_def quarter_turn_x_def identity4_def)
  have B: "t_data (store sB ! dB) = quarter_turn_z"
    using example_compute [OF cB] dA A T moved by simp
  have iter: "\<exists>t1 s1 t2 s2.
      PointToPlane_iteration example_collab (example_levels (CUDA 0)) (7 / 100) 0 1 example_state
        = (Inr t1, s1) \<and>
      PointToPlane_iteration example_collab (example_levels (CUDA 0)) (7 / 100) 0 t1 s1
        = (Inr t2, s2) \<and>
      t_data (store s1 ! t1) = mat_mul quarter_turn_x identity4 \<and>
      t_data (store s2 ! t2) = mat_mul quarter_turn_z (mat_mul quarter_turn_x identity4) \<and>
      t_data (store s2 ! t2) \<noteq> mat_mul quarter_turn_x (mat_mul quarter_turn_z identity4)"
    using iA iB dA dB A B T differ by auto
  from len iter loop whole show ?thesis by blast
qed

text \<open>
  C2.  When the depth images of the two frames are on different devices,
  \<^verbatim>\<open>RGBDOdometryMultiScale\<close> stops with the device mismatch error and leaves the state as
  it found it: no tensor was created, and no preprocessing, pyramid or pose kernel was
  called.
\<close>

theorem device_mismatch_fails_first:
  "GetDevice (depth target) \<noteq> GetDevice (depth source) \<Longrightarrow>
   RGBDOdometryMultiScale K source target intrinsics init_source_to_target
       depth_scale depth_max depth_diff iterations method s =
     (Inl (DeviceMismatch (GetDevice (depth source)) (GetDevice (depth target))), s)"
  by (simp add: RGBDOdometryMultiScale_def LogError_def)

theorem device_mismatch_fails_first_witness:
  "RGBDOdometryMultiScale example_collab (example_frame (CUDA 0)) (example_frame (CPU 0)) 0 1
       1000 3 (7 / 100) [2, 1] Hybrid example_state =
     (Inl (DeviceMismatch (CUDA 0) (CPU 0)), example_state)"
proof -
  have "GetDevice (depth (example_frame (CPU 0))) \<noteq> GetDevice (depth (example_frame (CUDA 0)))"
    by (simp add: example_frame_def example_depth_def)
  from device_mismatch_fails_first [OF this]
  show ?thesis by (simp add: example_frame_def example_depth_def)
qed



text \<open>
  C4.  Each of the three optimisation loops always returns, after exactly the pose kernel
  calls of the fixed schedule: \<open>iterations ! i\<close> calls at every index \<open>i\<close> whose count
  is not negative, index after index.  This holds for all collaborators \<open>K\<close>, so nothing
  that a kernel returns (its residual included) ends a level early.  Whenever the driver
  returns a transformation, the pose kernel calls made are those of the whole schedule.

  The calls are those of the kernels: the store gains, for every entry \<open>k\<close> of the
  schedule and in this order, the transformation of the pose that the kernel returns for
  the images at index \<open>k\<close> and the estimate of the iteration before, followed by the new
  estimate, and nothing else; so there are as many kernel results as schedule entries.
  This is stated for the loops and for the three functions of the cost methods.  Replacing
  the residuals that the kernels return by anything else leaves the loops as they are.
  The kernels are collaborators defined outside these files and are taken to return.
\<close>

theorem fixed_iteration_budget:
  "runs_schedule (PointToPlane_odometry K v1 depth_diff)
   \<and> runs_schedule (Intensity_odometry K v2 depth_diff)
   \<and> runs_schedule (Hybrid_odometry K v3 depth_diff)
   \<and> (\<forall>i<length iterations. 0 \<le> iterations ! i \<longrightarrow>
         int (count_list (schedule iterations (length iterations)) i) = iterations ! i)
   \<and> (RGBDOdometryMultiScale K source target intrinsics init_source_to_target
         depth_scale depth_max depth_diff iterations method s = (Inr r, s') \<longrightarrow>
       pose_calls (trace s') = pose_calls (trace s) @ schedule iterations (length iterations))
   \<and> (t < length (store s) \<and> levels_stored v1 (length iterations) s \<longrightarrow>
        (\<exists>t' s'. PointToPlane_odometry K v1 depth_diff iterations (int (length iterations)) t s
                   = (Inr t', s') \<and>
           store s' = store s @
             iteration_tensors (PointToPlane_increment K v1 depth_diff s)
               (schedule iterations (length iterations)) (store s ! t) \<and>
           trace s' = trace s @ map ComputePoseCall (schedule iterations (length iterations))))
   \<and> (t < length (store s) \<and> levels_stored v2 (length iterations) s \<longrightarrow>
        (\<exists>t' s'. Intensity_odometry K v2 depth_diff iterations (int (length iterations)) t s
                   = (Inr t', s') \<and>
           store s' = store s @
             iteration_tensors (Intensity_increment K v2 depth_diff s)
               (schedule iterations (length iterations)) (store s ! t) \<and>
           trace s' = trace s @ map ComputePoseCall (schedule iterations (length iterations))))
   \<and> (t < length (store s) \<and> levels_stored v3 (length iterations) s \<longrightarrow>
        (\<exists>t' s'. Hybrid_odometry K v3 depth_diff iterations (int (length iterations)) t s
                   = (Inr t', s') \<and>
           store s' = store s @
             iteration_tensors (Hybrid_increment K v3 depth_diff s)
               (schedule iterations (length iterations)) (store s ! t) \<and>
           trace s' = trace s @ map ComputePoseCall (schedule iterations (length iterations))))
   \<and> (a0 < length (store s) \<and> t < length (store s) \<and>
       RGBDOdometryMultiScalePointToPlane K source target a0 t depth_scale depth_max depth_diff
         iterations s = (Inr r1, s1) \<longrightarrow>
        (\<exists>v sv. PointToPlane_pyramid K source target a0 depth_diff (int (length iterations)) s
                   = (Inr v, sv) \<and>
           store s1 = store sv @
             iteration_tensors (PointToPlane_increment K v depth_diff sv)
               (schedule iterations (length iterations)) (store sv ! t) \<and>
           trace s1 = trace sv @ map ComputePoseCall (schedule iterations (length iterations))))
   \<and> (a0 < length (store s) \<and> t < length (store s) \<and>
       RGBDOdometryMultiScaleIntensity K source target a0 t depth_scale depth_max depth_diff
         iterations s = (Inr r2, s2) \<longrightarrow>
        (\<exists>v sv. Intensity_pyramid K source target a0 depth_diff (int (length iterations)) s
                   = (Inr v, sv) \<and>
           store s2 = store sv @
             iteration_tensors (Intensity_increment K v depth_diff sv)
               (schedule iterations (length iterations)) (store sv ! t) \<and>
           trace s2 = trace sv @ map ComputePoseCall (schedule iterations (length iterations))))
   \<and> (a0 < length (store s) \<and> t < length (store s) \<and>
       RGBDOdometryMultiScaleHybrid K source target a0 t depth_scale depth_max depth_diff
         iterations s = (Inr r3, s3) \<longrightarrow>
        (\<exists>v sv. Hybrid_pyramid K source target a0 depth_diff (int (length iterations)) s
                   = (Inr v, sv) \<and>
           store s3 = store sv @
             iteration_tensors (Hybrid_increment K v depth_diff sv)
               (schedule iterations (length iterations)) (store sv ! t) \<and>
           trace s3 = trace sv @ map ComputePoseCall (schedule iterations (length iterations))))
   \<and> length (iteration_tensors inc ks T) = 2 * length ks
   \<and> (\<forall>i<length ks.
         iteration_tensors inc ks T ! (2 * i) = inc (ks ! i) (estimate_after inc (take i ks) T))
   \<and> PointToPlane_odometry (replace_residuals K g) v1 depth_diff = PointToPlane_odometry K v1 depth_diff
   \<and> Intensity_odometry (replace_residuals K g) v2 depth_diff = Intensity_odometry K v2 depth_diff
   \<and> Hybrid_odometry (replace_residuals K g) v3 depth_diff = Hybrid_odometry K v3 depth_diff"
proof -
  have counts: "\<forall>i<length iterations. 0 \<le> iterations ! i \<longrightarrow>
         int (count_list (schedule iterations (length iterations)) i) = iterations ! i"
    by (simp add: count_schedule)
  have driver: "pose_calls (trace s') = pose_calls (trace s) @ schedule iterations (length iterations)"
    if "RGBDOdometryMultiScale K source target intrinsics init_source_to_target
         depth_scale depth_max depth_diff iterations method s = (Inr r, s')"
    using driver_returns [OF that] by (simp add: driver_post_def)
  have loop1: "\<exists>t' s'. PointToPlane_odometry K v1 depth_diff iterations (int (length iterations)) t s
                   = (Inr t', s') \<and>
           store s' = store s @
             iteration_tensors (PointToPlane_increment K v1 depth_diff s)
               (schedule iterations (length iterations)) (store s ! t) \<and>
           trace s' = trace s @ map ComputePoseCall (schedule iterations (length iterations))"
    if "t < length (store s) \<and> levels_stored v1 (length iterations) s"
    using post_total [OF PointToPlane_odometry_exact [of t s v1 iterations K depth_diff]] that
    by (blast dest: exact_run_store)
  have loop2: "\<exists>t' s'. Intensity_odometry K v2 depth_diff iterations (int (length iterations)) t s
                   = (Inr t', s') \<and>
           store s' = store s @
             iteration_tensors (Intensity_increment K v2 depth_diff s)
               (schedule iterations (length iterations)) (store s ! t) \<and>
           trace s' = trace s @ map ComputePoseCall (schedule iterations (length iterations))"
    if "t < length (store s) \<and> levels_stored v2 (length iterations) s"
    using post_total [OF Intensity_odometry_exact [of t s v2 iterations K depth_diff]] that
    by (blast dest: exact_run_store)
  have loop3: "\<exists>t' s'. Hybrid_odometry K v3 depth_diff iterations (int (length iterations)) t s
                   = (Inr t', s') \<and>
           store s' = store s @
             iteration_tensors (Hybrid_increment K v3 depth_diff s)
               (schedule iterations (length iterations)) (store s ! t) \<and>
           trace s' = trace s @ map ComputePoseCall (schedule iterations (length iterations))"
    if "t < length (store s) \<and> levels_stored v3 (length iterations) s"
    using post_total [OF Hybrid_odometry_exact [of t s v3 iterations K depth_diff]] that
    by (blast dest: exact_run_store)
  have m1: "\<exists>v sv. PointToPlane_pyramid K source target a0 depth_diff (int (length iterations)) s
                   = (Inr v, sv) \<and>
           store s1 = store sv @
             iteration_tensors (PointToPlane_increment K v depth_diff sv)
               (schedule iterations (length iterations)) (store sv ! t) \<and>
           trace s1 = trace sv @ map ComputePoseCall (schedule iterations (length iterations))"
    if "a0 < length (store s) \<and> t < length (store s) \<and>
       RGBDOdometryMultiScalePointToPlane K source target a0 t depth_scale depth_max depth_diff
         iterations s = (Inr r1, s1)"
    using PointToPlane_method_exact [of a0 s t K source target depth_scale depth_max depth_diff
        iterations r1 s1] that
    by (blast dest: exact_run_store)
  have m2: "\<exists>v sv. Intensity_pyramid K source target a0 depth_diff (int (length iterations)) s
                   = (Inr v, sv) \<and>
           store s2 = store sv @
             iteration_tensors (Intensity_increment K v depth_diff sv)
               (schedule iterations (length iterations)) (store sv ! t) \<and>
           trace s2 = trace sv @ map ComputePoseCall (schedule iterations (length iterations))"
    if "a0 < length (store s) \<and> t < length (store s) \<and>
       RGBDOdometryMultiScaleIntensity K source target a0 t depth_scale depth_max depth_diff
         iterations s = (Inr r2, s2)"
    using Intensity_method_exact [of a0 s t K source target depth_scale depth_max depth_diff
        iterations r2 s2] that
    by (blast dest: exact_run_store)
  have m3: "\<exists>v sv. Hybrid_pyramid K source target a0 depth_diff (int (length iterations)) s
                   = (Inr v, sv) \<and>
           store s3 = store sv @
             iteration_tensors (Hybrid_increment K v depth_diff sv)
               (schedule iterations (length iterations)) (store sv ! t) \<and>
           trace s3 = trace sv @ map ComputePoseCall (schedule iterations (length iterations))"
    if "a0 < length (store s) \<and> t < length (store s) \<and>
       RGBDOdometryMultiScaleHybrid K source target a0 t depth_scale depth_max depth_diff
         iterations s = (Inr r3, s3)"
    using Hybrid_method_exact [of a0 s t K source target depth_scale depth_max depth_diff
        iterations r3 s3] that
    by (blast dest: exact_run_store)
  have nth: "\<forall>i<length ks.
         iteration_tensors inc ks T ! (2 * i) = inc (ks ! i) (estimate_after inc (take i ks) T)"
    by (simp add: iteration_tensors_nth)
  note rs = runs_schedule_PointToPlane [of K v1 depth_diff] runs_schedule_Intensity [of K v2 depth_diff]
    runs_schedule_Hybrid [of K v3 depth_diff]
  note res = odometry_residual [of K g]
  from rs counts driver loop1 loop2 loop3 m1 m2 m3 length_iteration_tensors [of inc ks T] nth
    res(1) [of v1 depth_diff] res(2) [of v2 depth_diff] res(3) [of v3 depth_diff]
  show ?thesis by (intro conjI impI) blast+
qed

theorem fixed_iteration_budget_witness:
  "int (count_list (schedule [2, 0, 1] 3) 0) = 2
   \<and> int (count_list (schedule [2, 0, 1] 3) 1) = 0
   \<and> int (count_list (schedule [2, 0, 1] 3) 2) = 1
   \<and> (\<exists>r s'. RGBDOdometryMultiScale example_collab (example_frame (CUDA 0))
          (example_frame (CUDA 0)) 0 1 1000 3 (7 / 100) [2, 0, 1] Hybrid example_state = (Inr r, s')
        \<and> pose_calls (trace s') = [0, 0, 2])
   \<and> (\<exists>t' s'.
        PointToPlane_odometry example_collab (example_levels (CUDA 0)) (7 / 100) [2] 1 1 example_state
          = (Inr t', s') \<and>
        store s' = store example_state @
          [\<lparr>t_dtype = Float64, t_device = CPU 0, t_data = quarter_turn_x\<rparr>,
           \<lparr>t_dtype = Float64, t_device = CPU 0, t_data = mat_mul quarter_turn_x identity4\<rparr>,
           \<lparr>t_dtype = Float64, t_device = CPU 0, t_data = quarter_turn_z\<rparr>,
           \<lparr>t_dtype = Float64, t_device = CPU 0,
            t_data = mat_mul quarter_turn_z (mat_mul quarter_turn_x identity4)\<rparr>] \<and>
        trace s' = [ComputePoseCall 0, ComputePoseCall 0])
   \<and> PointToPlane_odometry (replace_residuals example_collab (\<lambda>x. 1)) (example_levels (CUDA 0))
         (7 / 100) [2] 1 1 example_state =
       PointToPlane_odometry example_collab (example_levels (CUDA 0)) (7 / 100) [2] 1 1 example_state"
proof -
  have "post (RGBDOdometryMultiScale example_collab (example_frame (CUDA 0))
         (example_frame (CUDA 0)) 0 1 1000 3 (7 / 100) [2, 0, 1] Hybrid) example_state
        (\<lambda>r s'. True) (\<lambda>e s'. False)"
    by (simp add: run_simps)
  from post_total [OF this] obtain r s' where
    run: "RGBDOdometryMultiScale example_collab (example_frame (CUDA 0))
         (example_frame (CUDA 0)) 0 1 1000 3 (7 / 100) [2, 0, 1] Hybrid example_state = (Inr r, s')"
    by blast
  note inst = fixed_iteration_budget [of example_collab _ "7 / 100" _ _ "[2, 0, 1]"
      "example_frame (CUDA 0)" "example_frame (CUDA 0)" 0 1 1000 3 Hybrid example_state r s']
  have counts: "\<forall>i<length [2, 0, 1 :: int]. 0 \<le> [2, 0, 1 :: int] ! i \<longrightarrow>
         int (count_list (schedule [2, 0, 1] (length [2, 0, 1 :: int])) i) = [2, 0, 1 :: int] ! i"
    by (rule inst [THEN conjunct2, THEN conjunct2, THEN conjunct2, THEN conjunct1])
  have calls: "pose_calls (trace s') =
      pose_calls (trace example_state) @ schedule [2, 0, 1] (length [2, 0, 1 :: int])"
    using inst [THEN conjunct2, THEN conjunct2, THEN conjunct2, THEN conjunct2, THEN conjunct1] run
    by blast
  have len: "length [2, 0, 1 :: int] = 3" by simp
  have c0: "int (count_list (schedule [2, 0, 1] 3) 0) = 2"
    using counts [rule_format, of 0] unfolding len by simp
  have c1: "int (count_list (schedule [2, 0, 1] 3) 1) = 0"
    using counts [rule_format, of 1] unfolding len by simp
  have c2: "int (count_list (schedule [2, 0, 1] 3) 2) = 1"
    using counts [rule_format, of 2] unfolding len by simp
  have sched: "schedule [2, 0, 1] 3 = [0, 0, 2]"
    by code_simp
  have pc: "pose_calls (trace s') = [0, 0, 2]"
    using calls unfolding len sched by (simp add: example_state_def)
  have s1: "schedule [2] (length [2 :: int]) = [0, 0]"
    by (simp add: schedule_def numeral_2_eq_2)
  have lv: "1 < length (store example_state) \<and>
            levels_stored (example_levels (CUDA 0)) (length [2 :: int]) example_state"
    by (simp add: levels_stored_def example_levels_def example_state_def)
  have tens: "iteration_tensors
          (PointToPlane_increment example_collab (example_levels (CUDA 0)) (7 / 100) example_state)
          [0, 0] (store example_state ! 1) =
        [\<lparr>t_dtype = Float64, t_device = CPU 0, t_data = quarter_turn_x\<rparr>,
         \<lparr>t_dtype = Float64, t_device = CPU 0, t_data = mat_mul quarter_turn_x identity4\<rparr>,
         \<lparr>t_dtype = Float64, t_device = CPU 0, t_data = quarter_turn_z\<rparr>,
         \<lparr>t_dtype = Float64, t_device = CPU 0,
          t_data = mat_mul quarter_turn_z (mat_mul quarter_turn_x identity4)\<rparr>]"
    by (simp add: example_increment premultiply_def example_state_def quarter_turn_x_moves)
  from fixed_iteration_budget [where K = example_collab and ?v1.0 = "example_levels (CUDA 0)"
      and depth_diff = "7 / 100" and iterations = "[2]" and t = 1 and s = example_state,
      THEN conjunct2, THEN conjunct2, THEN conjunct2, THEN conjunct2, THEN conjunct2,
      THEN conjunct1] lv
  obtain t' sl where
    l1: "PointToPlane_odometry example_collab (example_levels (CUDA 0)) (7 / 100) [2]
           (int (length [2 :: int])) 1 example_state = (Inr t', sl)"
    and l2: "store sl = store example_state @
          iteration_tensors
            (PointToPlane_increment example_collab (example_levels (CUDA 0)) (7 / 100) example_state)
            (schedule [2] (length [2 :: int])) (store example_state ! 1)"
    and l3: "trace sl = trace example_state @ map ComputePoseCall (schedule [2] (length [2 :: int]))"
    by blast
  have loop: "\<exists>t' s'.
        PointToPlane_odometry example_collab (example_levels (CUDA 0)) (7 / 100) [2] 1 1 example_state
          = (Inr t', s') \<and>
        store s' = store example_state @
          [\<lparr>t_dtype = Float64, t_device = CPU 0, t_data = quarter_turn_x\<rparr>,
           \<lparr>t_dtype = Float64, t_device = CPU 0, t_data = mat_mul quarter_turn_x identity4\<rparr>,
           \<lparr>t_dtype = Float64, t_device = CPU 0, t_data = quarter_turn_z\<rparr>,
           \<lparr>t_dtype = Float64, t_device = CPU 0,
            t_data = mat_mul quarter_turn_z (mat_mul quarter_turn_x identity4)\<rparr>] \<and>
        trace s' = [ComputePoseCall 0, ComputePoseCall 0]"
    using l1 l2 l3 unfolding s1 tens by (simp add: example_state_def)
  have res: "PointToPlane_odometry (replace_residuals example_collab (\<lambda>x. 1))
         (example_levels (CUDA 0)) (7 / 100) =
       PointToPlane_odometry example_collab (example_levels (CUDA 0)) (7 / 100)"
    by (rule fixed_iteration_budget [where K = example_collab
        and ?v1.0 = "example_levels (CUDA 0)" and depth_diff = "7 / 100" and g = "\<lambda>x. 1",
        THEN conjunct2, THEN conjunct2, THEN conjunct2, THEN conjunct2, THEN conjunct2,
        THEN conjunct2, THEN conjunct2, THEN conjunct2, THEN conjunct2, THEN conjunct2,
        THEN conjunct2, THEN conjunct2, THEN conjunct2, THEN conjunct1])
  have res': "PointToPlane_odometry (replace_residuals example_collab (\<lambda>x. 1))
         (example_levels (CUDA 0)) (7 / 100) [2] 1 1 example_state =
       PointToPlane_odometry example_collab (example_levels (CUDA 0)) (7 / 100) [2] 1 1 example_state"
    unfolding res by (rule refl)
  from c0 c1 c2 run pc loop res' show ?thesis by blast
qed

text \<open>
  C5.  The level transition \<open>halve_intrinsics\<close> divides every entry of the working
  intrinsics by 2 and then sets the bottom-right entry to 1, in place.  After \<open>j\<close>
  transitions a 3x3 matrix has every entry divided by \<open>2 ^ j\<close>, except the bottom-right
  one, which is 1 as soon as \<open>j > 0\<close>.  In each of the three pyramids over \<open>n\<close> levels,
  the matrix stored at index \<open>k\<close> is a clone (a tensor created by the builder) holding the
  input intrinsics after \<open>n - 1 - k\<close> transitions: it was taken before the halving of its
  own level.
\<close>

theorem stored_intrinsics_per_level:
  "(a0 < length (store s) \<and> t_data (store s ! a0) \<noteq> [] \<and> last (t_data (store s ! a0)) \<noteq> [] \<longrightarrow>
      halve_intrinsics a0 s =
        (Inr (), s\<lparr>store := (store s)[a0 := (store s ! a0)
           \<lparr>t_data := set_last_last (div_all (t_data (store s ! a0)) 2) 1\<rparr>]\<rparr>))
   \<and> (is_3x3 M \<and> r < 3 \<and> c < 3 \<longrightarrow>
        (halved ^^ j) M ! r ! c =
          (if r = 2 \<and> c = 2 then (if j = 0 then M ! 2 ! 2 else 1) else M ! r ! c / 2 ^ j))
   \<and> (a0 < length (store s) \<and>
       PointToPlane_pyramid K source target a0 depth_diff (int n) s = (Inr v1, s1) \<longrightarrow>
        (\<forall>k<n. clone_at (length (store s)) (store s1) (intrinsic_matrices v1 ! k)
                  (level_tensor (store s ! a0) (n - 1 - k))))
   \<and> (a0 < length (store s) \<and>
       Intensity_pyramid K source target a0 depth_diff (int n) s = (Inr v2, s2) \<longrightarrow>
        (\<forall>k<n. clone_at (length (store s)) (store s2) (intrinsic_matrices v2 ! k)
                  (level_tensor (store s ! a0) (n - 1 - k))))
   \<and> (a0 < length (store s) \<and>
       Hybrid_pyramid K source target a0 depth_diff (int n) s = (Inr v3, s3) \<longrightarrow>
        (\<forall>k<n. clone_at (length (store s)) (store s3) (intrinsic_matrices v3 ! k)
                  (level_tensor (store s ! a0) (n - 1 - k))))"
proof (intro conjI impI)
  assume "a0 < length (store s) \<and> t_data (store s ! a0) \<noteq> [] \<and> last (t_data (store s ! a0)) \<noteq> []"
  then show "halve_intrinsics a0 s =
        (Inr (), s\<lparr>store := (store s)[a0 := (store s ! a0)
           \<lparr>t_data := set_last_last (div_all (t_data (store s ! a0)) 2) 1\<rparr>]\<rparr>)"
    by (simp add: halve_intrinsics_run)
next
  assume "is_3x3 M \<and> r < 3 \<and> c < 3"
  then show "(halved ^^ j) M ! r ! c =
          (if r = 2 \<and> c = 2 then (if j = 0 then M ! 2 ! 2 else 1) else M ! r ! c / 2 ^ j)"
    using halved_funpow_entry by blast
next
  assume "a0 < length (store s) \<and>
       PointToPlane_pyramid K source target a0 depth_diff (int n) s = (Inr v1, s1)"
  then have "\<forall>k<n. level_PointToPlane K depth_diff source target (store s ! a0) (length (store s)) n v1 s1 k"
    using PointToPlane_pyramid_result by blast
  then show "\<forall>k<n. clone_at (length (store s)) (store s1) (intrinsic_matrices v1 ! k)
                  (level_tensor (store s ! a0) (n - 1 - k))"
    by (simp add: level_PointToPlane_def level_base_def)
next
  assume "a0 < length (store s) \<and>
       Intensity_pyramid K source target a0 depth_diff (int n) s = (Inr v2, s2)"
  then have "\<forall>k<n. level_Intensity K depth_diff source target (store s ! a0) (length (store s)) n v2 s2 k"
    using Intensity_pyramid_result by blast
  then show "\<forall>k<n. clone_at (length (store s)) (store s2) (intrinsic_matrices v2 ! k)
                  (level_tensor (store s ! a0) (n - 1 - k))"
    by (simp add: level_Intensity_def level_base_def)
next
  assume "a0 < length (store s) \<and>
       Hybrid_pyramid K source target a0 depth_diff (int n) s = (Inr v3, s3)"
  then have "\<forall>k<n. level_Hybrid K depth_diff source target (store s ! a0) (length (store s)) n v3 s3 k"
    using Hybrid_pyramid_result by blast
  then show "\<forall>k<n. clone_at (length (store s)) (store s3) (intrinsic_matrices v3 ! k)
                  (level_tensor (store s ! a0) (n - 1 - k))"
    by (simp add: level_Hybrid_def level_Intensity_def level_base_def)
qed

theorem stored_intrinsics_per_level_witness:
  "halve_intrinsics 0 example_state =
     (Inr (), example_state\<lparr>store := (store example_state)
        [0 := example_intrinsics\<lparr>t_data := [[4, 0, 2], [0, 4, 1], [0, 0, 1]]\<rparr>]\<rparr>)
   \<and> (halved ^^ 3) [[8, 0, 4], [0, 8, 2], [0, 0, 1]] ! 0 ! 2 = 1 / 2
   \<and> (halved ^^ 3) [[8, 0, 4], [0, 8, 2], [0, 0, 5]] ! 2 ! 2 = 1
   \<and> (\<exists>v s'. PointToPlane_pyramid example_collab (example_frame (CPU 0)) (example_frame (CPU 0))
               0 (7 / 100) 2 example_state = (Inr v, s')
         \<and> clone_at 2 (store s') (intrinsic_matrices v ! 0)
             (example_intrinsics\<lparr>t_data := [[4, 0, 2], [0, 4, 1], [0, 0, 1]]\<rparr>)
         \<and> clone_at 2 (store s') (intrinsic_matrices v ! 1) example_intrinsics)
   \<and> (\<exists>v s'. Intensity_pyramid example_collab (example_frame (CPU 0)) (example_frame (CPU 0))
               0 (7 / 100) 2 example_state = (Inr v, s')
         \<and> clone_at 2 (store s') (intrinsic_matrices v ! 0)
             (example_intrinsics\<lparr>t_data := [[4, 0, 2], [0, 4, 1], [0, 0, 1]]\<rparr>)
         \<and> clone_at 2 (store s') (intrinsic_matrices v ! 1) example_intrinsics)
   \<and> (\<exists>v s'. Hybrid_pyramid example_collab (example_frame (CPU 0)) (example_frame (CPU 0))
               0 (7 / 100) 2 example_state = (Inr v, s')
         \<and> clone_at 2 (store s') (intrinsic_matrices v ! 0)
             (example_intrinsics\<lparr>t_data := [[4, 0, 2], [0, 4, 1], [0, 0, 1]]\<rparr>)
         \<and> clone_at 2 (store s') (intrinsic_matrices v ! 1) example_intrinsics)"
proof -
  have st0: "store example_state ! 0 = example_intrinsics" and len: "length (store example_state) = 2"
    by (simp_all add: example_state_def)
  have lev0: "level_tensor example_intrinsics 0 = example_intrinsics"
    by (simp add: level_tensor_def)
  have "post (PointToPlane_pyramid example_collab (example_frame (CPU 0)) (example_frame (CPU 0))
               0 (7 / 100) 2) example_state (\<lambda>v s'. True) (\<lambda>e s'. False)"
    by (simp add: run_simps)
  from post_total [OF this] obtain v1 s1 where
    run1: "PointToPlane_pyramid example_collab (example_frame (CPU 0)) (example_frame (CPU 0))
               0 (7 / 100) (int 2) example_state = (Inr v1, s1)"
    by auto
  have "post (Intensity_pyramid example_collab (example_frame (CPU 0)) (example_frame (CPU 0))
               0 (7 / 100) 2) example_state (\<lambda>v s'. True) (\<lambda>e s'. False)"
    by (simp add: run_simps)
  from post_total [OF this] obtain v2 s2 where
    run2: "Intensity_pyramid example_collab (example_frame (CPU 0)) (example_frame (CPU 0))
               0 (7 / 100) (int 2) example_state = (Inr v2, s2)"
    by auto
  have "post (Hybrid_pyramid example_collab (example_frame (CPU 0)) (example_frame (CPU 0))
               0 (7 / 100) 2) example_state (\<lambda>v s'. True) (\<lambda>e s'. False)"
    by (simp add: run_simps)
  from post_total [OF this] obtain v3 s3 where
    run3: "Hybrid_pyramid example_collab (example_frame (CPU 0)) (example_frame (CPU 0))
               0 (7 / 100) (int 2) example_state = (Inr v3, s3)"
    by auto
  note inst = stored_intrinsics_per_level [of 0 example_state "[[8, 0, 4], [0, 8, 2], [0, 0, 1]]" 0 2 3
      example_collab "example_frame (CPU 0)" "example_frame (CPU 0)" "7 / 100" 2 v1 s1 v2 s2 v3 s3]
  note inst' = stored_intrinsics_per_level [of 0 example_state "[[8, 0, 4], [0, 8, 2], [0, 0, 5]]" 2 2 3]
  have a: "halve_intrinsics 0 example_state =
     (Inr (), example_state\<lparr>store := (store example_state)
        [0 := example_intrinsics\<lparr>t_data := [[4, 0, 2], [0, 4, 1], [0, 0, 1]]\<rparr>]\<rparr>)"
    using inst by (simp add: example_state_def example_intrinsics_def div_all_def set_last_last_def)
  have b: "(halved ^^ 3) [[8, 0, 4], [0, 8, 2], [0, 0, 1]] ! 0 ! 2 = 1 / 2"
    using inst by (simp add: is_3x3_def)
  have c: "(halved ^^ 3) [[8, 0, 4], [0, 8, 2], [0, 0, 5]] ! 2 ! 2 = 1"
    using inst' by (simp add: is_3x3_def)
  have l1: "\<forall>k<2. clone_at (length (store example_state)) (store s1) (intrinsic_matrices v1 ! k)
                  (level_tensor (store example_state ! 0) (2 - 1 - k))"
    using inst run1 len by simp
  have l2: "\<forall>k<2. clone_at (length (store example_state)) (store s2) (intrinsic_matrices v2 ! k)
                  (level_tensor (store example_state ! 0) (2 - 1 - k))"
    using inst run2 len by simp
  have l3: "\<forall>k<2. clone_at (length (store example_state)) (store s3) (intrinsic_matrices v3 ! k)
                  (level_tensor (store example_state ! 0) (2 - 1 - k))"
    using inst run3 len by simp
  have p1: "clone_at 2 (store s1) (intrinsic_matrices v1 ! 0)
             (example_intrinsics\<lparr>t_data := [[4, 0, 2], [0, 4, 1], [0, 0, 1]]\<rparr>)
         \<and> clone_at 2 (store s1) (intrinsic_matrices v1 ! 1) example_intrinsics"
    using l1 [rule_format, of 0] l1 [rule_format, of 1]
    by (simp add: st0 len lev0 example_level_1 [simplified])
  have p2: "clone_at 2 (store s2) (intrinsic_matrices v2 ! 0)
             (example_intrinsics\<lparr>t_data := [[4, 0, 2], [0, 4, 1], [0, 0, 1]]\<rparr>)
         \<and> clone_at 2 (store s2) (intrinsic_matrices v2 ! 1) example_intrinsics"
    using l2 [rule_format, of 0] l2 [rule_format, of 1]
    by (simp add: st0 len lev0 example_level_1 [simplified])
  have p3: "clone_at 2 (store s3) (intrinsic_matrices v3 ! 0)
             (example_intrinsics\<lparr>t_data := [[4, 0, 2], [0, 4, 1], [0, 0, 1]]\<rparr>)
         \<and> clone_at 2 (store s3) (intrinsic_matrices v3 ! 1) example_intrinsics"
    using l3 [rule_format, of 0] l3 [rule_format, of 1]
    by (simp add: st0 len lev0 example_level_1 [simplified])
  from run1 run2 run3 have
    r1: "PointToPlane_pyramid example_collab (example_frame (CPU 0)) (example_frame (CPU 0))
               0 (7 / 100) 2 example_state = (Inr v1, s1)"
    and r2: "Intensity_pyramid example_collab (example_frame (CPU 0)) (example_frame (CPU 0))
               0 (7 / 100) 2 example_state = (Inr v2, s2)"
    and r3: "Hybrid_pyramid example_collab (example_frame (CPU 0)) (example_frame (CPU 0))
               0 (7 / 100) 2 example_state = (Inr v3, s3)"
    by simp_all
  from a b c r1 p1 r2 p2 r3 p3 show ?thesis by blast
qed




text \<open>
  C7.  With \<^verbatim>\<open>ClipTransform\<close> as the spec describes it, the preprocessing returns, for
  source and target, a frame whose depth pixels are those of the input passed through
  \<open>clip_pixel depth_scale 0 depth_max NaN\<close>: a value \<open>x\<close> becomes NaN when \<open>x / depth_scale\<close>
  is below 0 or above \<open>depth_max\<close> (or the scale is 0), and \<open>x / depth_scale\<close> otherwise;
  NaN stays NaN.  The colour images and the headers of the depth images are unchanged.
  When the devices agree, the driver hands exactly these two frames to the dispatch on the
  cost method, after the two clipping calls.
\<close>

theorem preprocessing_clips_depth:
  "(ClipTransform K = ClipTransform_spec \<longrightarrow>
      Preprocess K source target depth_scale depth_max s =
        (Inr (\<lparr>color = color source,
               depth = (depth source)
                 \<lparr>pixels := map (clip_pixel depth_scale 0 depth_max NaN) (pixels (depth source))\<rparr>\<rparr>,
              \<lparr>color = color target,
               depth = (depth target)
                 \<lparr>pixels := map (clip_pixel depth_scale 0 depth_max NaN) (pixels (depth target))\<rparr>\<rparr>),
         s\<lparr>trace := trace s @ [ClipTransformCall, ClipTransformCall]\<rparr>))
   \<and> clip_pixel depth_scale 0 depth_max NaN (Val x) =
       (if depth_scale = 0 \<or> x / depth_scale < 0 \<or> depth_max < x / depth_scale then NaN
        else Val (x / depth_scale))
   \<and> clip_pixel depth_scale 0 depth_max NaN NaN = NaN
   \<and> (GetDevice (depth target) = GetDevice (depth source) \<longrightarrow>
        RGBDOdometryMultiScale K source target intrinsics init_source_to_target
            depth_scale depth_max depth_diff iterations method =
          andThen (To intrinsics (CPU 0) Float64) (\<lambda>a.
          andThen (Clone a) (\<lambda>intrinsics_d.
          andThen (To init_source_to_target (CPU 0) Float64) (\<lambda>b.
          andThen (Clone b) (\<lambda>trans_d.
          andThen (emit ClipTransformCall) (\<lambda>_.
          andThen (emit ClipTransformCall) (\<lambda>_.
            MethodDispatch K method
              \<lparr>color = color source,
               depth = ClipTransform K (depth source) depth_scale 0 depth_max NaN\<rparr>
              \<lparr>color = color target,
               depth = ClipTransform K (depth target) depth_scale 0 depth_max NaN\<rparr>
              intrinsics_d trans_d depth_scale depth_max depth_diff iterations)))))))"
proof -
  have pre: "Preprocess K source target depth_scale depth_max s =
        (Inr (\<lparr>color = color source,
               depth = (depth source)
                 \<lparr>pixels := map (clip_pixel depth_scale 0 depth_max NaN) (pixels (depth source))\<rparr>\<rparr>,
              \<lparr>color = color target,
               depth = (depth target)
                 \<lparr>pixels := map (clip_pixel depth_scale 0 depth_max NaN) (pixels (depth target))\<rparr>\<rparr>),
         s\<lparr>trace := trace s @ [ClipTransformCall, ClipTransformCall]\<rparr>)"
    if "ClipTransform K = ClipTransform_spec"
    by (rule run_eq) (simp add: post_Preprocess that ClipTransform_spec_def)
  show ?thesis
    by (intro conjI impI) (rule pre clip_pixel_Val clip_pixel_NaN driver_dispatches_processed; assumption)+
qed

theorem preprocessing_clips_depth_witness:
  "ClipTransform example_collab = ClipTransform_spec
   \<and> Preprocess example_collab (example_frame (CUDA 0)) (example_frame (CUDA 0)) 1000 3 example_state =
        (Inr (\<lparr>color = example_color (CUDA 0),
               depth = (example_depth (CUDA 0))\<lparr>pixels := [Val (1 / 2), NaN, NaN, NaN]\<rparr>\<rparr>,
              \<lparr>color = example_color (CUDA 0),
               depth = (example_depth (CUDA 0))\<lparr>pixels := [Val (1 / 2), NaN, NaN, NaN]\<rparr>\<rparr>),
         example_state\<lparr>trace := [ClipTransformCall, ClipTransformCall]\<rparr>)"
proof -
  have K: "ClipTransform example_collab = ClipTransform_spec"
    by (simp add: example_collab_def)
  note inst = preprocessing_clips_depth [of example_collab "example_frame (CUDA 0)"
      "example_frame (CUDA 0)" 1000 3 example_state, THEN conjunct1]
  from inst K have "Preprocess example_collab (example_frame (CUDA 0)) (example_frame (CUDA 0))
        1000 3 example_state =
        (Inr (\<lparr>color = color (example_frame (CUDA 0)),
               depth = (depth (example_frame (CUDA 0)))
                 \<lparr>pixels := map (clip_pixel 1000 0 3 NaN) (pixels (depth (example_frame (CUDA 0))))\<rparr>\<rparr>,
              \<lparr>color = color (example_frame (CUDA 0)),
               depth = (depth (example_frame (CUDA 0)))
                 \<lparr>pixels := map (clip_pixel 1000 0 3 NaN) (pixels (depth (example_frame (CUDA 0))))\<rparr>\<rparr>),
         example_state\<lparr>trace := trace example_state @ [ClipTransformCall, ClipTransformCall]\<rparr>)"
    by blast
  then have "Preprocess example_collab (example_frame (CUDA 0)) (example_frame (CUDA 0)) 1000 3 example_state =
        (Inr (\<lparr>color = example_color (CUDA 0),
               depth = (example_depth (CUDA 0))\<lparr>pixels := [Val (1 / 2), NaN, NaN, NaN]\<rparr>\<rparr>,
              \<lparr>color = example_color (CUDA 0),
               depth = (example_depth (CUDA 0))\<lparr>pixels := [Val (1 / 2), NaN, NaN, NaN]\<rparr>\<rparr>),
         example_state\<lparr>trace := [ClipTransformCall, ClipTransformCall]\<rparr>)"
    by (simp add: example_frame_def example_depth_def example_state_def clip_pixel_def)
  with K show ?thesis by blast
qed




text \<open>
  C9.  With a method value that is none of the three enumerators the driver stops with a
  fatal error: the device mismatch if the devices differ, else "not implemented", raised
  when the two depth images have been clipped and before any pyramid or pose kernel call.
  More generally, whenever the driver stops with an error, no pose kernel has been called.
\<close>

theorem unlisted_method_fails:
  "(\<exists>s'. RGBDOdometryMultiScale K source target intrinsics init_source_to_target
            depth_scale depth_max depth_diff iterations (Unlisted m) s =
          (Inl (if GetDevice (depth target) \<noteq> GetDevice (depth source)
                then DeviceMismatch (GetDevice (depth source)) (GetDevice (depth target))
                else MethodNotImplemented), s')
        \<and> trace s' = trace s @
             (if GetDevice (depth target) \<noteq> GetDevice (depth source) then []
              else [ClipTransformCall, ClipTransformCall]))
   \<and> (RGBDOdometryMultiScale K source target intrinsics init_source_to_target
         depth_scale depth_max depth_diff iterations method s = (Inl e, s') \<longrightarrow>
       pose_calls (trace s') = pose_calls (trace s))"
proof (intro conjI impI)
  have "post (RGBDOdometryMultiScale K source target intrinsics init_source_to_target
            depth_scale depth_max depth_diff iterations (Unlisted m)) s (\<lambda>x s'. False)
          (\<lambda>e s'. e = (if GetDevice (depth target) \<noteq> GetDevice (depth source)
                then DeviceMismatch (GetDevice (depth source)) (GetDevice (depth target))
                else MethodNotImplemented)
             \<and> trace s' = trace s @
             (if GetDevice (depth target) \<noteq> GetDevice (depth source) then []
              else [ClipTransformCall, ClipTransformCall]))"
    by (simp add: RGBDOdometryMultiScale_def MethodDispatch_def post_To post_Preprocess)
  from post_fails [OF this]
  show "\<exists>s'. RGBDOdometryMultiScale K source target intrinsics init_source_to_target
            depth_scale depth_max depth_diff iterations (Unlisted m) s =
          (Inl (if GetDevice (depth target) \<noteq> GetDevice (depth source)
                then DeviceMismatch (GetDevice (depth source)) (GetDevice (depth target))
                else MethodNotImplemented), s')
        \<and> trace s' = trace s @
             (if GetDevice (depth target) \<noteq> GetDevice (depth source) then []
              else [ClipTransformCall, ClipTransformCall])"
    by blast
next
  assume "RGBDOdometryMultiScale K source target intrinsics init_source_to_target
         depth_scale depth_max depth_diff iterations method s = (Inl e, s')"
  from driver_fails [OF this]
  show "pose_calls (trace s') = pose_calls (trace s)"
    by (simp add: driver_fail_def)
qed

theorem unlisted_method_fails_witness:
  "(\<exists>s'. RGBDOdometryMultiScale example_collab (example_frame (CUDA 0)) (example_frame (CUDA 0))
            0 1 1000 3 (7 / 100) [2, 1] (Unlisted 7) example_state = (Inl MethodNotImplemented, s')
        \<and> trace s' = [ClipTransformCall, ClipTransformCall])
   \<and> (\<exists>s'. RGBDOdometryMultiScale example_collab
            ((example_frame (CUDA 0))\<lparr>depth := (example_depth (CUDA 0))\<lparr>GetDtype := UInt16\<rparr>\<rparr>)
            (example_frame (CUDA 0)) 0 1 1000 3 (7 / 100) [1, 1] Intensity example_state
          = (Inl (ExpectedFloat32 UInt16), s')
        \<and> pose_calls (trace s') = [])"
proof -
  have first: "\<exists>s'. RGBDOdometryMultiScale example_collab (example_frame (CUDA 0)) (example_frame (CUDA 0))
            0 1 1000 3 (7 / 100) [2, 1] (Unlisted 7) example_state = (Inl MethodNotImplemented, s')
        \<and> trace s' = [ClipTransformCall, ClipTransformCall]"
    using unlisted_method_fails [of example_collab "example_frame (CUDA 0)" "example_frame (CUDA 0)"
        0 1 1000 3 "7 / 100" "[2, 1]" 7 example_state]
    by (simp add: example_state_def)
  have "post (RGBDOdometryMultiScale example_collab
            ((example_frame (CUDA 0))\<lparr>depth := (example_depth (CUDA 0))\<lparr>GetDtype := UInt16\<rparr>\<rparr>)
            (example_frame (CUDA 0)) 0 1 1000 3 (7 / 100) [1, 1] Intensity) example_state
          (\<lambda>x s'. False) (\<lambda>e s'. e = ExpectedFloat32 UInt16)"
    by (simp add: run_simps)
  from post_fails [OF this] obtain s' where
    run: "RGBDOdometryMultiScale example_collab
            ((example_frame (CUDA 0))\<lparr>depth := (example_depth (CUDA 0))\<lparr>GetDtype := UInt16\<rparr>\<rparr>)
            (example_frame (CUDA 0)) 0 1 1000 3 (7 / 100) [1, 1] Intensity example_state
          = (Inl (ExpectedFloat32 UInt16), s')"
    by blast
  have "pose_calls (trace s') = pose_calls (trace example_state)"
    using unlisted_method_fails [of example_collab _ _ _ _ _ _ _ _ _ example_state] run by blast
  then have "pose_calls (trace s') = []" by (simp add: example_state_def)
  with first run show ?thesis by blast
qed

text \<open>
  C10.  The driver leaves every tensor of the caller's store as it was, whether it returns
  or fails: the intrinsics that are halved in place are a clone, also when the caller's
  matrix is already a double-precision host tensor.  The preprocessing returns new frames
  and changes no tensor.  A returned transformation is a tensor that did not exist before
  the call, of dtype Float64 on the host.
\<close>

theorem caller_tensors_untouched:
  "Preprocess K source target depth_scale depth_max s =
     (Inr (\<lparr>color = color source, depth = ClipTransform K (depth source) depth_scale 0 depth_max NaN\<rparr>,
           \<lparr>color = color target, depth = ClipTransform K (depth target) depth_scale 0 depth_max NaN\<rparr>),
      s\<lparr>trace := trace s @ [ClipTransformCall, ClipTransformCall]\<rparr>)
   \<and> (RGBDOdometryMultiScale K source target intrinsics init_source_to_target
         depth_scale depth_max depth_diff iterations method s = (res, s') \<longrightarrow>
       (\<forall>a<length (store s). store s' ! a = store s ! a) \<and>
       (\<forall>r. res = Inr r \<longrightarrow>
          length (store s) \<le> r \<and> r < length (store s') \<and>
          t_dtype (store s' ! r) = Float64 \<and> t_device (store s' ! r) = CPU 0))"
proof -
  have pre: "Preprocess K source target depth_scale depth_max s =
     (Inr (\<lparr>color = color source, depth = ClipTransform K (depth source) depth_scale 0 depth_max NaN\<rparr>,
           \<lparr>color = color target, depth = ClipTransform K (depth target) depth_scale 0 depth_max NaN\<rparr>),
      s\<lparr>trace := trace s @ [ClipTransformCall, ClipTransformCall]\<rparr>)"
    by (rule run_eq) (simp add: post_Preprocess)
  have main: "(\<forall>a<length (store s). store s' ! a = store s ! a) \<and>
       (\<forall>r. res = Inr r \<longrightarrow>
          length (store s) \<le> r \<and> r < length (store s') \<and>
          t_dtype (store s' ! r) = Float64 \<and> t_device (store s' ! r) = CPU 0)"
    if run: "RGBDOdometryMultiScale K source target intrinsics init_source_to_target
         depth_scale depth_max depth_diff iterations method s = (res, s')"
  proof (cases res)
    case (Inl e)
    with run have "driver_fail s e s'" using driver_fails by blast
    with Inl show ?thesis by (simp add: driver_fail_def)
  next
    case (Inr r)
    with run have "driver_post iterations s r s'" using driver_returns by blast
    with Inr show ?thesis by (simp add: driver_post_def is_host_double_def)
  qed
  from pre main show ?thesis by blast
qed

theorem caller_tensors_untouched_witness:
  "\<exists>r s'. RGBDOdometryMultiScale example_collab (example_frame (CUDA 0)) (example_frame (CUDA 0))
             0 1 1000 3 (7 / 100) [2, 0, 1] Hybrid example_state = (Inr r, s')
     \<and> store s' ! 0 = example_intrinsics
     \<and> store s' ! 1 = \<lparr>t_dtype = Float32, t_device = CUDA 0, t_data = identity4\<rparr>
     \<and> 2 \<le> r \<and> r < length (store s')
     \<and> t_dtype (store s' ! r) = Float64 \<and> t_device (store s' ! r) = CPU 0
     \<and> t_data (store s' ! 2) = [[2, 0, 1], [0, 2, 1 / 2], [0, 0, 1]]"
proof -
  have "post (RGBDOdometryMultiScale example_collab (example_frame (CUDA 0))
         (example_frame (CUDA 0)) 0 1 1000 3 (7 / 100) [2, 0, 1] Hybrid) example_state
        (\<lambda>r s'. t_data (store s' ! 2) = [[2, 0, 1], [0, 2, 1 / 2], [0, 0, 1]]) (\<lambda>e s'. False)"
    by (simp add: run_simps)
  from post_total [OF this] obtain r s' where
    run: "RGBDOdometryMultiScale example_collab (example_frame (CUDA 0))
         (example_frame (CUDA 0)) 0 1 1000 3 (7 / 100) [2, 0, 1] Hybrid example_state = (Inr r, s')"
    and work: "t_data (store s' ! 2) = [[2, 0, 1], [0, 2, 1 / 2], [0, 0, 1]]"
    by blast
  note inst = caller_tensors_untouched [of example_collab "example_frame (CUDA 0)"
      "example_frame (CUDA 0)" 1000 3 example_state 0 1 "7 / 100" "[2, 0, 1]" Hybrid "Inr r" s']
  from inst run have keep: "\<forall>a<length (store example_state). store s' ! a = store example_state ! a"
    and fresh: "length (store example_state) \<le> r \<and> r < length (store s') \<and>
          t_dtype (store s' ! r) = Float64 \<and> t_device (store s' ! r) = CPU 0"
    by blast+
  have "store s' ! 0 = example_intrinsics"
    using keep [rule_format, of 0] by (simp add: example_state_def)
  moreover have "store s' ! 1 = \<lparr>t_dtype = Float32, t_device = CUDA 0, t_data = identity4\<rparr>"
    using keep [rule_format, of 1] by (simp add: example_state_def)
  moreover have "2 \<le> r" using fresh by (simp add: example_state_def)
  ultimately show ?thesis using run work fresh by blast
qed

end
